theory Spec2Isabelle
  imports Main "HOL-Library.Word"
begin

section \<open>Identifiers and their decimal rendering\<close>

text \<open>
  Go's \<open>uint\<close> on the 64-bit targets the service is built for. Strings are byte
  sequences, modelled as \<open>char list\<close>; the one place where the source reads a string
  rune by rune, \<open>replaceAll\<close>, is modelled with the UTF-8 decoding of \<open>range\<close>.
\<close>

type_synonym uint = "64 word"

definition digit_char :: "nat \<Rightarrow> char" where
  "digit_char d = char_of (48 + d)"

text \<open>The verb \<open>%d\<close> of \<open>fmt.Sprintf\<close> on a non-negative number: decimal, no padding.\<close>

fun format_nat :: "nat \<Rightarrow> string" where
  "format_nat n =
     (if n < 10 then [digit_char n] else format_nat (n div 10) @ [digit_char (n mod 10)])"

declare format_nat.simps [simp del]

definition format_uint :: "uint \<Rightarrow> string" where
  "format_uint x = format_nat (unat x)"

text \<open>\<open>strconv.Itoa\<close> on a Go \<open>int\<close>.\<close>

definition Itoa :: "int \<Rightarrow> string" where
  "Itoa i = (if i < 0 then CHR ''-'' # format_nat (nat (- i)) else format_nat (nat i))"

text \<open>The conversion \<open>int(x)\<close> of a \<open>uint\<close>: the same 64 bits read as two's complement.\<close>

definition int_of_uint :: "uint \<Rightarrow> int" where
  "int_of_uint x = sint x"

subsection \<open>Resource names\<close>

text \<open>
  Each name is written inline in the source as \<open>fmt.Sprintf("build-%d...", buildID)\<close>
  (\<open>pod.go\<close> line 42, \<open>resources.go\<close> lines 33, 99, 137, 178-202); the definitions
  carry the names of the local variables that hold them.
\<close>

definition podName :: "uint \<Rightarrow> string" where
  "podName buildID = ''build-'' @ format_uint buildID"

definition configMapName :: "uint \<Rightarrow> string" where
  "configMapName buildID = ''build-'' @ format_uint buildID @ ''-env-files''"

definition secretName :: "uint \<Rightarrow> string" where
  "secretName buildID = ''build-'' @ format_uint buildID @ ''-keystore''"

definition pvcName :: "uint \<Rightarrow> string" where
  "pvcName buildID = ''build-'' @ format_uint buildID @ ''-artifacts''"

section \<open>Base64 (\<open>encoding/base64\<close>, \<open>StdEncoding\<close>)\<close>

text \<open>
  The standard library codec the provisioning code calls. The alphabet is
  \<open>A-Z a-z 0-9 + /\<close> with \<open>=\<close> padding. \<open>DecodeString\<close> skips carriage returns and
  line feeds wherever they occur, requires padding, rejects anything after the
  padding, and (not being the strict variant) does not inspect the unused low bits
  of a padded quantum.
\<close>

definition b64_char :: "nat \<Rightarrow> char" where
  "b64_char v =
     (if v < 26 then char_of (65 + v)
      else if v < 52 then char_of (71 + v)
      else if v < 62 then char_of (v - 4)
      else if v = 62 then CHR ''+'' else CHR ''/'')"

definition b64_value :: "char \<Rightarrow> nat option" where
  "b64_value c =
     (let k = (of_char c :: nat) in
      if 65 \<le> k \<and> k \<le> 90 then Some (k - 65)
      else if 97 \<le> k \<and> k \<le> 122 then Some (k - 71)
      else if 48 \<le> k \<and> k \<le> 57 then Some (k + 4)
      else if k = 43 then Some 62
      else if k = 47 then Some 63
      else None)"

text \<open>The 24-bit value \<open>val\<close> of a quantum and the bytes cut from it.\<close>

definition quantum_val :: "nat \<Rightarrow> nat \<Rightarrow> nat \<Rightarrow> nat \<Rightarrow> nat" where
  "quantum_val a b c d = a * 262144 + b * 4096 + c * 64 + d"

definition byte_of :: "nat \<Rightarrow> char" where
  "byte_of n = char_of (n mod 256)"

fun decodeQuanta :: "string \<Rightarrow> string option" where
  "decodeQuanta [] = Some []"
| "decodeQuanta (a # b # c # d # rest) =
     (case (b64_value a, b64_value b) of
        (Some va, Some vb) \<Rightarrow>
          (if c = CHR ''='' then
             (if d = CHR ''='' \<and> rest = []
              then Some [byte_of (quantum_val va vb 0 0 div 65536)]
              else None)
           else
             (case b64_value c of
                None \<Rightarrow> None
              | Some vc \<Rightarrow>
                  (if d = CHR ''='' then
                     (if rest = []
                      then Some [byte_of (quantum_val va vb vc 0 div 65536),
                                 byte_of (quantum_val va vb vc 0 div 256)]
                      else None)
                   else
                     (case b64_value d of
                        None \<Rightarrow> None
                      | Some vd \<Rightarrow>
                          (case decodeQuanta rest of
                             None \<Rightarrow> None
                           | Some bytes \<Rightarrow>
                               Some (byte_of (quantum_val va vb vc vd div 65536) #
                                     byte_of (quantum_val va vb vc vd div 256) #
                                     byte_of (quantum_val va vb vc vd) # bytes))))))
      | _ \<Rightarrow> None)"
| "decodeQuanta _ = None"

definition is_newline :: "char \<Rightarrow> bool" where
  "is_newline c = (c = CHR 0x0A \<or> c = CHR 0x0D)"

definition DecodeString :: "string \<Rightarrow> string option" where
  "DecodeString s = decodeQuanta (filter (\<lambda>c. \<not> is_newline c) s)"

fun EncodeToString :: "string \<Rightarrow> string" where
  "EncodeToString [] = []"
| "EncodeToString [x] =
     (let v = of_char x * 65536 in
      [b64_char (v div 262144 mod 64), b64_char (v div 4096 mod 64), CHR ''='', CHR ''=''])"
| "EncodeToString [x, y] =
     (let v = of_char x * 65536 + of_char y * 256 in
      [b64_char (v div 262144 mod 64), b64_char (v div 4096 mod 64),
       b64_char (v div 64 mod 64), CHR ''=''])"
| "EncodeToString (x # y # z # rest) =
     (let v = of_char x * 65536 + of_char y * 256 + of_char z in
      b64_char (v div 262144 mod 64) # b64_char (v div 4096 mod 64) #
      b64_char (v div 64 mod 64) # b64_char (v mod 64) # EncodeToString rest)"

section \<open>Errors\<close>

text \<open>
  Every error value the orchestrator can see. \<open>Errorf msg err\<close> stands for
  \<open>fmt.Errorf(msg + ": %v", err)\<close>; a nil-pointer dereference, which the Go runtime
  raises as a panic, is a value of its own.
\<close>

datatype error =
    DBError
  | ErrRecordNotFound
  | CorruptInputError
  | NoClusterConfig
  | ClientsetError
  | APIRejected
  | AlreadyExists
  | NotFound
  | NilPointerPanic
  | Errorf string error

section \<open>Persistent records (\<open>pkg/db/models.go\<close>)\<close>

record Project =
  ID :: uint
  GitRepo :: string
  BuildFolder :: string

record Env =
  ProjectID :: uint
  Key :: string
  Value :: string
  Type :: string
  Path :: string
  IsBase64 :: bool

record Keystore =
  ks_ProjectID :: uint
  KeystoreFile :: string
  StorePassword :: string
  KeyAlias :: string
  KeyPassword :: string
  IsActive :: bool

text \<open>
  The data source behind the global handle \<open>db.DB\<close>: the live rows of the two tables
  in primary-key order, and which of the statements the orchestrator issues currently
  fail (connection lost, table missing, ...). The handle itself is a
  \<open>database option\<close>, \<open>None\<close> for the nil pointer of an uninitialised data source.
  \<open>First\<close> orders by primary key; \<open>Find\<close> is taken to return its rows in the same
  order.
\<close>

datatype query = EnvsQuery string | KeystoreQuery

record database =
  env_rows :: "Env list"
  keystore_rows :: "Keystore list"
  query_fails :: "query \<Rightarrow> bool"

text \<open>\<open>Where("project_id = ? AND type = ?", projectID, ty).Find(&envs)\<close>\<close>

definition Find_envs :: "database \<Rightarrow> uint \<Rightarrow> string \<Rightarrow> error + Env list" where
  "Find_envs d projectID ty =
     (if query_fails d (EnvsQuery ty) then Inl DBError
      else Inr (filter (\<lambda>e. ProjectID e = projectID \<and> Type e = ty) (env_rows d)))"

text \<open>\<open>Where("project_id = ? AND is_active = ?", projectID, true).First(&keystore)\<close>\<close>

definition First_keystore :: "database \<Rightarrow> uint \<Rightarrow> error + Keystore" where
  "First_keystore d projectID =
     (if query_fails d KeystoreQuery then Inl DBError
      else (case filter (\<lambda>k. ks_ProjectID k = projectID \<and> IsActive k) (keystore_rows d) of
              [] \<Rightarrow> Inl ErrRecordNotFound
            | k # _ \<Rightarrow> Inr k))"

section \<open>Cluster objects\<close>

record ObjectMeta =
  Name :: string
  Namespace :: string
  Labels :: "string \<rightharpoonup> string"

record ConfigMap =
  cm_ObjectMeta :: ObjectMeta
  Data :: "string \<rightharpoonup> string"

record Secret =
  sec_ObjectMeta :: ObjectMeta
  sec_Type :: string
  sec_Data :: "string \<rightharpoonup> string"
  StringData :: "string \<rightharpoonup> string"

record PersistentVolumeClaim =
  pvc_ObjectMeta :: ObjectMeta
  AccessModes :: "string list"
  StorageClassName :: string
  pvc_Requests :: "string \<rightharpoonup> string"

record SecretKeySelector =
  sks_Name :: string
  sks_Key :: string

record EnvVar =
  ev_Name :: string
  ev_Value :: string
  ValueFrom :: "SecretKeySelector option"

record VolumeMount =
  vm_Name :: string
  MountPath :: string
  ReadOnly :: bool

datatype VolumeSource =
    PersistentVolumeClaimSource string
  | ConfigMapSource string
  | SecretSource string

record Volume =
  vol_Name :: string
  vol_Source :: VolumeSource

record Container =
  c_Name :: string
  Image :: string
  c_Env :: "EnvVar list"
  VolumeMounts :: "VolumeMount list"
  Requests :: "string \<rightharpoonup> string"
  Limits :: "string \<rightharpoonup> string"

record Pod =
  pod_ObjectMeta :: ObjectMeta
  RestartPolicy :: string
  Containers :: "Container list"
  Volumes :: "Volume list"

section \<open>The cluster API\<close>

text \<open>
  The state of the API server as the orchestrator observes it: the objects of each kind,
  keyed by namespace and name; for each kind of request whether the server currently
  rejects it outright (connectivity, quota, admission); and the log of the requests
  received, in order. A create of an existing name is a conflict, a delete of an
  absent one is "not found"; either leaves the objects unchanged.
\<close>

datatype kind = PodKind | ConfigMapKind | SecretKind | PVCKind

datatype verb = Create | Delete

record cluster =
  pods :: "string \<times> string \<rightharpoonup> Pod"
  configMaps :: "string \<times> string \<rightharpoonup> ConfigMap"
  secrets :: "string \<times> string \<rightharpoonup> Secret"
  pvcs :: "string \<times> string \<rightharpoonup> PersistentVolumeClaim"
  rejects :: "verb \<Rightarrow> kind \<Rightarrow> bool"
  requests :: "(verb \<times> kind \<times> string \<times> string) list"

definition received :: "verb \<Rightarrow> kind \<Rightarrow> string \<Rightarrow> string \<Rightarrow> cluster \<Rightarrow> cluster" where
  "received v k ns n c = c\<lparr>requests := requests c @ [(v, k, ns, n)]\<rparr>"

definition Pods_Create :: "cluster \<Rightarrow> string \<Rightarrow> Pod \<Rightarrow> error option \<times> cluster" where
  "Pods_Create c ns pod =
     (let n = Name (pod_ObjectMeta pod); c1 = received Create PodKind ns n c in
      if rejects c Create PodKind then (Some APIRejected, c1)
      else if pods c (ns, n) \<noteq> None then (Some AlreadyExists, c1)
      else (None, c1\<lparr>pods := (pods c)((ns, n) \<mapsto> pod)\<rparr>))"

definition ConfigMaps_Create :: "cluster \<Rightarrow> string \<Rightarrow> ConfigMap \<Rightarrow> error option \<times> cluster" where
  "ConfigMaps_Create c ns cm =
     (let n = Name (cm_ObjectMeta cm); c1 = received Create ConfigMapKind ns n c in
      if rejects c Create ConfigMapKind then (Some APIRejected, c1)
      else if configMaps c (ns, n) \<noteq> None then (Some AlreadyExists, c1)
      else (None, c1\<lparr>configMaps := (configMaps c)((ns, n) \<mapsto> cm)\<rparr>))"

definition Secrets_Create :: "cluster \<Rightarrow> string \<Rightarrow> Secret \<Rightarrow> error option \<times> cluster" where
  "Secrets_Create c ns s =
     (let n = Name (sec_ObjectMeta s); c1 = received Create SecretKind ns n c in
      if rejects c Create SecretKind then (Some APIRejected, c1)
      else if secrets c (ns, n) \<noteq> None then (Some AlreadyExists, c1)
      else (None, c1\<lparr>secrets := (secrets c)((ns, n) \<mapsto> s)\<rparr>))"

definition PersistentVolumeClaims_Create ::
  "cluster \<Rightarrow> string \<Rightarrow> PersistentVolumeClaim \<Rightarrow> error option \<times> cluster" where
  "PersistentVolumeClaims_Create c ns p =
     (let n = Name (pvc_ObjectMeta p); c1 = received Create PVCKind ns n c in
      if rejects c Create PVCKind then (Some APIRejected, c1)
      else if pvcs c (ns, n) \<noteq> None then (Some AlreadyExists, c1)
      else (None, c1\<lparr>pvcs := (pvcs c)((ns, n) \<mapsto> p)\<rparr>))"

definition Pods_Delete :: "cluster \<Rightarrow> string \<Rightarrow> string \<Rightarrow> error option \<times> cluster" where
  "Pods_Delete c ns n =
     (let c1 = received Delete PodKind ns n c in
      if rejects c Delete PodKind then (Some APIRejected, c1)
      else if pods c (ns, n) = None then (Some NotFound, c1)
      else (None, c1\<lparr>pods := (pods c)((ns, n) := None)\<rparr>))"

definition ConfigMaps_Delete :: "cluster \<Rightarrow> string \<Rightarrow> string \<Rightarrow> error option \<times> cluster" where
  "ConfigMaps_Delete c ns n =
     (let c1 = received Delete ConfigMapKind ns n c in
      if rejects c Delete ConfigMapKind then (Some APIRejected, c1)
      else if configMaps c (ns, n) = None then (Some NotFound, c1)
      else (None, c1\<lparr>configMaps := (configMaps c)((ns, n) := None)\<rparr>))"

definition Secrets_Delete :: "cluster \<Rightarrow> string \<Rightarrow> string \<Rightarrow> error option \<times> cluster" where
  "Secrets_Delete c ns n =
     (let c1 = received Delete SecretKind ns n c in
      if rejects c Delete SecretKind then (Some APIRejected, c1)
      else if secrets c (ns, n) = None then (Some NotFound, c1)
      else (None, c1\<lparr>secrets := (secrets c)((ns, n) := None)\<rparr>))"

definition PersistentVolumeClaims_Delete ::
  "cluster \<Rightarrow> string \<Rightarrow> string \<Rightarrow> error option \<times> cluster" where
  "PersistentVolumeClaims_Delete c ns n =
     (let c1 = received Delete PVCKind ns n c in
      if rejects c Delete PVCKind then (Some APIRejected, c1)
      else if pvcs c (ns, n) = None then (Some NotFound, c1)
      else (None, c1\<lparr>pvcs := (pvcs c)((ns, n) := None)\<rparr>))"

section \<open>The process environment\<close>

text \<open>
  What the helper functions of \<open>pod.go\<close> read from the process: whether the in-cluster
  configuration is available, the environment variables (\<open>os.Getenv\<close> yields the empty
  string for an unset name), and whether the client library accepts the configuration.
\<close>

record process =
  in_cluster :: bool
  Getenv :: "string \<Rightarrow> string"
  clientset_fails :: bool

datatype rest_Config = InClusterConfig | ExternalConfig string string

section \<open>Strings as sequences of runes\<close>

text \<open>
  A Go string is a sequence of bytes; \<open>for _, char := range s\<close> walks it rune by rune.
  At each position the UTF-8 sequence that starts there is decoded; where the bytes
  are no valid sequence (a stray continuation byte, an overlong or truncated sequence,
  an encoded surrogate, a value above \<open>U+10FFFF\<close>) the rune is \<open>U+FFFD\<close> and the walk
  advances by one byte. \<open>string(char)\<close> is the UTF-8 encoding of the rune, which for
  \<open>U+FFFD\<close> is the three bytes \<open>EF BF BD\<close>.
\<close>

definition RuneError :: nat where
  "RuneError = 65533"

text \<open>
  For a leading byte: the length of the sequence and the range accepted for the second
  byte (the tables \<open>first\<close> and \<open>acceptRanges\<close> of \<open>unicode/utf8\<close>).
\<close>

definition lead_byte :: "nat \<Rightarrow> (nat \<times> nat \<times> nat) option" where
  "lead_byte b =
     (if b < 128 then Some (1, 0, 0)
      else if 194 \<le> b \<and> b \<le> 223 then Some (2, 128, 191)
      else if b = 224 then Some (3, 160, 191)
      else if 225 \<le> b \<and> b \<le> 236 then Some (3, 128, 191)
      else if b = 237 then Some (3, 128, 159)
      else if 238 \<le> b \<and> b \<le> 239 then Some (3, 128, 191)
      else if b = 240 then Some (4, 144, 191)
      else if 241 \<le> b \<and> b \<le> 243 then Some (4, 128, 191)
      else if b = 244 then Some (4, 128, 143)
      else None)"

definition continuation :: "char \<Rightarrow> bool" where
  "continuation c = (128 \<le> (of_char c :: nat) \<and> (of_char c :: nat) \<le> 191)"

text \<open>The rune at the head of a string and the number of bytes it takes.\<close>

fun decodeRune :: "string \<Rightarrow> nat \<times> nat" where
  "decodeRune [] = (RuneError, 0)"
| "decodeRune (c0 # cs) =
     (case lead_byte (of_char c0) of
        None \<Rightarrow> (RuneError, 1)
      | Some (sz, lo, hi) \<Rightarrow>
          if sz = 1 then (of_char c0, 1)
          else
            (case cs of
               [] \<Rightarrow> (RuneError, 1)
             | c1 # cs1 \<Rightarrow>
                 if of_char c1 < lo \<or> hi < of_char c1 then (RuneError, 1)
                 else if sz = 2 then (of_char c0 mod 32 * 64 + of_char c1 mod 64, 2)
                 else
                   (case cs1 of
                      [] \<Rightarrow> (RuneError, 1)
                    | c2 # cs2 \<Rightarrow>
                        if \<not> continuation c2 then (RuneError, 1)
                        else if sz = 3
                        then (of_char c0 mod 16 * 4096 + of_char c1 mod 64 * 64 +
                              of_char c2 mod 64, 3)
                        else
                          (case cs2 of
                             [] \<Rightarrow> (RuneError, 1)
                           | c3 # cs3 \<Rightarrow>
                               if \<not> continuation c3 then (RuneError, 1)
                               else (of_char c0 mod 8 * 262144 + of_char c1 mod 64 * 4096 +
                                     of_char c2 mod 64 * 64 + of_char c3 mod 64, 4)))))"

text \<open>\<open>string(r)\<close> for a rune \<open>r\<close>.\<close>

definition encodeRune :: "nat \<Rightarrow> string" where
  "encodeRune r =
     (if r \<le> 127 then [char_of r]
      else if r \<le> 2047 then [char_of (192 + r div 64), char_of (128 + r mod 64)]
      else if 1114111 < r \<or> (55296 \<le> r \<and> r \<le> 57343) then [CHR 0xEF, CHR 0xBF, CHR 0xBD]
      else if r \<le> 65535
      then [char_of (224 + r div 4096), char_of (128 + r div 64 mod 64), char_of (128 + r mod 64)]
      else [char_of (240 + r div 262144), char_of (128 + r div 4096 mod 64),
            char_of (128 + r div 64 mod 64), char_of (128 + r mod 64)])"

text \<open>\<open>utf8.ValidString\<close>: no position of the walk yields the error rune for a single byte.\<close>

function ValidString :: "string \<Rightarrow> bool" where
  "ValidString [] = True"
| "ValidString (c # cs) =
     (case decodeRune (c # cs) of
        (r, width) \<Rightarrow> \<not> (r = RuneError \<and> width = 1) \<and> ValidString (drop width (c # cs)))"
  by pat_completeness auto
termination
  apply (relation "measure length")
   apply simp
  subgoal premises p for c cs r width
  proof -
    have "1 \<le> snd (decodeRune (c # cs))"
      by (simp split: option.split prod.split list.split)
    with p have "1 \<le> width"
      by (metis snd_conv)
    then show ?thesis
      by simp
  qed
  done


section \<open>Provisioning (\<open>pkg/kubernetes/resources.go\<close>)\<close>

text \<open>
  \<open>replaceAll\<close> walks the string rune by rune and appends, for each rune, either the
  replacement (when the rune as a string equals \<open>old\<close>) or the rune as a string.
\<close>

function replaceAll_loop :: "string \<Rightarrow> string \<Rightarrow> string \<Rightarrow> string \<Rightarrow> string" where
  "replaceAll_loop [] old new result = result"
| "replaceAll_loop (c # cs) old new result =
     (case decodeRune (c # cs) of
        (char, width) \<Rightarrow>
          replaceAll_loop (drop width (c # cs)) old new
            (if encodeRune char = old then result @ new else result @ encodeRune char))"
  by pat_completeness auto
termination
  apply (relation "measure (\<lambda>(s, old, new, result). length s)")
   apply simp
  subgoal premises p for c cs old new result char width
  proof -
    have "1 \<le> snd (decodeRune (c # cs))"
      by (simp split: option.split prod.split list.split)
    with p have "1 \<le> width"
      by (metis snd_conv)
    then show ?thesis
      by simp
  qed
  done

definition replaceAll :: "string \<Rightarrow> string \<Rightarrow> string \<Rightarrow> string" where
  "replaceAll s old new = replaceAll_loop s old new []"

text \<open>\<open>parseQuantity\<close> keeps the quantity it is given; the model keeps its text.\<close>

definition parseQuantity :: "string \<Rightarrow> string" where
  "parseQuantity s = s"

text \<open>The body of the loop over the file entries: the content and the data key of one entry.\<close>

definition content :: "Env \<Rightarrow> error + string" where
  "content env =
     (if IsBase64 env then
        (case DecodeString (Value env) of
           None \<Rightarrow> Inl (Errorf (''failed to decode base64 content for '' @ Key env)
                          CorruptInputError)
         | Some decoded \<Rightarrow> Inr decoded)
      else Inr (Value env))"

definition encodedPath :: "Env \<Rightarrow> string" where
  "encodedPath env = replaceAll (Path env) ''/'' ''__''"

definition fileName :: "Env \<Rightarrow> string" where
  "fileName env =
     (if Path env \<noteq> [] then Key env @ ''::'' @ encodedPath env else Key env)"

fun envFilesData :: "Env list \<Rightarrow> (string \<rightharpoonup> string) \<Rightarrow> error + (string \<rightharpoonup> string)" where
  "envFilesData [] data = Inr data"
| "envFilesData (env # envs) data =
     (case content env of
        Inl err \<Rightarrow> Inl err
      | Inr cont \<Rightarrow> envFilesData envs (data(fileName env \<mapsto> cont)))"

definition CreateConfigMapForEnvFiles ::
  "database option \<Rightarrow> cluster \<Rightarrow> uint \<Rightarrow> uint \<Rightarrow> string \<Rightarrow> (string \<times> error option) \<times> cluster"
where
  "CreateConfigMapForEnvFiles DB clientset buildID projectID namespace =
     (case DB of
        None \<Rightarrow> (([], None), clientset)
      | Some d \<Rightarrow>
          (case Find_envs d projectID ''file'' of
             Inl err \<Rightarrow>
               (([], Some (Errorf ''failed to fetch environment files'' err)), clientset)
           | Inr envs \<Rightarrow>
               if length envs = 0 then (([], None), clientset)
               else
                 (case envFilesData envs Map.empty of
                    Inl err \<Rightarrow> (([], Some err), clientset)
                  | Inr data \<Rightarrow>
                      (let configMap =
                             \<lparr>cm_ObjectMeta =
                                \<lparr>Name = configMapName buildID, Namespace = namespace,
                                 Labels = [''app'' \<mapsto> ''flotio-build'',
                                           ''build-id'' \<mapsto> format_uint buildID]\<rparr>,
                              Data = data\<rparr>
                       in (case ConfigMaps_Create clientset namespace configMap of
                             (Some err, c) \<Rightarrow>
                               (([], Some (Errorf ''failed to create ConfigMap'' err)), c)
                           | (None, c) \<Rightarrow> ((configMapName buildID, None), c))))))"

definition CreateSecretForKeystore ::
  "database option \<Rightarrow> cluster \<Rightarrow> uint \<Rightarrow> uint \<Rightarrow> string \<Rightarrow> (string \<times> error option) \<times> cluster"
where
  "CreateSecretForKeystore DB clientset buildID projectID namespace =
     (case DB of
        None \<Rightarrow> (([], None), clientset)
      | Some d \<Rightarrow>
          (case First_keystore d projectID of
             Inl err \<Rightarrow> (([], None), clientset)
           | Inr keystore \<Rightarrow>
               (case DecodeString (KeystoreFile keystore) of
                  None \<Rightarrow>
                    (([], Some (Errorf ''failed to decode keystore file'' CorruptInputError)),
                     clientset)
                | Some keystoreData \<Rightarrow>
                    (let secret =
                           \<lparr>sec_ObjectMeta =
                              \<lparr>Name = secretName buildID, Namespace = namespace,
                               Labels = [''app'' \<mapsto> ''flotio-build'',
                                         ''build-id'' \<mapsto> format_uint buildID]\<rparr>,
                            sec_Type = ''Opaque'',
                            sec_Data = [''keystore.jks'' \<mapsto> keystoreData],
                            StringData = [''store-password'' \<mapsto> StorePassword keystore,
                                          ''key-alias'' \<mapsto> KeyAlias keystore,
                                          ''key-password'' \<mapsto> KeyPassword keystore]\<rparr>
                     in (case Secrets_Create clientset namespace secret of
                           (Some err, c) \<Rightarrow>
                             (([], Some (Errorf ''failed to create Secret'' err)), c)
                         | (None, c) \<Rightarrow> ((secretName buildID, None), c))))))"

definition CreatePersistentVolumeClaimForArtifacts ::
  "cluster \<Rightarrow> uint \<Rightarrow> string \<Rightarrow> (string \<times> error option) \<times> cluster"
where
  "CreatePersistentVolumeClaimForArtifacts clientset buildID namespace =
     (let storageClassName = ''standard'';
          storage = ''5Gi'';
          pvc = \<lparr>pvc_ObjectMeta =
                   \<lparr>Name = pvcName buildID, Namespace = namespace,
                    Labels = [''app'' \<mapsto> ''flotio-build'',
                              ''build-id'' \<mapsto> format_uint buildID]\<rparr>,
                 AccessModes = [''ReadWriteOnce''],
                 StorageClassName = storageClassName,
                 pvc_Requests = [''storage'' \<mapsto> parseQuantity storage]\<rparr>
      in (case PersistentVolumeClaims_Create clientset namespace pvc of
            (Some err, c) \<Rightarrow> (([], Some (Errorf ''failed to create PVC'' err)), c)
          | (None, c) \<Rightarrow> ((pvcName buildID, None), c)))"

text \<open>
  \<open>DeleteBuildResources\<close> reassigns \<open>err\<close> after each deletion and, when it is not nil,
  prints \<open>Warning: failed to delete <kind> <name>: <err>\<close> and goes on. The model
  returns what was printed, one entry (kind, name, error) per line, beside the error
  value (always nil) and the cluster.
\<close>

definition DeleteBuildResources ::
  "cluster \<Rightarrow> uint \<Rightarrow> string \<Rightarrow> error option \<times> (kind \<times> string \<times> error) list \<times> cluster"
where
  "DeleteBuildResources clientset buildID namespace =
     (let (err, c1) = Pods_Delete clientset namespace (podName buildID);
          out = (case err of None \<Rightarrow> [] | Some e \<Rightarrow> [(PodKind, podName buildID, e)]);
          (err, c2) = ConfigMaps_Delete c1 namespace (configMapName buildID);
          out = (case err of None \<Rightarrow> out
                 | Some e \<Rightarrow> out @ [(ConfigMapKind, configMapName buildID, e)]);
          (err, c3) = Secrets_Delete c2 namespace (secretName buildID);
          out = (case err of None \<Rightarrow> out
                 | Some e \<Rightarrow> out @ [(SecretKind, secretName buildID, e)]);
          (err, c4) = PersistentVolumeClaims_Delete c3 namespace (pvcName buildID);
          out = (case err of None \<Rightarrow> out | Some e \<Rightarrow> out @ [(PVCKind, pvcName buildID, e)])
      in (None, out, c4))"

section \<open>The build pod (\<open>pkg/kubernetes/pod.go\<close>)\<close>

record BuildConfig =
  BuildID :: uint
  Project :: Project
  Platform :: string
  BuildMode :: string
  BuildTarget :: string
  FlutterChannel :: string
  GitBranch :: string
  GitUsername :: string
  GitPassword :: string

definition getKubernetesConfig :: "process \<Rightarrow> error + rest_Config" where
  "getKubernetesConfig p =
     (if in_cluster p then Inr InClusterConfig
      else
        (let apiURL = Getenv p ''KUBECTL_API''; token = Getenv p ''KUBECTL_TOKEN'' in
         if apiURL = [] \<or> token = [] then Inl NoClusterConfig
         else Inr (ExternalConfig apiURL token)))"

definition getNamespace :: "process \<Rightarrow> string" where
  "getNamespace p =
     (let namespace = Getenv p ''K8S_NAMESPACE'' in
      if namespace = [] then ''default'' else namespace)"

definition getFlutterBuildImage :: "process \<Rightarrow> string" where
  "getFlutterBuildImage p =
     (let image = Getenv p ''FLUTTER_BUILD_IMAGE'' in
      if image = [] then ''flotio/flutter-build:latest'' else image)"

definition getBuildMode :: "string \<Rightarrow> string" where
  "getBuildMode mode = (if mode = [] then ''release'' else mode)"

definition getBuildTarget :: "string \<Rightarrow> string \<Rightarrow> string" where
  "getBuildTarget platform target =
     (if target \<noteq> [] then target
      else if platform = ''android'' then ''apk''
      else if platform = ''ios'' then ''ios''
      else if platform = ''web'' then ''web''
      else ''apk'')"

definition getFlutterChannel :: "string \<Rightarrow> string" where
  "getFlutterChannel channel =
     (if channel = [] \<or> channel = ''latest'' then ''stable'' else channel)"

definition plain :: "string \<Rightarrow> string \<Rightarrow> EnvVar" where
  "plain n v = \<lparr>ev_Name = n, ev_Value = v, ValueFrom = None\<rparr>"

definition fromSecret :: "string \<Rightarrow> string \<Rightarrow> string \<Rightarrow> EnvVar" where
  "fromSecret n secret k =
     \<lparr>ev_Name = n, ev_Value = [], ValueFrom = Some \<lparr>sks_Name = secret, sks_Key = k\<rparr>\<rparr>"

definition buildEnvironmentVariables :: "BuildConfig \<Rightarrow> EnvVar list" where
  "buildEnvironmentVariables config =
     (let envVars =
            [plain ''GIT_REPO'' (GitRepo (Project config)),
             plain ''BUILD_FOLDER'' (BuildFolder (Project config)),
             plain ''PLATFORM'' (Platform config),
             plain ''BUILD_ID'' (Itoa (int_of_uint (BuildID config))),
             plain ''BUILD_MODE'' (getBuildMode (BuildMode config)),
             plain ''BUILD_TARGET'' (getBuildTarget (Platform config) (BuildTarget config)),
             plain ''FLUTTER_CHANNEL'' (getFlutterChannel (FlutterChannel config)),
             plain ''OUTPUT_DIR'' ''/outputs'',
             plain ''ENV_FILES_DIR'' ''/env-files''];
          envVars = (if GitBranch config \<noteq> []
                     then envVars @ [plain ''GIT_BRANCH'' (GitBranch config)] else envVars);
          envVars = (if GitUsername config \<noteq> []
                     then envVars @ [plain ''GIT_USERNAME'' (GitUsername config)] else envVars);
          envVars = (if GitPassword config \<noteq> []
                     then envVars @ [plain ''GIT_PASSWORD'' (GitPassword config)] else envVars)
      in envVars)"

text \<open>
  The variables read from the database (lines 68-77). The handle is dereferenced
  without a nil check, so an uninitialised data source panics here; a failing query is
  skipped silently.
\<close>

definition dbEnvVars :: "database option \<Rightarrow> uint \<Rightarrow> error + EnvVar list" where
  "dbEnvVars DB projectID =
     (case DB of
        None \<Rightarrow> Inl NilPointerPanic
      | Some d \<Rightarrow>
          (case Find_envs d projectID ''env'' of
             Inl err \<Rightarrow> Inr []
           | Inr dbEnvs \<Rightarrow> Inr (map (\<lambda>dbEnv. plain (Key dbEnv) (Value dbEnv)) dbEnvs)))"

definition keystoreEnvVars :: "string \<Rightarrow> EnvVar list" where
  "keystoreEnvVars secretName' =
     [plain ''KEYSTORE_PATH'' ''/keystore/keystore.jks'',
      fromSecret ''KEYSTORE_PASSWORD'' secretName' ''store-password'',
      fromSecret ''KEY_ALIAS'' secretName' ''key-alias'',
      fromSecret ''KEY_PASSWORD'' secretName' ''key-password'']"

definition volumeMounts :: "string \<Rightarrow> string \<Rightarrow> VolumeMount list" where
  "volumeMounts configMapName' secretName' =
     [\<lparr>vm_Name = ''artifacts'', MountPath = ''/outputs'', ReadOnly = False\<rparr>]
     @ (if configMapName' \<noteq> []
        then [\<lparr>vm_Name = ''env-files'', MountPath = ''/env-files'', ReadOnly = True\<rparr>]
        else [])
     @ (if secretName' \<noteq> []
        then [\<lparr>vm_Name = ''keystore'', MountPath = ''/keystore'', ReadOnly = True\<rparr>]
        else [])"

definition volumes :: "string \<Rightarrow> string \<Rightarrow> string \<Rightarrow> Volume list" where
  "volumes pvcName' configMapName' secretName' =
     [\<lparr>vol_Name = ''artifacts'', vol_Source = PersistentVolumeClaimSource pvcName'\<rparr>]
     @ (if configMapName' \<noteq> []
        then [\<lparr>vol_Name = ''env-files'', vol_Source = ConfigMapSource configMapName'\<rparr>]
        else [])
     @ (if secretName' \<noteq> []
        then [\<lparr>vol_Name = ''keystore'', vol_Source = SecretSource secretName'\<rparr>]
        else [])"

definition buildPod ::
  "process \<Rightarrow> BuildConfig \<Rightarrow> string \<Rightarrow> EnvVar list \<Rightarrow> VolumeMount list \<Rightarrow> Volume list \<Rightarrow> Pod"
where
  "buildPod p config namespace envVars mounts vols =
     \<lparr>pod_ObjectMeta =
        \<lparr>Name = podName (BuildID config), Namespace = namespace,
         Labels = [''app'' \<mapsto> ''flotio-build'',
                   ''build-id'' \<mapsto> Itoa (int_of_uint (BuildID config)),
                   ''project-id'' \<mapsto> Itoa (int_of_uint (ID (Project config))),
                   ''platform'' \<mapsto> Platform config]\<rparr>,
      RestartPolicy = ''Never'',
      Containers =
        [\<lparr>c_Name = ''build'', Image = getFlutterBuildImage p, c_Env = envVars,
          VolumeMounts = mounts,
          Requests = [''cpu'' \<mapsto> parseQuantity ''1000m'', ''memory'' \<mapsto> parseQuantity ''2Gi''],
          Limits = [''cpu'' \<mapsto> parseQuantity ''4000m'', ''memory'' \<mapsto> parseQuantity ''8Gi'']\<rparr>],
      Volumes = vols\<rparr>"

definition CreateBuildPod ::
  "process \<Rightarrow> database option \<Rightarrow> cluster \<Rightarrow> BuildConfig \<Rightarrow> error option \<times> cluster"
where
  "CreateBuildPod p DB k8s config =
     (case getKubernetesConfig p of
        Inl err \<Rightarrow> (Some err, k8s)
      | Inr kubeConfig \<Rightarrow>
          if clientset_fails p then (Some (Errorf ''failed to create clientset'' ClientsetError), k8s)
          else
            (let namespace = getNamespace p in
             case CreatePersistentVolumeClaimForArtifacts k8s (BuildID config) namespace of
               ((pvcName', Some err), c1) \<Rightarrow> (Some (Errorf ''failed to create PVC'' err), c1)
             | ((pvcName', None), c1) \<Rightarrow>
                 (case CreateConfigMapForEnvFiles DB c1 (BuildID config) (ID (Project config))
                         namespace of
                    ((configMapName', Some err), c2) \<Rightarrow>
                      (Some (Errorf ''failed to create ConfigMap'' err), c2)
                  | ((configMapName', None), c2) \<Rightarrow>
                      (case (if Platform config = ''android''
                             then CreateSecretForKeystore DB c2 (BuildID config)
                                    (ID (Project config)) namespace
                             else (([], None), c2)) of
                         ((secretName', Some err), c3) \<Rightarrow>
                           (Some (Errorf ''failed to create Secret'' err), c3)
                       | ((secretName', None), c3) \<Rightarrow>
                           (case dbEnvVars DB (ID (Project config)) of
                              Inl panic \<Rightarrow> (Some panic, c3)
                            | Inr dbVars \<Rightarrow>
                                (let envVars = buildEnvironmentVariables config @ dbVars;
                                     envVars = (if secretName' \<noteq> []
                                                then envVars @ keystoreEnvVars secretName'
                                                else envVars);
                                     pod = buildPod p config namespace envVars
                                             (volumeMounts configMapName' secretName')
                                             (volumes pvcName' configMapName' secretName')
                                 in (case Pods_Create c3 namespace pod of
                                       (Some err, c4) \<Rightarrow>
                                         (Some (Errorf ''failed to create pod'' err), c4)
                                     | (None, c4) \<Rightarrow> (None, c4))))))))"

section \<open>Placement of the environment files by the build script\<close>

text \<open>
  Step 3 of the build script run inside the pod reads each file of the mounted
  ConfigMap. When the file name contains \<open>::\<close>, the destination is what follows the
  first \<open>::\<close> (\<open>${filename#*::}\<close> removes the shortest such prefix) with every \<open>__\<close>
  replaced by \<open>/\<close>, left to right (\<open>${dest_path//__/\/}\<close>); otherwise the file goes to
  the project root under its own name.
\<close>

fun after_separator :: "string \<Rightarrow> string option" where
  "after_separator (c # d # rest) =
     (if c = CHR '':'' \<and> d = CHR '':'' then Some rest else after_separator (d # rest))"
| "after_separator _ = None"

fun restore_slashes :: "string \<Rightarrow> string" where
  "restore_slashes (c # d # rest) =
     (if c = CHR ''_'' \<and> d = CHR ''_'' then CHR ''/'' # restore_slashes rest
      else c # restore_slashes (d # rest))"
| "restore_slashes s = s"

definition dest_path :: "string \<Rightarrow> string" where
  "dest_path filename =
     (case after_separator filename of
        Some rest \<Rightarrow> restore_slashes rest
      | None \<Rightarrow> ''./'' @ filename)"

section \<open>Auxiliary notions used in the proofs\<close>

definition is_digit :: "char \<Rightarrow> bool" where
  "is_digit c = (48 \<le> (of_char c :: nat) \<and> (of_char c :: nat) \<le> 57)"

definition parse_nat :: "string \<Rightarrow> nat" where
  "parse_nat s = foldl (\<lambda>a c. 10 * a + (of_char c - 48)) 0 s"


definition name_suffixes :: "string set" where
  "name_suffixes = {[], ''-env-files'', ''-keystore'', ''-artifacts''}"


text \<open>A path with no \<open>__\<close> and no \<open>_/\<close> in it.\<close>

fun plain_path :: "string \<Rightarrow> bool" where
  "plain_path (c # d # rest) =
     (\<not> (c = CHR ''_'' \<and> (d = CHR ''_'' \<or> d = CHR ''/'')) \<and> plain_path (d # rest))"
| "plain_path _ = True"

text \<open>The byte-wise encoding: every byte \<open>/\<close> becomes \<open>__\<close>.\<close>

definition slash_bytes :: "string \<Rightarrow> string" where
  "slash_bytes s = concat (map (\<lambda>c. if c = CHR ''/'' then ''__'' else [c]) s)"

text \<open>A key with no \<open>::\<close> in it and no \<open>:\<close> at its end.\<close>

fun plain_key :: "string \<Rightarrow> bool" where
  "plain_key [] = True"
| "plain_key [c] = (c \<noteq> CHR '':'')"
| "plain_key (c # d # rest) = (\<not> (c = CHR '':'' \<and> d = CHR '':'') \<and> plain_key (d # rest))"


text \<open>
  A cluster with no objects that accepts every request, a process running inside the
  cluster with no environment variable set, and a data source on which every
  statement succeeds.
\<close>

definition idle_cluster :: cluster where
  "idle_cluster =
     \<lparr>pods = Map.empty, configMaps = Map.empty, secrets = Map.empty, pvcs = Map.empty,
      rejects = (\<lambda>v k. False), requests = []\<rparr>"

definition pod_process :: process where
  "pod_process = \<lparr>in_cluster = True, Getenv = (\<lambda>n. []), clientset_fails = False\<rparr>"

definition healthy_db :: "Env list \<Rightarrow> Keystore list \<Rightarrow> database" where
  "healthy_db es ks = \<lparr>env_rows = es, keystore_rows = ks, query_fails = (\<lambda>q. False)\<rparr>"


text \<open>Sample rows and a sample build request.\<close>

definition gs_entry :: Env where
  "gs_entry = \<lparr>ProjectID = 1, Key = ''gs'', Value = ''e30='', Type = ''file'',
                Path = ''android/app/g.json'', IsBase64 = True\<rparr>"

definition raw_entry :: Env where
  "raw_entry = \<lparr>ProjectID = 1, Key = ''.env'', Value = ''MODE=dev'', Type = ''file'',
                 Path = [], IsBase64 = False\<rparr>"

definition bad_entry :: Env where
  "bad_entry = \<lparr>ProjectID = 1, Key = ''logo'', Value = ''!!!!'', Type = ''file'',
                 Path = ''assets/logo.png'', IsBase64 = True\<rparr>"

definition sample_config :: BuildConfig where
  "sample_config =
     \<lparr>BuildID = 7,
      Project = \<lparr>ID = 1, GitRepo = ''https://example.org/app.git'', BuildFolder = []\<rparr>,
      Platform = ''android'', BuildMode = [], BuildTarget = [], FlutterChannel = [],
      GitBranch = [], GitUsername = [], GitPassword = []\<rparr>"

definition later_entry :: Env where
  "later_entry = \<lparr>ProjectID = 1, Key = ''.env'', Value = ''MODE=prod'', Type = ''file'',
                   Path = [], IsBase64 = False\<rparr>"


text \<open>The values an environment carries under a name, in order.\<close>

definition values_of :: "string \<Rightarrow> EnvVar list \<Rightarrow> string list" where
  "values_of n vars = map ev_Value (filter (\<lambda>v. ev_Name v = n) vars)"

definition sample_keystore :: Keystore where
  "sample_keystore =
     \<lparr>ks_ProjectID = 1, KeystoreFile = ''e30='', StorePassword = ''s3cret'',
      KeyAlias = ''upload'', KeyPassword = ''k3y'', IsActive = True\<rparr>"

text \<open>The names of the four variables that describe the keystore to the build script.\<close>

definition keystore_names :: "string list" where
  "keystore_names = [''KEYSTORE_PATH'', ''KEYSTORE_PASSWORD'', ''KEY_ALIAS'', ''KEY_PASSWORD'']"

text \<open>Two sample runs: an android build and a web build of a project with an active keystore.\<close>

definition android_run :: "error option \<times> cluster" where
  "android_run =
     CreateBuildPod pod_process (Some (healthy_db [] [sample_keystore])) idle_cluster sample_config"


text \<open>
  The cluster accepts the PVC, the ConfigMap and the Pod of a build: it rejects none
  of the three kinds of request and holds no object under any of the three names.
\<close>

definition accepts :: "cluster \<Rightarrow> string \<Rightarrow> uint \<Rightarrow> bool" where
  "accepts k8s ns bid =
     (\<not> rejects k8s Create PVCKind \<and> pvcs k8s (ns, pvcName bid) = None \<and>
      \<not> rejects k8s Create ConfigMapKind \<and> configMaps k8s (ns, configMapName bid) = None \<and>
      \<not> rejects k8s Create PodKind \<and> pods k8s (ns, podName bid) = None)"

text \<open>
  Data sources for the sample runs: one on which only the keystore statement fails,
  and one on which every statement fails.
\<close>

definition keystore_outage_db :: database where
  "keystore_outage_db =
     \<lparr>env_rows = [], keystore_rows = [sample_keystore], query_fails = (\<lambda>q. q = KeystoreQuery)\<rparr>"

definition outage_db :: database where
  "outage_db = \<lparr>env_rows = [], keystore_rows = [sample_keystore], query_fails = (\<lambda>q. True)\<rparr>"

text \<open>Two variable rows with the same name, and a build of their project.\<close>

definition var_one :: Env where
  "var_one = \<lparr>ProjectID = 1, Key = ''API_URL'', Value = ''https://a.example'', Type = ''env'',
               Path = [], IsBase64 = False\<rparr>"

definition var_two :: Env where
  "var_two = \<lparr>ProjectID = 1, Key = ''API_URL'', Value = ''https://b.example'', Type = ''env'',
               Path = [], IsBase64 = False\<rparr>"

definition env_run :: "error option \<times> cluster" where
  "env_run =
     CreateBuildPod pod_process (Some (healthy_db [var_one, var_two] [])) idle_cluster sample_config"

text \<open>
  A cluster that holds the pod of build 7 and rejects every request to delete a Secret.
\<close>

definition guarded_cluster :: cluster where
  "guarded_cluster =
     idle_cluster
       \<lparr>pods := [(''default'', podName 7) \<mapsto>
                   buildPod pod_process sample_config ''default'' [] [] []],
        rejects := (\<lambda>v k. v = Delete \<and> k = SecretKind)\<rparr>"




section \<open>Properties of the decimal rendering\<close>

lemma is_digit_digit_char: "d < 10 \<Longrightarrow> is_digit (digit_char d)"
  by (simp add: is_digit_def digit_char_def)

lemma format_nat_digits: "\<forall>c \<in> set (format_nat n). is_digit c"
proof (induction n rule: format_nat.induct)
  case (1 n)
  show ?case
  proof (cases "n < 10")
    case True
    then show ?thesis
      by (subst format_nat.simps) (simp add: is_digit_digit_char)
  next
    case False
    with 1 show ?thesis
      by (subst format_nat.simps) (simp add: is_digit_digit_char)
  qed
qed

lemma parse_format_nat: "parse_nat (format_nat n) = n"
proof (induction n rule: format_nat.induct)
  case (1 n)
  show ?case
  proof (cases "n < 10")
    case True
    then show ?thesis
      by (subst format_nat.simps) (simp add: parse_nat_def digit_char_def)
  next
    case False
    with 1 have "parse_nat (format_nat (n div 10)) = n div 10"
      by simp
    with False show ?thesis
      by (subst format_nat.simps) (simp add: parse_nat_def digit_char_def)
  qed
qed

lemma format_nat_inj: "format_nat m = format_nat n \<Longrightarrow> m = n"
  by (metis parse_format_nat)

lemma format_uint_inj: "format_uint x = format_uint y \<Longrightarrow> x = y"
proof -
  assume "format_uint x = format_uint y"
  then have "unat x = unat y"
    by (simp add: format_uint_def format_nat_inj)
  then show "x = y"
    by (rule word_unat_eq_iff [THEN iffD2])
qed

lemma takeWhile_format_uint:
  "s = [] \<or> \<not> is_digit (hd s) \<Longrightarrow> takeWhile is_digit (format_uint x @ s) = format_uint x"
  using format_nat_digits [of "unat x"]
  by (cases s) (auto simp: format_uint_def)

lemma dash_not_digit: "\<not> is_digit CHR ''-''"
  by (simp add: is_digit_def)

lemma suffixed_eq:
  assumes "format_uint x @ s = format_uint y @ t"
    and "s = [] \<or> \<not> is_digit (hd s)" and "t = [] \<or> \<not> is_digit (hd t)"
  shows "x = y \<and> s = t"
proof -
  have "format_uint x = format_uint y"
    using takeWhile_format_uint [OF assms(2), of x] takeWhile_format_uint [OF assms(3), of y]
      assms(1) by simp
  with assms(1) show ?thesis
    by (auto dest: format_uint_inj)
qed

section \<open>Resource names\<close>

lemma build_name_eq_iff:
  assumes "s \<in> name_suffixes" and "t \<in> name_suffixes"
  shows "(''build-'' @ format_uint x @ s = ''build-'' @ format_uint y @ t) = (x = y \<and> s = t)"
proof
  assume "''build-'' @ format_uint x @ s = ''build-'' @ format_uint y @ t"
  then have eq: "format_uint x @ s = format_uint y @ t"
    by simp
  have "s = [] \<or> \<not> is_digit (hd s)" "t = [] \<or> \<not> is_digit (hd t)"
    using assms by (auto simp: name_suffixes_def dash_not_digit)
  with eq show "x = y \<and> s = t"
    by (rule suffixed_eq)
next
  assume "x = y \<and> s = t"
  then show "''build-'' @ format_uint x @ s = ''build-'' @ format_uint y @ t"
    by simp
qed

lemma names_as_suffixed:
  "podName x = ''build-'' @ format_uint x @ []"
  "configMapName x = ''build-'' @ format_uint x @ ''-env-files''"
  "secretName x = ''build-'' @ format_uint x @ ''-keystore''"
  "pvcName x = ''build-'' @ format_uint x @ ''-artifacts''"
  by (simp_all add: podName_def configMapName_def secretName_def pvcName_def)

lemma suffix_mem:
  "[] \<in> name_suffixes" "''-env-files'' \<in> name_suffixes"
  "''-keystore'' \<in> name_suffixes" "''-artifacts'' \<in> name_suffixes"
  by (simp_all add: name_suffixes_def)

text \<open>
  Claim C1. The four resource names of a build are functions of the BuildID alone, of the
  shapes \<open>build-<x>\<close>, \<open>build-<x>-env-files\<close>, \<open>build-<x>-keystore\<close> and
  \<open>build-<x>-artifacts\<close> with \<open><x>\<close> the decimal rendering of the identifier; the
  four names of one build differ from each other, and the eight names of two distinct
  builds are pairwise distinct.
\<close>

theorem resource_names_deterministic_distinct:
  "podName x = ''build-'' @ format_uint x \<and>
   configMapName x = ''build-'' @ format_uint x @ ''-env-files'' \<and>
   secretName x = ''build-'' @ format_uint x @ ''-keystore'' \<and>
   pvcName x = ''build-'' @ format_uint x @ ''-artifacts'' \<and>
   distinct [podName x, configMapName x, secretName x, pvcName x] \<and>
   (x \<noteq> y \<longrightarrow>
      distinct [podName x, configMapName x, secretName x, pvcName x,
                podName y, configMapName y, secretName y, pvcName y])"
proof -
  have d1: "distinct [podName x, configMapName x, secretName x, pvcName x]"
    unfolding names_as_suffixed
    by (simp only: distinct.simps list.set insert_iff empty_iff build_name_eq_iff suffix_mem)
      simp
  have d2: "x \<noteq> y \<Longrightarrow>
      distinct [podName x, configMapName x, secretName x, pvcName x,
                podName y, configMapName y, secretName y, pvcName y]"
    unfolding names_as_suffixed
    by (simp only: distinct.simps list.set insert_iff empty_iff build_name_eq_iff suffix_mem)
      simp
  show ?thesis
    using d1 d2 by (simp add: podName_def configMapName_def secretName_def pvcName_def)
qed

theorem resource_names_witness:
  "(41 :: uint) \<noteq> 42 \<and>
   distinct [podName 41, configMapName 41, secretName 41, pvcName 41,
             podName 42, configMapName 42, secretName 42, pvcName 42] \<and>
   podName 42 = ''build-42'' \<and> pvcName 42 = ''build-42-artifacts''"
proof -
  have ne: "(41 :: uint) \<noteq> 42"
    by simp
  have pod: "podName 42 = ''build-42''"
    by code_simp
  have pvc: "pvcName 42 = ''build-42-artifacts''"
    by code_simp
  from ne pod pvc resource_names_deterministic_distinct [of 41 42] show ?thesis
    by blast
qed

section \<open>The file-placement encoding\<close>

subsection \<open>Arithmetic of the encoding\<close>

lemma low_bits:
  "b = m * q + k \<Longrightarrow> k < m \<Longrightarrow> b mod m = (k :: nat)"
  by simp

lemma encode_two:
  assumes "194 \<le> b0" "b0 \<le> 223" "128 \<le> b1" "b1 \<le> 191"
  shows "encodeRune (b0 mod 32 * 64 + b1 mod 64) = [char_of b0, char_of (b1 :: nat)]"
proof -
  define k0 k1 where "k0 = b0 - 192" and "k1 = b1 - 128"
  have b: "b0 = 32 * 6 + k0" "b1 = 64 * 2 + k1" "2 \<le> k0" "k0 < 32" "k1 < 64"
    using assms by (simp_all add: k0_def k1_def)
  have m: "b0 mod 32 = k0" "b1 mod 64 = k1"
    using b by (simp_all only: low_bits)
  define r where "r = k0 * 64 + k1"
  have d: "r div 64 = k0"
    by (rule div_nat_eqI) (use b in \<open>simp_all add: r_def\<close>)
  have "r = k1 + 64 * k0"
    by (simp add: r_def)
  then have "r mod 64 = k1 mod 64"
    by (simp only: mod_mult_self2)
  then have e: "r mod 64 = k1"
    using b by simp
  have rg: "127 < r" "r \<le> 2047"
    using b by (simp_all add: r_def)
  have "encodeRune r = [char_of (192 + k0), char_of (128 + k1)]"
    using rg by (simp add: encodeRune_def d e)
  then show ?thesis
    unfolding m r_def [symmetric] using b by simp
qed


lemma encode_three:
  assumes "224 \<le> b0" "b0 \<le> 239" "128 \<le> b1" "b1 \<le> 191" "128 \<le> b2" "b2 \<le> 191"
    and "b0 = 224 \<longrightarrow> 160 \<le> b1" and "b0 = 237 \<longrightarrow> b1 \<le> 159"
  shows "encodeRune (b0 mod 16 * 4096 + b1 mod 64 * 64 + b2 mod 64) =
           [char_of b0, char_of b1, char_of (b2 :: nat)]"
proof -
  define k0 k1 k2 where "k0 = b0 - 224" and "k1 = b1 - 128" and "k2 = b2 - 128"
  have b: "b0 = 16 * 14 + k0" "b1 = 64 * 2 + k1" "b2 = 64 * 2 + k2"
    "k0 < 16" "k1 < 64" "k2 < 64"
    using assms by (simp_all add: k0_def k1_def k2_def)
  have c: "k0 = 0 \<longrightarrow> 32 \<le> k1" "k0 = 13 \<longrightarrow> k1 \<le> 31"
    using assms by (auto simp: k0_def k1_def)
  have m: "b0 mod 16 = k0" "b1 mod 64 = k1" "b2 mod 64 = k2"
    using b by (simp_all only: low_bits)
  define r where "r = k0 * 4096 + k1 * 64 + k2"
  have d1: "r div 4096 = k0"
    by (rule div_nat_eqI) (use b in \<open>simp_all add: r_def\<close>)
  have d2: "r div 64 = k0 * 64 + k1"
    by (rule div_nat_eqI) (use b in \<open>simp_all add: r_def\<close>)
  have "k0 * 64 + k1 = k1 + 64 * k0"
    by simp
  then have "(k0 * 64 + k1) mod 64 = k1 mod 64"
    by (simp only: mod_mult_self2)
  then have e1: "r div 64 mod 64 = k1"
    using b d2 by simp
  have "r = k2 + 64 * (k0 * 64 + k1)"
    by (simp add: r_def)
  then have "r mod 64 = k2 mod 64"
    by (simp only: mod_mult_self2)
  then have e2: "r mod 64 = k2"
    using b by simp
  have rg: "2047 < r" "r \<le> 65535"
    using b c by (auto simp: r_def)
  have sg: "\<not> (55296 \<le> r \<and> r \<le> 57343)"
  proof (cases "k0 = 13")
    case True
    with c b show ?thesis
      by (simp add: r_def)
  next
    case False
    then have "k0 \<le> 12 \<or> 14 \<le> k0"
      by arith
    then show ?thesis
      using b by (auto simp: r_def)
  qed
  have "encodeRune r = [char_of (224 + k0), char_of (128 + k1), char_of (128 + k2)]"
    using rg sg by (auto simp: encodeRune_def d1 e1 e2)
  then show ?thesis
    unfolding m r_def [symmetric] using b by simp
qed

lemma encode_four:
  assumes "240 \<le> b0" "b0 \<le> 244" "128 \<le> b1" "b1 \<le> 191" "128 \<le> b2" "b2 \<le> 191"
    "128 \<le> b3" "b3 \<le> 191"
    and "b0 = 240 \<longrightarrow> 144 \<le> b1" and "b0 = 244 \<longrightarrow> b1 \<le> 143"
  shows "encodeRune (b0 mod 8 * 262144 + b1 mod 64 * 4096 + b2 mod 64 * 64 + b3 mod 64) =
           [char_of b0, char_of b1, char_of b2, char_of (b3 :: nat)]"
proof -
  define k0 k1 k2 k3
    where "k0 = b0 - 240" and "k1 = b1 - 128" and "k2 = b2 - 128" and "k3 = b3 - 128"
  have b: "b0 = 8 * 30 + k0" "b1 = 64 * 2 + k1" "b2 = 64 * 2 + k2" "b3 = 64 * 2 + k3"
    "k0 < 8" "k0 \<le> 4" "k1 < 64" "k2 < 64" "k3 < 64"
    using assms by (simp_all add: k0_def k1_def k2_def k3_def)
  have c: "k0 = 0 \<longrightarrow> 16 \<le> k1" "k0 = 4 \<longrightarrow> k1 \<le> 15"
    using assms by (auto simp: k0_def k1_def)
  have m: "b0 mod 8 = k0" "b1 mod 64 = k1" "b2 mod 64 = k2" "b3 mod 64 = k3"
    using b by (simp_all only: low_bits)
  define r where "r = k0 * 262144 + k1 * 4096 + k2 * 64 + k3"
  have d1: "r div 262144 = k0"
    by (rule div_nat_eqI) (use b in \<open>simp_all add: r_def\<close>)
  have d2: "r div 4096 = k0 * 64 + k1"
    by (rule div_nat_eqI) (use b in \<open>simp_all add: r_def\<close>)
  have d3: "r div 64 = (k0 * 64 + k1) * 64 + k2"
    by (rule div_nat_eqI) (use b in \<open>simp_all add: r_def\<close>)
  have "k0 * 64 + k1 = k1 + 64 * k0"
    by simp
  then have "(k0 * 64 + k1) mod 64 = k1 mod 64"
    by (simp only: mod_mult_self2)
  then have e1: "r div 4096 mod 64 = k1"
    using b d2 by simp
  have "(k0 * 64 + k1) * 64 + k2 = k2 + 64 * (k0 * 64 + k1)"
    by simp
  then have "((k0 * 64 + k1) * 64 + k2) mod 64 = k2 mod 64"
    by (simp only: mod_mult_self2)
  then have e2: "r div 64 mod 64 = k2"
    using b d3 by simp
  have "r = k3 + 64 * ((k0 * 64 + k1) * 64 + k2)"
    by (simp add: r_def)
  then have "r mod 64 = k3 mod 64"
    by (simp only: mod_mult_self2)
  then have e3: "r mod 64 = k3"
    using b by simp
  have rg: "65535 < r" "r \<le> 1114111"
    using b c by (auto simp: r_def)
  have "encodeRune r =
      [char_of (240 + k0), char_of (128 + k1), char_of (128 + k2), char_of (128 + k3)]"
    using rg by (simp add: encodeRune_def d1 e1 e2 e3)
  then show ?thesis
    unfolding m r_def [symmetric] using b by simp
qed

subsection \<open>The rune at the head of a string\<close>

lemma lead_byte_cases:
  assumes "lead_byte b = Some (sz, lo, hi)"
  shows "(sz = 1 \<and> b < 128) \<or>
         (sz = 2 \<and> 194 \<le> b \<and> b \<le> 223 \<and> lo = 128 \<and> hi = 191) \<or>
         (sz = 3 \<and> 224 \<le> b \<and> b \<le> 239 \<and> 128 \<le> lo \<and> hi \<le> 191 \<and>
            (b = 224 \<longrightarrow> lo = 160) \<and> (b = 237 \<longrightarrow> hi = 159)) \<or>
         (sz = 4 \<and> 240 \<le> b \<and> b \<le> 244 \<and> 128 \<le> lo \<and> hi \<le> 191 \<and>
            (b = 240 \<longrightarrow> lo = 144) \<and> (b = 244 \<longrightarrow> hi = 143))"
  using assms by (auto simp: lead_byte_def split: if_splits)

lemma lead_byte_None: "lead_byte b = None \<Longrightarrow> 128 \<le> b"
  by (auto simp: lead_byte_def split: if_splits)

lemma char_of_of_char_nat: "char_of (of_char c :: nat) = c"
  by simp

lemma decodeRune_ascii:
  "(of_char c :: nat) < 128 \<Longrightarrow> decodeRune (c # cs) = (of_char c, 1)"
  by (simp add: lead_byte_def)

lemma encodeRune_ascii: "(of_char c :: nat) < 128 \<Longrightarrow> encodeRune (of_char c) = [c]"
  by (simp add: encodeRune_def)

lemma encodeRune_RuneError: "encodeRune RuneError = [CHR 0xEF, CHR 0xBF, CHR 0xBD]"
  apply (simp add: encodeRune_def RuneError_def)
  apply code_simp
  done

text \<open>
  A string starts with an ASCII byte, or with a byte at which no rune starts, or with
  a complete sequence of two to four bytes, none of them ASCII, that decodes to a rune
  whatever follows and that the rune encodes back to.
\<close>

lemma rune_cases:
  obtains
    (ascii) "(of_char c :: nat) < 128"
  | (invalid) "128 \<le> (of_char c :: nat)" "decodeRune (c # cs) = (RuneError, 1)"
  | (multi) u t r where "c # cs = u @ t" "2 \<le> length u"
      "\<forall>x \<in> set u. 128 \<le> (of_char x :: nat)"
      "\<And>t'. decodeRune (u @ t') = (r, length u)" "encodeRune r = u"
proof (cases "lead_byte (of_char c)")
  case None
  then show ?thesis
    using lead_byte_None [of "of_char c"] by (intro invalid) simp_all
next
  case (Some a)
  obtain sz lo hi where a: "a = (sz, lo, hi)"
    by (cases a)
  note lb = Some [unfolded a]
  from lead_byte_cases [OF lb] consider
    (one) "sz = 1" "(of_char c :: nat) < 128"
    | (two) "sz = 2" "194 \<le> (of_char c :: nat)" "(of_char c :: nat) \<le> 223" "lo = 128" "hi = 191"
    | (three) "sz = 3" "224 \<le> (of_char c :: nat)" "(of_char c :: nat) \<le> 239"
        "128 \<le> lo" "hi \<le> 191"
        "(of_char c :: nat) = 224 \<longrightarrow> lo = 160" "(of_char c :: nat) = 237 \<longrightarrow> hi = 159"
    | (four) "sz = 4" "240 \<le> (of_char c :: nat)" "(of_char c :: nat) \<le> 244"
        "128 \<le> lo" "hi \<le> 191"
        "(of_char c :: nat) = 240 \<longrightarrow> lo = 144" "(of_char c :: nat) = 244 \<longrightarrow> hi = 143"
    by blast
  then show ?thesis
  proof cases
    case one
    then show ?thesis
      by (intro ascii)
  next
    case two
    have hi: "128 \<le> (of_char c :: nat)"
      using two by simp
    show ?thesis
    proof (cases "\<exists>c1 t. cs = c1 # t \<and> lo \<le> of_char c1 \<and> of_char c1 \<le> hi")
      case True
      then obtain c1 t where cs: "cs = c1 # t" and r: "lo \<le> of_char c1" "of_char c1 \<le> hi"
        by blast
      have d: "decodeRune ([c, c1] @ t') =
          (of_char c mod 32 * 64 + of_char c1 mod 64, length [c, c1])" for t'
        using lb two r by simp
      have e: "encodeRune (of_char c mod 32 * 64 + of_char c1 mod 64) = [c, c1]"
        using encode_two [of "of_char c" "of_char c1"] two r by simp
      show ?thesis
        by (rule multi [of "[c, c1]" t, OF _ _ _ d e]) (use cs hi two r in simp_all)
    next
      case False
      then have "decodeRune (c # cs) = (RuneError, 1)"
        using lb two by (cases cs) auto
      with hi show ?thesis
        by (intro invalid)
    qed
  next
    case three
    have hi: "128 \<le> (of_char c :: nat)"
      using three by simp
    show ?thesis
    proof (cases "\<exists>c1 c2 t. cs = c1 # c2 # t \<and> lo \<le> of_char c1 \<and> of_char c1 \<le> hi \<and>
        continuation c2")
      case True
      then obtain c1 c2 t where cs: "cs = c1 # c2 # t"
        and r: "lo \<le> of_char c1" "of_char c1 \<le> hi" "continuation c2"
        by blast
      have d: "decodeRune ([c, c1, c2] @ t') =
          (of_char c mod 16 * 4096 + of_char c1 mod 64 * 64 + of_char c2 mod 64,
           length [c, c1, c2])" for t'
        using lb three r by simp
      have e: "encodeRune (of_char c mod 16 * 4096 + of_char c1 mod 64 * 64 + of_char c2 mod 64)
          = [c, c1, c2]"
        using encode_three [of "of_char c" "of_char c1" "of_char c2"] three r
        by (auto simp: continuation_def)
      show ?thesis
        by (rule multi [of "[c, c1, c2]" t, OF _ _ _ d e])
          (use cs hi three r in \<open>auto simp: continuation_def\<close>)
    next
      case False
      then have "decodeRune (c # cs) = (RuneError, 1)"
        using lb three by (cases cs; cases "tl cs") auto
      with hi show ?thesis
        by (intro invalid)
    qed
  next
    case four
    have hi: "128 \<le> (of_char c :: nat)"
      using four by simp
    show ?thesis
    proof (cases "\<exists>c1 c2 c3 t. cs = c1 # c2 # c3 # t \<and> lo \<le> of_char c1 \<and> of_char c1 \<le> hi \<and>
        continuation c2 \<and> continuation c3")
      case True
      then obtain c1 c2 c3 t where cs: "cs = c1 # c2 # c3 # t"
        and r: "lo \<le> of_char c1" "of_char c1 \<le> hi" "continuation c2" "continuation c3"
        by blast
      have d: "decodeRune ([c, c1, c2, c3] @ t') =
          (of_char c mod 8 * 262144 + of_char c1 mod 64 * 4096 + of_char c2 mod 64 * 64 +
           of_char c3 mod 64, length [c, c1, c2, c3])" for t'
        using lb four r by simp
      have e: "encodeRune (of_char c mod 8 * 262144 + of_char c1 mod 64 * 4096 +
          of_char c2 mod 64 * 64 + of_char c3 mod 64) = [c, c1, c2, c3]"
        using encode_four [of "of_char c" "of_char c1" "of_char c2" "of_char c3"] four r
        by (auto simp: continuation_def)
      show ?thesis
        by (rule multi [of "[c, c1, c2, c3]" t, OF _ _ _ d e])
          (use cs hi four r in \<open>auto simp: continuation_def\<close>)
    next
      case False
      then have "decodeRune (c # cs) = (RuneError, 1)"
        using lb four by (cases cs; cases "tl cs"; cases "tl (tl cs)") auto
      with hi show ?thesis
        by (intro invalid)
    qed
  qed
qed

subsection \<open>Unfolding the walk\<close>

lemma replaceAll_loop_acc:
  "replaceAll_loop s old new (a @ b) = a @ replaceAll_loop s old new b"
proof (induction s old new b arbitrary: a rule: replaceAll_loop.induct)
  case (1 old new result)
  show ?case by simp
next
  case (2 c cs old new result)
  obtain char width where d: "decodeRune (c # cs) = (char, width)"
    by (cases "decodeRune (c # cs)")
  show ?case
    using "2.IH" [OF d [symmetric], of a]
    by (cases "encodeRune char = old") (simp_all add: d del: decodeRune.simps)
qed

lemma replaceAll_Nil: "replaceAll [] old new = []"
  by (simp add: replaceAll_def)

lemma replaceAll_step:
  assumes "s \<noteq> []" and "decodeRune s = (r, w)"
  shows "replaceAll s old new =
           (if encodeRune r = old then new else encodeRune r) @ replaceAll (drop w s) old new"
proof -
  obtain c cs where s: "s = c # cs"
    using assms(1) by (cases s) auto
  define X where "X = (if encodeRune r = old then new else encodeRune r)"
  have "replaceAll_loop (c # cs) old new [] = replaceAll_loop (drop w (c # cs)) old new (X @ [])"
    using assms(2) by (simp add: X_def s del: decodeRune.simps)
  also have "\<dots> = X @ replaceAll_loop (drop w (c # cs)) old new []"
    by (rule replaceAll_loop_acc)
  finally show ?thesis
    by (simp only: replaceAll_def s X_def)
qed

lemma ValidString_step:
  assumes "s \<noteq> []" and "decodeRune s = (r, w)"
  shows "ValidString s = (\<not> (r = RuneError \<and> w = 1) \<and> ValidString (drop w s))"
proof -
  obtain c cs where s: "s = c # cs"
    using assms(1) by (cases s) auto
  show ?thesis
    using assms(2) by (simp add: s del: decodeRune.simps)
qed

lemma replaceAll_ascii_head:
  assumes "(of_char c :: nat) < 128"
  shows "replaceAll (c # cs) ''/'' ''__'' =
           (if c = CHR ''/'' then ''__'' else [c]) @ replaceAll cs ''/'' ''__''"
  using replaceAll_step [OF _ decodeRune_ascii [OF assms], of cs "''/''" "''__''"]
  by (simp add: encodeRune_ascii [OF assms])

lemma replaceAll_invalid_head:
  assumes "decodeRune (c # cs) = (RuneError, 1)"
  shows "replaceAll (c # cs) ''/'' ''__'' = [CHR 0xEF, CHR 0xBF, CHR 0xBD] @ replaceAll cs ''/'' ''__''"
  using replaceAll_step [OF _ assms, of "''/''" "''__''"]
  by (simp add: encodeRune_RuneError)

lemma replaceAll_multi_head:
  assumes "\<And>t'. decodeRune (u @ t') = (r, length u)" and "encodeRune r = u" and "2 \<le> length u"
  shows "replaceAll (u @ t) ''/'' ''__'' = u @ replaceAll t ''/'' ''__''"
proof -
  have "u @ t \<noteq> []" and "u \<noteq> ''/''"
    using assms(3) by auto
  with replaceAll_step [OF _ assms(1), of t "''/''" "''__''"] assms(2) show ?thesis
    by simp
qed

lemma ValidString_ascii_head:
  "(of_char c :: nat) < 128 \<Longrightarrow> ValidString (c # cs) = ValidString cs"
  by (simp add: decodeRune_ascii RuneError_def del: decodeRune.simps)

lemma ValidString_multi_head:
  assumes "\<And>t'. decodeRune (u @ t') = (r, length u)" and "2 \<le> length u"
  shows "ValidString (u @ t) = ValidString t"
proof -
  have "u @ t \<noteq> []"
    using assms(2) by auto
  with ValidString_step [OF _ assms(1), of t] assms(2) show ?thesis
    by simp
qed

lemma ValidString_RuneError_head:
  "ValidString (CHR 0xEF # CHR 0xBF # CHR 0xBD # t) = ValidString t"
  by (simp add: lead_byte_def continuation_def)

subsection \<open>Induction over the runes of a string\<close>

lemma rune_induct [case_names Nil ascii invalid multi]:
  assumes "P []"
    and "\<And>c cs. (of_char c :: nat) < 128 \<Longrightarrow> P cs \<Longrightarrow> P (c # cs)"
    and "\<And>c cs. 128 \<le> (of_char c :: nat) \<Longrightarrow> decodeRune (c # cs) = (RuneError, 1) \<Longrightarrow>
           P cs \<Longrightarrow> P (c # cs)"
    and "\<And>u t r. 2 \<le> length u \<Longrightarrow> \<forall>x \<in> set u. 128 \<le> (of_char x :: nat) \<Longrightarrow>
           (\<And>t'. decodeRune (u @ t') = (r, length u)) \<Longrightarrow> encodeRune r = u \<Longrightarrow>
           P t \<Longrightarrow> P (u @ t)"
  shows "P s"
proof (induction "length s" arbitrary: s rule: less_induct)
  case less
  show ?case
  proof (cases s)
    case Nil
    with assms(1) show ?thesis by simp
  next
    case (Cons c cs)
    show ?thesis
    proof (cases rule: rune_cases [where c = c and cs = cs])
      case ascii
      with less [of cs] assms(2) Cons show ?thesis
        by simp
    next
      case invalid
      with less [of cs] assms(3) Cons show ?thesis
        by simp
    next
      case (multi u t r)
      have "length s = length u + length t"
        using multi(1) Cons by (metis length_append)
      with multi(2) have "length t < length s"
        by auto
      from assms(4) [OF multi(2,3,4,5) less [OF this]] multi(1) Cons show ?thesis
        by simp
    qed
  qed
qed

subsection \<open>Valid UTF-8 paths are encoded byte by byte\<close>

lemma slash_bytes_Nil: "slash_bytes [] = []"
  by (simp add: slash_bytes_def)

lemma slash_bytes_Cons:
  "slash_bytes (c # s) = (if c = CHR ''/'' then ''__'' else [c]) @ slash_bytes s"
  by (simp add: slash_bytes_def)

lemma slash_bytes_append: "slash_bytes (u @ t) = slash_bytes u @ slash_bytes t"
  by (simp add: slash_bytes_def)

lemma slash_bytes_high:
  "\<forall>x \<in> set u. 128 \<le> (of_char x :: nat) \<Longrightarrow> slash_bytes u = u"
  by (induction u) (auto simp: slash_bytes_Nil slash_bytes_Cons)

lemma high_not_ascii:
  "\<forall>x \<in> set u. 128 \<le> (of_char x :: nat) \<Longrightarrow> CHR ''/'' \<notin> set u \<and> CHR ''_'' \<notin> set u"
  by auto

lemma replaceAll_valid:
  "ValidString s \<Longrightarrow> replaceAll s ''/'' ''__'' = slash_bytes s"
proof (induction s rule: rune_induct)
  case Nil
  show ?case by (simp add: replaceAll_Nil slash_bytes_Nil)
next
  case (ascii c cs)
  then show ?case
    by (simp add: replaceAll_ascii_head ValidString_ascii_head slash_bytes_Cons
        del: ValidString.simps)
next
  case (invalid c cs)
  from invalid(4) ValidString_step [OF _ invalid(2)] show ?case
    by simp
next
  case (multi u t r)
  from multi(6) have "ValidString t"
    by (simp add: ValidString_multi_head [OF multi(3) multi(1)])
  with multi show ?case
    by (simp add: replaceAll_multi_head slash_bytes_append slash_bytes_high)
qed

lemma replaceAll_no_slash: "CHR ''/'' \<notin> set (replaceAll s ''/'' ''__'')"
proof (induction s rule: rune_induct)
  case Nil
  show ?case by (simp add: replaceAll_Nil)
next
  case (ascii c cs)
  then show ?case
    by (simp add: replaceAll_ascii_head)
next
  case (invalid c cs)
  then show ?case
    by (simp add: replaceAll_invalid_head)
next
  case (multi u t r)
  then show ?case
    using high_not_ascii [of u] by (simp add: replaceAll_multi_head)
qed

lemma replaceAll_ValidString: "ValidString (replaceAll s ''/'' ''__'')"
proof (induction s rule: rune_induct)
  case Nil
  show ?case by (simp add: replaceAll_Nil)
next
  case (ascii c cs)
  then show ?case
    by (simp add: replaceAll_ascii_head ValidString_ascii_head del: ValidString.simps)
next
  case (invalid c cs)
  then show ?case
    by (simp add: replaceAll_invalid_head ValidString_RuneError_head del: ValidString.simps)
next
  case (multi u t r)
  then show ?case
    by (simp add: replaceAll_multi_head ValidString_multi_head del: ValidString.simps)
qed

subsection \<open>Decoding keeps a string valid\<close>

lemma restore_slashes_other:
  "c \<noteq> CHR ''_'' \<Longrightarrow> restore_slashes (c # s) = c # restore_slashes s"
  by (cases s) auto

lemma restore_slashes_high:
  "CHR ''_'' \<notin> set u \<Longrightarrow> restore_slashes (u @ t) = u @ restore_slashes t"
  by (induction u) (auto simp: restore_slashes_other)

lemma restore_slashes_ValidString_aux:
  "ValidString s \<longrightarrow>
     ValidString (restore_slashes s) \<and> ValidString (restore_slashes (CHR ''_'' # s))"
proof (induction s rule: rune_induct)
  case Nil
  show ?case by (simp add: lead_byte_def RuneError_def)
next
  case (ascii c cs)
  show ?case
  proof (cases "c = CHR ''_''")
    case True
    with ascii show ?thesis
      by (simp add: ValidString_ascii_head del: ValidString.simps)
  next
    case False
    with ascii show ?thesis
      by (simp add: ValidString_ascii_head restore_slashes_other del: ValidString.simps)
  qed
next
  case (invalid c cs)
  from ValidString_step [OF _ invalid(2)] show ?case
    by simp
next
  case (multi u t r)
  have u: "CHR ''_'' \<notin> set u"
    using high_not_ascii [OF multi(2)] by simp
  have v: "ValidString (u @ x) = ValidString x" for x
    by (rule ValidString_multi_head [OF multi(3) multi(1)])
  obtain a l where al: "u = a # l"
    using multi(1) by (cases u) auto
  with u have "a \<noteq> CHR ''_''"
    by auto
  then have "restore_slashes (CHR ''_'' # a # l @ t) = CHR ''_'' # restore_slashes (a # l @ t)"
    by simp
  with restore_slashes_high [OF u, of t]
  have "restore_slashes (CHR ''_'' # u @ t) = CHR ''_'' # u @ restore_slashes t"
    by (simp add: al)
  with multi(5) u show ?case
    by (simp add: restore_slashes_high v ValidString_ascii_head del: ValidString.simps)
qed

lemma restore_slashes_ValidString: "ValidString s \<Longrightarrow> ValidString (restore_slashes s)"
  using restore_slashes_ValidString_aux [of s] by simp


subsection \<open>The byte-wise encoding and the script's decoding\<close>

lemma slash_bytes_no_slash: "CHR ''/'' \<notin> set (slash_bytes p)"
  by (induction p) (auto simp: slash_bytes_Nil slash_bytes_Cons)

lemma slash_bytes_restore: "CHR ''/'' \<notin> set q \<Longrightarrow> slash_bytes (restore_slashes q) = q"
  by (induction q rule: restore_slashes.induct) (auto simp: slash_bytes_Nil slash_bytes_Cons)

lemma slash_bytes_hd:
  "slash_bytes p = d # r \<Longrightarrow> d = CHR ''_'' \<Longrightarrow> p \<noteq> [] \<and> (hd p = CHR ''_'' \<or> hd p = CHR ''/'')"
  by (cases p) (auto simp: slash_bytes_Nil slash_bytes_Cons split: if_splits)

lemma restore_slash_bytes: "plain_path p \<Longrightarrow> restore_slashes (slash_bytes p) = p"
proof (induction p rule: plain_path.induct)
  case (1 c d rest)
  then have IH: "restore_slashes (slash_bytes (d # rest)) = d # rest"
    by simp
  show ?case
  proof (cases "c = CHR ''/''")
    case True
    with IH show ?thesis by (simp add: slash_bytes_Cons [of "CHR ''/''"])
  next
    case False
    obtain e r where er: "slash_bytes (d # rest) = e # r"
      by (cases "d = CHR ''/''") (auto simp: slash_bytes_Cons)
    have "\<not> (c = CHR ''_'' \<and> e = CHR ''_'')"
      using 1(2) slash_bytes_hd [OF er] by auto
    with False IH er show ?thesis
      by (simp add: slash_bytes_Cons [of c])
  qed
qed (simp_all add: slash_bytes_Nil slash_bytes_Cons)

lemma encode_restore:
  "replaceAll (restore_slashes (replaceAll p ''/'' ''__'')) ''/'' ''__'' = replaceAll p ''/'' ''__''"
proof -
  have "ValidString (restore_slashes (replaceAll p ''/'' ''__''))"
    by (rule restore_slashes_ValidString) (rule replaceAll_ValidString)
  then have "replaceAll (restore_slashes (replaceAll p ''/'' ''__'')) ''/'' ''__'' =
      slash_bytes (restore_slashes (replaceAll p ''/'' ''__''))"
    by (rule replaceAll_valid)
  also have "\<dots> = replaceAll p ''/'' ''__''"
    by (rule slash_bytes_restore) (rule replaceAll_no_slash)
  finally show ?thesis .
qed

lemma restore_encode:
  "ValidString p \<Longrightarrow> plain_path p \<Longrightarrow> restore_slashes (replaceAll p ''/'' ''__'') = p"
  by (simp add: replaceAll_valid restore_slash_bytes)

lemma ascii_ValidString: "list_all (\<lambda>c. (of_char c :: nat) < 128) s \<Longrightarrow> ValidString s"
  by (induction s) (simp_all add: ValidString_ascii_head del: ValidString.simps(2))

lemma replaceAll_ascii:
  "list_all (\<lambda>c. (of_char c :: nat) < 128) s \<Longrightarrow> replaceAll s ''/'' ''__'' = slash_bytes s"
  by (rule replaceAll_valid) (rule ascii_ValidString)

lemma after_separator_key: "plain_key k \<Longrightarrow> after_separator (k @ ''::'' @ r) = Some r"
  by (induction k rule: plain_key.induct) auto


text \<open>
  Claim C2 (amended). Encoding \<open>android/app/google-services.json\<close> and decoding it
  gives the path back; for every path (with or without a slash, valid UTF-8 or not)
  encoding is stable under a decode-encode round; and the build script recovers the
  path from the data key whenever the path is non-empty, is valid UTF-8, has no \<open>__\<close>
  and no \<open>_/\<close> in it, and the entry's key has no \<open>::\<close> in it and no \<open>:\<close> at its end.
\<close>

theorem file_placement_round_trip:
  "restore_slashes (replaceAll ''android/app/google-services.json'' ''/'' ''__'') =
     ''android/app/google-services.json'' \<and>
   replaceAll (restore_slashes (replaceAll p ''/'' ''__'')) ''/'' ''__'' =
     replaceAll p ''/'' ''__'' \<and>
   (Path env \<noteq> [] \<and> ValidString (Path env) \<and> plain_key (Key env) \<and> plain_path (Path env) \<longrightarrow>
      dest_path (fileName env) = Path env)"
proof (intro conjI impI)
  show "restore_slashes (replaceAll ''android/app/google-services.json'' ''/'' ''__'') =
     ''android/app/google-services.json''"
    by (rule restore_encode) (rule ascii_ValidString, simp, simp)
  show "replaceAll (restore_slashes (replaceAll p ''/'' ''__'')) ''/'' ''__'' =
     replaceAll p ''/'' ''__''"
    by (rule encode_restore)
  assume h: "Path env \<noteq> [] \<and> ValidString (Path env) \<and> plain_key (Key env) \<and>
    plain_path (Path env)"
  then have "after_separator (Key env @ ''::'' @ encodedPath env) = Some (encodedPath env)"
    using after_separator_key [of "Key env" "encodedPath env"] by simp
  with h show "dest_path (fileName env) = Path env"
    by (simp add: dest_path_def fileName_def encodedPath_def restore_encode)
qed

theorem file_placement_round_trip_witness:
  "Path \<lparr>ProjectID = 1, Key = ''gs'', Value = ''e30='', Type = ''file'',
         Path = ''android/app/g.json'', IsBase64 = True\<rparr> \<noteq> [] \<and>
   ValidString ''android/app/g.json'' \<and>
   plain_key ''gs'' \<and> plain_path ''android/app/g.json'' \<and>
   fileName \<lparr>ProjectID = 1, Key = ''gs'', Value = ''e30='', Type = ''file'',
             Path = ''android/app/g.json'', IsBase64 = True\<rparr> = ''gs::android__app__g.json'' \<and>
   dest_path (fileName \<lparr>ProjectID = 1, Key = ''gs'', Value = ''e30='', Type = ''file'',
                        Path = ''android/app/g.json'', IsBase64 = True\<rparr>) =
     ''android/app/g.json''"
proof -
  have v: "ValidString ''android/app/g.json''"
    by (rule ascii_ValidString) simp
  show ?thesis
    using file_placement_round_trip
      [of "[]" "\<lparr>ProjectID = 1, Key = ''gs'', Value = ''e30='', Type = ''file'',
                  Path = ''android/app/g.json'', IsBase64 = True\<rparr>"] v
    by (simp add: fileName_def encodedPath_def replaceAll_ascii slash_bytes_def
        del: ValidString.simps)
qed

text \<open>
  The claim as stated fails on a path that contains \<open>__\<close>: the script places the file
  under a different path. It fails as well on a path that is not valid UTF-8, whose
  offending bytes the encoding replaces by \<open>EF BF BD\<close>.
\<close>

theorem file_placement_counterexample:
  "dest_path (fileName \<lparr>ProjectID = 1, Key = ''cfg'', Value = [], Type = ''file'',
                        Path = ''lib/my__config.json'', IsBase64 = False\<rparr>) =
     ''lib/my/config.json'' \<and>
   dest_path (fileName \<lparr>ProjectID = 1, Key = ''cfg'', Value = [], Type = ''file'',
                        Path = ''lib/my__config.json'', IsBase64 = False\<rparr>) \<noteq>
     Path \<lparr>ProjectID = 1, Key = ''cfg'', Value = [], Type = ''file'',
           Path = ''lib/my__config.json'', IsBase64 = False\<rparr> \<and>
   plain_path [CHR 0xFF, CHR ''/'', CHR ''x''] \<and>
   dest_path (fileName \<lparr>ProjectID = 1, Key = ''cfg'', Value = [], Type = ''file'',
                        Path = [CHR 0xFF, CHR ''/'', CHR ''x''], IsBase64 = False\<rparr>) =
     [CHR 0xEF, CHR 0xBF, CHR 0xBD, CHR ''/'', CHR ''x'']"
  by (simp add: dest_path_def fileName_def encodedPath_def replaceAll_ascii slash_bytes_def
      replaceAll_invalid_head replaceAll_ascii_head replaceAll_Nil lead_byte_def)

section \<open>Base64: decoding inverts encoding\<close>

lemma b64_value_char: "v < 64 \<Longrightarrow> b64_value (b64_char v) = Some v"
  by (auto simp: b64_value_def b64_char_def Let_def)

lemma of_char_b64_char:
  "v < 64 \<Longrightarrow> (of_char (b64_char v) :: nat) \<in> {43, 47} \<union> {48..57} \<union> {65..90} \<union> {97..122}"
  by (auto simp: b64_char_def)

lemma b64_char_not_pad: "v < 64 \<Longrightarrow> b64_char v \<noteq> CHR ''=''"
proof
  assume "v < 64" and "b64_char v = CHR ''=''"
  then have "(61 :: nat) \<in> {43, 47} \<union> {48..57} \<union> {65..90} \<union> {97..122}"
    using of_char_b64_char [of v] by simp
  then show False by simp
qed

lemma b64_char_not_newline: "v < 64 \<Longrightarrow> \<not> is_newline (b64_char v)"
proof
  assume "v < 64" and "is_newline (b64_char v)"
  then have "(10 :: nat) \<in> {43, 47} \<union> {48..57} \<union> {65..90} \<union> {97..122} \<or>
             (13 :: nat) \<in> {43, 47} \<union> {48..57} \<union> {65..90} \<union> {97..122}"
    using of_char_b64_char [of v] by (auto simp: is_newline_def)
  then show False by simp
qed

lemma sextets_val:
  assumes "v < 16777216"
  shows "quantum_val (v div 262144 mod 64) (v div 4096 mod 64) (v div 64 mod 64) (v mod 64) = v"
proof -
  have d1: "v div 4096 = v div 64 div 64" and d2: "v div 262144 = v div 4096 div 64"
    by (simp_all add: div_mult2_eq [symmetric])
  have top: "v div 262144 < 64"
    using assms by simp
  have s0: "v = 64 * (v div 64) + v mod 64"
    by simp
  have s1: "v div 64 = 64 * (v div 4096) + v div 64 mod 64"
    unfolding d1 by simp
  have s2: "v div 4096 = 64 * (v div 262144) + v div 4096 mod 64"
    unfolding d2 by simp
  from top have "v div 262144 mod 64 = v div 262144"
    by simp
  then have "quantum_val (v div 262144 mod 64) (v div 4096 mod 64) (v div 64 mod 64) (v mod 64)
      = 64 * (64 * (64 * (v div 262144) + v div 4096 mod 64) + v div 64 mod 64) + v mod 64"
    by (simp add: quantum_val_def)
  also have "\<dots> = 64 * (64 * (v div 4096) + v div 64 mod 64) + v mod 64"
    using s2 by simp
  also have "\<dots> = 64 * (v div 64) + v mod 64"
    using s1 by simp
  also have "\<dots> = v"
    by simp
  finally show ?thesis .
qed

lemma byte_of_of_char: "byte_of (of_char c) = c"
  by (simp add: byte_of_def)


lemma of_char_bound: "(of_char c :: nat) < 256"
proof -
  have "(of_char c :: nat) mod 256 = of_char c"
    by (rule of_char_mod_256)
  then show ?thesis
    by (metis mod_less_divisor zero_less_numeral)
qed

lemma pad_not_newline: "\<not> is_newline CHR ''=''"
  by (simp add: is_newline_def)

lemma decode_full_quantum:
  assumes "v < 16777216" and "decodeQuanta rest' = Some rest"
  shows "decodeQuanta (b64_char (v div 262144 mod 64) # b64_char (v div 4096 mod 64) #
                       b64_char (v div 64 mod 64) # b64_char (v mod 64) # rest') =
         Some (byte_of (v div 65536) # byte_of (v div 256) # byte_of v # rest)"
proof -
  define a b c d where
    s: "a = v div 262144 mod 64" "b = v div 4096 mod 64" "c = v div 64 mod 64" "d = v mod 64"
  have lt: "a < 64" "b < 64" "c < 64" "d < 64"
    by (simp_all add: s)
  have q: "quantum_val a b c d = v"
    unfolding s by (rule sextets_val [OF assms(1)])
  have "decodeQuanta (b64_char a # b64_char b # b64_char c # b64_char d # rest') =
         Some (byte_of (v div 65536) # byte_of (v div 256) # byte_of v # rest)"
    using lt q assms(2) by (simp add: b64_value_char b64_char_not_pad)
  then show ?thesis
    unfolding s .
qed

lemma decode_two_bytes:
  assumes "v < 16777216" and "v mod 64 = 0"
  shows "decodeQuanta [b64_char (v div 262144 mod 64), b64_char (v div 4096 mod 64),
                       b64_char (v div 64 mod 64), CHR ''=''] =
         Some [byte_of (v div 65536), byte_of (v div 256)]"
proof -
  define a b c d where
    s: "a = v div 262144 mod 64" "b = v div 4096 mod 64" "c = v div 64 mod 64" "d = v mod 64"
  have lt: "a < 64" "b < 64" "c < 64" "d < 64"
    by (simp_all add: s)
  have q: "quantum_val a b c d = v"
    unfolding s by (rule sextets_val [OF assms(1)])
  from s(4) assms(2) have "d = 0"
    by simp
  with q have "quantum_val a b c 0 = v"
    by simp
  then have "decodeQuanta [b64_char a, b64_char b, b64_char c, CHR ''=''] =
         Some [byte_of (v div 65536), byte_of (v div 256)]"
    using lt by (simp add: b64_value_char b64_char_not_pad)
  then show ?thesis
    unfolding s .
qed

lemma decode_one_byte:
  assumes "v < 16777216" and "v mod 64 = 0" and "v div 64 mod 64 = 0"
  shows "decodeQuanta [b64_char (v div 262144 mod 64), b64_char (v div 4096 mod 64),
                       CHR ''='', CHR ''=''] =
         Some [byte_of (v div 65536)]"
proof -
  define a b c d where
    s: "a = v div 262144 mod 64" "b = v div 4096 mod 64" "c = v div 64 mod 64" "d = v mod 64"
  have lt: "a < 64" "b < 64" "c < 64" "d < 64"
    by (simp_all add: s)
  have q: "quantum_val a b c d = v"
    unfolding s by (rule sextets_val [OF assms(1)])
  from s(3,4) assms(2,3) have "c = 0" "d = 0"
    by simp_all
  with q have "quantum_val a b 0 0 = v"
    by simp
  then have "decodeQuanta [b64_char a, b64_char b, CHR ''='', CHR ''=''] =
         Some [byte_of (v div 65536)]"
    using lt by (simp add: b64_value_char)
  then show ?thesis
    unfolding s .
qed

lemma decodeQuanta_EncodeToString: "decodeQuanta (EncodeToString bs) = Some bs"
proof (induction bs rule: EncodeToString.induct)
  case 1
  show ?case by simp
next
  case (2 x)
  define X :: nat where "X = of_char x"
  define v where "v = X * 65536"
  have X: "X < 256"
    by (simp add: X_def of_char_bound)
  have b1: "v < 16777216"
    using X by (simp add: v_def)
  have b2: "v mod 64 = 0"
    by (simp add: v_def)
  have "v div 64 = 64 * (X * 16)"
    by (simp add: v_def)
  then have b3: "v div 64 mod 64 = 0"
    by simp
  have b4: "v div 65536 = X"
    by (simp add: v_def)
  have "byte_of (v div 65536) = x"
    unfolding b4 X_def by (rule byte_of_of_char)
  then show ?case
    using decode_one_byte [OF b1 b2 b3]
    by (simp add: Let_def v_def X_def)
next
  case (3 x y)
  define X :: nat where "X = of_char x"
  define Y :: nat where "Y = of_char y"
  define v where "v = X * 65536 + Y * 256"
  have X: "X < 256" and Y: "Y < 256"
    by (simp_all add: X_def Y_def of_char_bound)
  have b1: "v < 16777216"
    using X Y by (simp add: v_def)
  have "v = 64 * (X * 1024 + Y * 4)"
    by (simp add: v_def)
  then have b2: "v mod 64 = 0"
    by simp
  have b3: "v div 65536 = X"
    by (rule div_nat_eqI) (use Y in \<open>simp_all add: v_def\<close>)
  have b4: "v div 256 = X * 256 + Y"
    by (rule div_nat_eqI) (simp_all add: v_def)
  have x: "byte_of (v div 65536) = x"
    unfolding b3 X_def by (rule byte_of_of_char)
  have "byte_of (v div 256) = byte_of Y"
    unfolding b4 by (simp add: byte_of_def)
  then have y: "byte_of (v div 256) = y"
    unfolding Y_def by (simp add: byte_of_of_char)
  show ?case
    using decode_two_bytes [OF b1 b2] x y
    by (simp add: Let_def v_def X_def Y_def)
next
  case (4 x y z rest)
  define X :: nat where "X = of_char x"
  define Y :: nat where "Y = of_char y"
  define Z :: nat where "Z = of_char z"
  define v where "v = X * 65536 + Y * 256 + Z"
  have X: "X < 256" and Y: "Y < 256" and Z: "Z < 256"
    by (simp_all add: X_def Y_def Z_def of_char_bound)
  have b1: "v < 16777216"
    using X Y Z by (simp add: v_def)
  have b2: "v div 65536 = X"
    by (rule div_nat_eqI) (use Y Z in \<open>simp_all add: v_def\<close>)
  have b3: "v div 256 = X * 256 + Y"
    by (rule div_nat_eqI) (use Z in \<open>simp_all add: v_def\<close>)
  have "v = Z + 256 * (X * 256 + Y)"
    by (simp add: v_def)
  then have "v mod 256 = (Z + 256 * (X * 256 + Y)) mod 256"
    by (rule arg_cong)
  also have "\<dots> = Z mod 256"
    by (rule mod_mult_self2)
  finally have b4: "v mod 256 = Z"
    using Z by simp
  have x: "byte_of (v div 65536) = x"
    unfolding b2 X_def by (rule byte_of_of_char)
  have "byte_of (v div 256) = byte_of Y"
    unfolding b3 by (simp add: byte_of_def)
  then have y: "byte_of (v div 256) = y"
    unfolding Y_def by (simp add: byte_of_of_char)
  have "byte_of v = byte_of Z"
    using b4 by (simp add: byte_of_def)
  then have z: "byte_of v = z"
    unfolding Z_def by (simp add: byte_of_of_char)
  show ?case
    using decode_full_quantum [OF b1 "4.IH"] x y z
    by (simp add: Let_def v_def X_def Y_def Z_def)
qed

lemma EncodeToString_no_newline: "\<forall>c \<in> set (EncodeToString bs). \<not> is_newline c"
  by (induction bs rule: EncodeToString.induct)
    (simp_all add: Let_def b64_char_not_newline pad_not_newline)

lemma DecodeString_EncodeToString: "DecodeString (EncodeToString bs) = Some bs"
  using EncodeToString_no_newline [of bs]
  by (simp add: DecodeString_def decodeQuanta_EncodeToString)

section \<open>The provisioning steps\<close>

lemma envFilesData_append:
  "envFilesData (xs @ ys) data =
     (case envFilesData xs data of Inl err \<Rightarrow> Inl err | Inr d \<Rightarrow> envFilesData ys d)"
  by (induction xs arbitrary: data) (auto split: sum.splits)

lemma envFilesData_other_keys:
  "envFilesData envs d = Inr data \<Longrightarrow> k \<notin> fileName ` set envs \<Longrightarrow> data k = d k"
  by (induction envs arbitrary: d) (auto split: sum.splits)

lemma envFilesData_error:
  "env \<in> set envs \<Longrightarrow> content env = Inl e \<Longrightarrow> \<exists>err. envFilesData envs d = Inl err"
  by (induction envs arbitrary: d) (auto split: sum.splits)

lemma envFilesData_last_wins:
  assumes "envFilesData (pre @ env # post) d = Inr data"
    and "fileName env \<notin> fileName ` set post"
  shows "\<exists>c. content env = Inr c \<and> data (fileName env) = Some c"
proof -
  from assms(1) obtain d1 where d1: "envFilesData pre d = Inr d1"
    and rest: "envFilesData (env # post) d1 = Inr data"
    by (auto simp: envFilesData_append split: sum.splits)
  from rest obtain c where c: "content env = Inr c"
    and post: "envFilesData post (d1(fileName env \<mapsto> c)) = Inr data"
    by (auto split: sum.splits)
  from envFilesData_other_keys [OF post assms(2)] have "data (fileName env) = Some c"
    by simp
  with c show ?thesis by blast
qed

lemma content_bad_base64:
  "IsBase64 env \<Longrightarrow> DecodeString (Value env) = None \<Longrightarrow>
   content env = Inl (Errorf (''failed to decode base64 content for '' @ Key env) CorruptInputError)"
  by (simp add: content_def)

lemma CreateConfigMapForEnvFiles_bad_base64:
  assumes "Find_envs d projectID ''file'' = Inr envs" and "env \<in> set envs"
    and "IsBase64 env" and "DecodeString (Value env) = None"
  shows "\<exists>err. CreateConfigMapForEnvFiles (Some d) k8s buildID projectID ns = (([], Some err), k8s)"
proof -
  from envFilesData_error [OF assms(2) content_bad_base64 [OF assms(3,4)]]
  obtain err where "envFilesData envs Map.empty = Inl err"
    by blast
  moreover from assms(2) have "length envs \<noteq> 0"
    by auto
  ultimately show ?thesis
    using assms(1) by (simp add: CreateConfigMapForEnvFiles_def)
qed

lemma PVC_step:
  assumes "CreatePersistentVolumeClaimForArtifacts k8s bid ns = ((n, e), c1)"
  shows "pods c1 = pods k8s" "configMaps c1 = configMaps k8s" "secrets c1 = secrets k8s"
    "rejects c1 = rejects k8s"
    "requests c1 = requests k8s @ [(Create, PVCKind, ns, pvcName bid)]"
    "e = None \<Longrightarrow> n = pvcName bid"
    "e = None \<Longrightarrow> \<exists>pvc. pvcs c1 (ns, pvcName bid) = Some pvc \<and>
        Labels (pvc_ObjectMeta pvc) ''app'' = Some ''flotio-build'' \<and>
        Labels (pvc_ObjectMeta pvc) ''build-id'' = Some (format_uint bid)"
  using assms
  by (auto simp: CreatePersistentVolumeClaimForArtifacts_def PersistentVolumeClaims_Create_def
      received_def Let_def split: if_splits)

lemma ConfigMap_step:
  assumes "CreateConfigMapForEnvFiles DB k8s bid pid ns = ((n, e), c1)"
  shows "pods c1 = pods k8s" "pvcs c1 = pvcs k8s" "secrets c1 = secrets k8s"
    "rejects c1 = rejects k8s"
    "set (requests c1) \<subseteq> set (requests k8s) \<union> {(Create, ConfigMapKind, ns, configMapName bid)}"
    "n = [] \<or> n = configMapName bid"
    "e \<noteq> None \<Longrightarrow> n = []"
  using assms
  by (auto simp: CreateConfigMapForEnvFiles_def ConfigMaps_Create_def
      received_def Let_def split: if_splits option.splits sum.splits)

lemma ConfigMap_created:
  assumes "CreateConfigMapForEnvFiles (Some d) k8s bid pid ns = ((n, None), c1)"
    and "Find_envs d pid ''file'' = Inr envs" and "envs \<noteq> []"
  shows "\<exists>cm. configMaps c1 (ns, configMapName bid) = Some cm \<and>
          envFilesData envs Map.empty = Inr (Data cm) \<and>
          Labels (cm_ObjectMeta cm) ''app'' = Some ''flotio-build'' \<and>
          Labels (cm_ObjectMeta cm) ''build-id'' = Some (format_uint bid)"
    and "n = configMapName bid"
  using assms
  by (auto simp: CreateConfigMapForEnvFiles_def ConfigMaps_Create_def
      received_def Let_def split: if_splits option.splits sum.splits)

lemma format_uint_7: "format_uint 7 = ''7''"
  by code_simp

lemma DecodeString_e30: "DecodeString ''e30='' = Some ''{}''"
  apply (simp add: DecodeString_def is_newline_def b64_value_def quantum_val_def byte_of_def)
  apply code_simp
  done

lemma EncodeToString_braces: "EncodeToString ''{}'' = ''e30=''"
  apply (simp add: b64_char_def Let_def)
  apply code_simp
  done

lemma DecodeString_bangs: "DecodeString ''!!!!'' = None"
  by (simp add: DecodeString_def is_newline_def b64_value_def)

lemma CreateBuildPod_bad_base64:
  assumes "getKubernetesConfig p = Inr cfg" and "\<not> clientset_fails p"
    and "Find_envs d (ID (Project config)) ''file'' = Inr envs" and "env \<in> set envs"
    and "IsBase64 env" and "DecodeString (Value env) = None"
  shows "\<exists>err k8s'. CreateBuildPod p (Some d) k8s config = (Some err, k8s') \<and>
           pods k8s' = pods k8s"
proof -
  obtain n e c1 where pvc:
    "CreatePersistentVolumeClaimForArtifacts k8s (BuildID config) (getNamespace p) = ((n, e), c1)"
    by (metis surj_pair)
  from CreateConfigMapForEnvFiles_bad_base64 [OF assms(3-6)]
  obtain err where
    "CreateConfigMapForEnvFiles (Some d) c1 (BuildID config) (ID (Project config)) (getNamespace p)
       = (([], Some err), c1)"
    by blast
  with pvc PVC_step(1) [OF pvc] assms(1,2) show ?thesis
    by (cases e) (simp_all add: CreateBuildPod_def Let_def)
qed

lemma secretName_nonempty: "secretName bid \<noteq> []"
  by (simp add: secretName_def)

lemma Secret_step:
  assumes "CreateSecretForKeystore DB k8s bid pid ns = ((n, e), c1)"
  shows "pods c1 = pods k8s" "pvcs c1 = pvcs k8s" "configMaps c1 = configMaps k8s"
    "rejects c1 = rejects k8s"
    "n = [] \<or> n = secretName bid"
    "e \<noteq> None \<Longrightarrow> n = []"
    "n = [] \<Longrightarrow> secrets c1 = secrets k8s"
    "requests c1 = requests k8s \<or>
     requests c1 = requests k8s @ [(Create, SecretKind, ns, secretName bid)]"
  using assms
  by (auto simp: CreateSecretForKeystore_def Secrets_Create_def secretName_nonempty
      received_def Let_def split: if_splits option.splits sum.splits)

lemma Secret_skipped:
  "CreateSecretForKeystore None k8s bid pid ns = (([], None), k8s)"
  "First_keystore d pid = Inl err \<Longrightarrow>
     CreateSecretForKeystore (Some d) k8s bid pid ns = (([], None), k8s)"
  by (simp_all add: CreateSecretForKeystore_def)


lemma ConfigMap_skipped:
  "CreateConfigMapForEnvFiles None k8s bid pid ns = (([], None), k8s)"
  "Find_envs d pid ''file'' = Inr [] \<Longrightarrow>
     CreateConfigMapForEnvFiles (Some d) k8s bid pid ns = (([], None), k8s)"
  by (simp_all add: CreateConfigMapForEnvFiles_def)

lemma Pods_Create_ok:
  assumes "Pods_Create c ns pod = (None, c')"
  shows "pods c' (ns, Name (pod_ObjectMeta pod)) = Some pod"
    "secrets c' = secrets c" "configMaps c' = configMaps c" "pvcs c' = pvcs c"
    "requests c' = requests c @ [(Create, PodKind, ns, Name (pod_ObjectMeta pod))]"
  using assms by (auto simp: Pods_Create_def received_def Let_def split: if_splits)


lemma buildPod_Name: "Name (pod_ObjectMeta (buildPod p config ns ev vm vs)) = podName (BuildID config)"
  by (simp add: buildPod_def)

text \<open>What a successful build start consists of.\<close>

lemma CreateBuildPod_success:
  assumes "CreateBuildPod p DB k8s config = (None, k8s')"
  obtains c1 cmn c2 sn c3 dbVars where
    "CreatePersistentVolumeClaimForArtifacts k8s (BuildID config) (getNamespace p) =
       ((pvcName (BuildID config), None), c1)"
    "CreateConfigMapForEnvFiles DB c1 (BuildID config) (ID (Project config)) (getNamespace p) =
       ((cmn, None), c2)"
    "(if Platform config = ''android''
      then CreateSecretForKeystore DB c2 (BuildID config) (ID (Project config)) (getNamespace p)
      else (([], None), c2)) = ((sn, None), c3)"
    "dbEnvVars DB (ID (Project config)) = Inr dbVars"
    "Pods_Create c3 (getNamespace p)
       (buildPod p config (getNamespace p)
          (buildEnvironmentVariables config @ dbVars @
             (if sn \<noteq> [] then keystoreEnvVars sn else []))
          (volumeMounts cmn sn) (volumes (pvcName (BuildID config)) cmn sn)) = (None, k8s')"
proof -
  obtain pv e1 c1 where s1:
    "CreatePersistentVolumeClaimForArtifacts k8s (BuildID config) (getNamespace p) = ((pv, e1), c1)"
    by (metis surj_pair)
  obtain cmn e2 c2 where s2:
    "CreateConfigMapForEnvFiles DB c1 (BuildID config) (ID (Project config)) (getNamespace p) =
       ((cmn, e2), c2)"
    by (metis surj_pair)
  obtain sn e3 c3 where s3:
    "(if Platform config = ''android''
      then CreateSecretForKeystore DB c2 (BuildID config) (ID (Project config)) (getNamespace p)
      else (([], None), c2)) = ((sn, e3), c3)"
    by (metis surj_pair)
  from assms have k: "\<exists>cfg. getKubernetesConfig p = Inr cfg" "\<not> clientset_fails p"
    by (auto simp: CreateBuildPod_def split: sum.splits if_splits)
  from assms k s1 have e1: "e1 = None"
    by (cases e1) (auto simp: CreateBuildPod_def Let_def)
  from assms k s1 s2 e1 have e2: "e2 = None"
    by (cases e2) (auto simp: CreateBuildPod_def Let_def)
  from assms k s1 s2 s3 e1 e2 have e3: "e3 = None"
    by (cases e3) (auto simp: CreateBuildPod_def Let_def)
  from assms k s1 s2 s3 e1 e2 e3 obtain dbVars where
    d: "dbEnvVars DB (ID (Project config)) = Inr dbVars"
    by (cases "dbEnvVars DB (ID (Project config))") (auto simp: CreateBuildPod_def Let_def)
  from assms k s1 s2 s3 e1 e2 e3 d have
    "Pods_Create c3 (getNamespace p)
       (buildPod p config (getNamespace p)
          (buildEnvironmentVariables config @ dbVars @
             (if sn \<noteq> [] then keystoreEnvVars sn else []))
          (volumeMounts cmn sn) (volumes pv cmn sn)) = (None, k8s')"
    by (auto simp: CreateBuildPod_def Let_def split: prod.splits option.splits)
  moreover from PVC_step(6) [OF s1] e1 have "pv = pvcName (BuildID config)"
    by simp
  ultimately show thesis
    using that s1 s2 s3 d e1 e2 e3 by blast
qed

lemma CreateBuildPod_compose:
  assumes "getKubernetesConfig p = Inr cfg" and "\<not> clientset_fails p"
    and "CreatePersistentVolumeClaimForArtifacts k8s (BuildID config) (getNamespace p) =
           ((pv, None), ka)"
    and "CreateConfigMapForEnvFiles DB ka (BuildID config) (ID (Project config)) (getNamespace p) =
           ((cmn, None), kb)"
    and "(if Platform config = ''android''
          then CreateSecretForKeystore DB kb (BuildID config) (ID (Project config)) (getNamespace p)
          else (([], None), kb)) = ((sn, None), kc)"
    and "dbEnvVars DB (ID (Project config)) = Inr dbVars"
    and "Pods_Create kc (getNamespace p)
           (buildPod p config (getNamespace p)
              (buildEnvironmentVariables config @ dbVars @
                 (if sn \<noteq> [] then keystoreEnvVars sn else []))
              (volumeMounts cmn sn) (volumes pv cmn sn)) = (e, k8s')"
  shows "CreateBuildPod p DB k8s config = (map_option (Errorf ''failed to create pod'') e, k8s')"
  using assms by (cases e; cases "sn = []") (simp_all add: CreateBuildPod_def Let_def)


section \<open>Content of the environment files\<close>

text \<open>
  Claim C3 (amended). For a file entry flagged as base64 whose value is the base64
  text of some content, the content of the entry is that content; for an entry not
  flagged, it is the raw value. In the ConfigMap that is created, the value under an
  entry's data key is the content of that entry, provided no later entry of the
  project has the same data key (a later one overwrites it). An entry whose value
  does not decode makes ConfigMap creation return an error without creating
  anything, and makes the whole build start return an error without creating a pod.
  The entry \<open>{Key: "gs", Value: "e30=", Type: file, Path: "android/app/g.json",
  IsBase64: true}\<close> yields the data key \<open>gs::android__app__g.json\<close> with value
  \<open>{}\<close>.
\<close>

theorem env_file_content:
  "(IsBase64 ea \<and> Value ea = EncodeToString c \<longrightarrow> content ea = Inr c) \<and>
   (\<not> IsBase64 eb \<longrightarrow> content eb = Inr (Value eb)) \<and>
   (Find_envs dc pidc ''file'' = Inr (pre @ ec # post) \<and> fileName ec \<notin> fileName ` set post \<and>
    CreateConfigMapForEnvFiles (Some dc) kc bidc pidc nsc = ((nc, None), kc') \<longrightarrow>
      (\<exists>cm v. configMaps kc' (nsc, configMapName bidc) = Some cm \<and>
              content ec = Inr v \<and> Data cm (fileName ec) = Some v)) \<and>
   (Find_envs dd pidd ''file'' = Inr envsd \<and> ed \<in> set envsd \<and> IsBase64 ed \<and>
    DecodeString (Value ed) = None \<longrightarrow>
      (\<exists>err. CreateConfigMapForEnvFiles (Some dd) kd bidd pidd nsd = (([], Some err), kd))) \<and>
   (getKubernetesConfig pe = Inr cfge \<and> \<not> clientset_fails pe \<and>
    Find_envs de (ID (Project confige)) ''file'' = Inr envse \<and> ee \<in> set envse \<and>
    IsBase64 ee \<and> DecodeString (Value ee) = None \<longrightarrow>
      (\<exists>err ke'. CreateBuildPod pe (Some de) ke confige = (Some err, ke') \<and>
                  pods ke' = pods ke)) \<and>
   (case CreateConfigMapForEnvFiles
           (Some (healthy_db [\<lparr>ProjectID = 1, Key = ''gs'', Value = ''e30='', Type = ''file'',
                               Path = ''android/app/g.json'', IsBase64 = True\<rparr>] []))
           idle_cluster 7 1 ''default'' of
      ((n, err), k) \<Rightarrow>
         n = ''build-7-env-files'' \<and> err = None \<and>
         (case configMaps k (''default'', ''build-7-env-files'') of
            None \<Rightarrow> False
          | Some cm \<Rightarrow> Data cm ''gs::android__app__g.json'' = Some ''{}''))"
proof (intro conjI impI)
  assume "IsBase64 ea \<and> Value ea = EncodeToString c"
  then show "content ea = Inr c"
    by (simp add: content_def DecodeString_EncodeToString)
next
  assume "\<not> IsBase64 eb"
  then show "content eb = Inr (Value eb)"
    by (simp add: content_def)
next
  assume h: "Find_envs dc pidc ''file'' = Inr (pre @ ec # post) \<and>
    fileName ec \<notin> fileName ` set post \<and>
    CreateConfigMapForEnvFiles (Some dc) kc bidc pidc nsc = ((nc, None), kc')"
  then obtain cm where cm: "configMaps kc' (nsc, configMapName bidc) = Some cm"
    and data: "envFilesData (pre @ ec # post) Map.empty = Inr (Data cm)"
    using ConfigMap_created(1) [of dc kc bidc pidc nsc nc kc' "pre @ ec # post"] by auto
  from envFilesData_last_wins [OF data] h obtain v
    where "content ec = Inr v" "Data cm (fileName ec) = Some v"
    by blast
  with cm show "\<exists>cm v. configMaps kc' (nsc, configMapName bidc) = Some cm \<and>
              content ec = Inr v \<and> Data cm (fileName ec) = Some v"
    by blast
next
  assume "Find_envs dd pidd ''file'' = Inr envsd \<and> ed \<in> set envsd \<and> IsBase64 ed \<and>
    DecodeString (Value ed) = None"
  then show "\<exists>err. CreateConfigMapForEnvFiles (Some dd) kd bidd pidd nsd = (([], Some err), kd)"
    using CreateConfigMapForEnvFiles_bad_base64 by blast
next
  assume "getKubernetesConfig pe = Inr cfge \<and> \<not> clientset_fails pe \<and>
    Find_envs de (ID (Project confige)) ''file'' = Inr envse \<and> ee \<in> set envse \<and>
    IsBase64 ee \<and> DecodeString (Value ee) = None"
  then show "\<exists>err ke'. CreateBuildPod pe (Some de) ke confige = (Some err, ke') \<and>
                  pods ke' = pods ke"
    using CreateBuildPod_bad_base64 by blast
next
  have fn: "fileName \<lparr>ProjectID = 1, Key = ''gs'', Value = ''e30='', Type = ''file'',
       Path = ''android/app/g.json'', IsBase64 = True\<rparr> = ''gs::android__app__g.json''"
    by (simp add: fileName_def encodedPath_def replaceAll_ascii slash_bytes_def)
  have ct: "content \<lparr>ProjectID = 1, Key = ''gs'', Value = ''e30='', Type = ''file'',
       Path = ''android/app/g.json'', IsBase64 = True\<rparr> = Inr ''{}''"
    by (simp add: content_def DecodeString_e30)
  show "(case CreateConfigMapForEnvFiles
           (Some (healthy_db [\<lparr>ProjectID = 1, Key = ''gs'', Value = ''e30='', Type = ''file'',
                               Path = ''android/app/g.json'', IsBase64 = True\<rparr>] []))
           idle_cluster 7 1 ''default'' of
      ((n, err), k) \<Rightarrow>
         n = ''build-7-env-files'' \<and> err = None \<and>
         (case configMaps k (''default'', ''build-7-env-files'') of
            None \<Rightarrow> False
          | Some cm \<Rightarrow> Data cm ''gs::android__app__g.json'' = Some ''{}''))"
    by (simp add: CreateConfigMapForEnvFiles_def healthy_db_def idle_cluster_def Find_envs_def
        ct fn configMapName_def format_uint_7 ConfigMaps_Create_def received_def Let_def)
qed


theorem env_file_content_witness:
  "IsBase64 gs_entry \<and> Value gs_entry = EncodeToString ''{}'' \<and>
   content gs_entry = Inr ''{}'' \<and>
   \<not> IsBase64 raw_entry \<and> content raw_entry = Inr ''MODE=dev'' \<and>
   Find_envs (healthy_db [gs_entry] []) 1 ''file'' = Inr ([] @ gs_entry # []) \<and>
   fileName gs_entry \<notin> fileName ` set [] \<and>
   CreateConfigMapForEnvFiles (Some (healthy_db [gs_entry] [])) idle_cluster 7 1 ''default'' =
     ((''build-7-env-files'', None),
      snd (CreateConfigMapForEnvFiles (Some (healthy_db [gs_entry] [])) idle_cluster 7 1
             ''default'')) \<and>
   (\<exists>cm v. configMaps (snd (CreateConfigMapForEnvFiles (Some (healthy_db [gs_entry] []))
                               idle_cluster 7 1 ''default''))
              (''default'', configMapName 7) = Some cm \<and>
           content gs_entry = Inr v \<and> Data cm (fileName gs_entry) = Some v) \<and>
   Find_envs (healthy_db [bad_entry] []) 1 ''file'' = Inr [bad_entry] \<and>
   bad_entry \<in> set [bad_entry] \<and> IsBase64 bad_entry \<and>
   DecodeString (Value bad_entry) = None \<and>
   (\<exists>err. CreateConfigMapForEnvFiles (Some (healthy_db [bad_entry] [])) idle_cluster 7 1
            ''default'' = (([], Some err), idle_cluster)) \<and>
   getKubernetesConfig pod_process = Inr InClusterConfig \<and> \<not> clientset_fails pod_process \<and>
   Find_envs (healthy_db [bad_entry] []) (ID (Project sample_config)) ''file'' = Inr [bad_entry] \<and>
   (\<exists>err k'. CreateBuildPod pod_process (Some (healthy_db [bad_entry] [])) idle_cluster
               sample_config = (Some err, k') \<and> pods k' = pods idle_cluster)"
proof -
  note T = env_file_content [where ea = gs_entry and c = "''{}''" and eb = raw_entry
      and dc = "healthy_db [gs_entry] []" and pidc = 1 and pre = "[]" and ec = gs_entry
      and post = "[]" and kc = idle_cluster and bidc = 7 and nsc = "''default''"
      and nc = "''build-7-env-files''"
      and kc' = "snd (CreateConfigMapForEnvFiles (Some (healthy_db [gs_entry] [])) idle_cluster
                        7 1 ''default'')"
      and dd = "healthy_db [bad_entry] []" and pidd = 1 and envsd = "[bad_entry]"
      and ed = bad_entry and kd = idle_cluster and bidd = 7 and nsd = "''default''"
      and pe = pod_process and cfge = InClusterConfig and de = "healthy_db [bad_entry] []"
      and confige = sample_config and envse = "[bad_entry]" and ee = bad_entry
      and ke = idle_cluster]
  have a: "IsBase64 gs_entry \<and> Value gs_entry = EncodeToString ''{}''"
    by (simp add: gs_entry_def EncodeToString_braces del: EncodeToString.simps)
  have b: "\<not> IsBase64 raw_entry" "Value raw_entry = ''MODE=dev''"
    by (simp_all add: raw_entry_def)
  have c1: "Find_envs (healthy_db [gs_entry] []) 1 ''file'' = Inr ([] @ gs_entry # [])"
    by (simp add: Find_envs_def healthy_db_def gs_entry_def)
  have c2: "fileName gs_entry \<notin> fileName ` set []"
    by simp
  have "fst (CreateConfigMapForEnvFiles (Some (healthy_db [gs_entry] [])) idle_cluster 7 1
              ''default'') = (''build-7-env-files'', None)"
    using T by (simp add: gs_entry_def split: prod.splits)
  then have c3: "CreateConfigMapForEnvFiles (Some (healthy_db [gs_entry] [])) idle_cluster 7 1
        ''default'' =
     ((''build-7-env-files'', None),
      snd (CreateConfigMapForEnvFiles (Some (healthy_db [gs_entry] [])) idle_cluster 7 1
             ''default''))"
    by (metis prod.collapse)
  have d1: "Find_envs (healthy_db [bad_entry] []) 1 ''file'' = Inr [bad_entry]"
    by (simp add: Find_envs_def healthy_db_def bad_entry_def)
  have d2: "IsBase64 bad_entry" "DecodeString (Value bad_entry) = None"
    by (simp_all add: bad_entry_def DecodeString_bangs)
  have e1: "getKubernetesConfig pod_process = Inr InClusterConfig" "\<not> clientset_fails pod_process"
    by (simp_all add: getKubernetesConfig_def pod_process_def)
  have e2: "Find_envs (healthy_db [bad_entry] []) (ID (Project sample_config)) ''file'' =
      Inr [bad_entry]"
    using d1 by (simp add: sample_config_def)
  have m: "bad_entry \<in> set [bad_entry]"
    by simp
  from T a have r1: "content gs_entry = Inr ''{}''"
    by blast
  from T b(1) have "content raw_entry = Inr (Value raw_entry)"
    by blast
  then have r2: "content raw_entry = Inr ''MODE=dev''"
    unfolding b(2) .
  from T c1 c2 c3 have r3:
    "\<exists>cm v. configMaps (snd (CreateConfigMapForEnvFiles (Some (healthy_db [gs_entry] []))
                               idle_cluster 7 1 ''default''))
              (''default'', configMapName 7) = Some cm \<and>
           content gs_entry = Inr v \<and> Data cm (fileName gs_entry) = Some v"
    by blast
  from T d1 d2 m have r4:
    "\<exists>err. CreateConfigMapForEnvFiles (Some (healthy_db [bad_entry] [])) idle_cluster 7 1
            ''default'' = (([], Some err), idle_cluster)"
    by blast
  from T e1 e2 d2 m have r5:
    "\<exists>err k'. CreateBuildPod pod_process (Some (healthy_db [bad_entry] [])) idle_cluster
               sample_config = (Some err, k') \<and> pods k' = pods idle_cluster"
    by blast
  from a b(1) r1 r2 c1 c2 c3 r3 d1 m d2 r4 e1 e2 r5 show ?thesis
    by blast
qed

text \<open>
  The claim as stated fails for an entry that is followed by another entry with the
  same data key: the stored value is the later entry's content.
\<close>

theorem env_file_content_counterexample:
  "\<not> IsBase64 raw_entry \<and>
   (case CreateConfigMapForEnvFiles (Some (healthy_db [raw_entry, later_entry] []))
           idle_cluster 7 1 ''default'' of
      ((n, err), k) \<Rightarrow>
         err = None \<and>
         (case configMaps k (''default'', ''build-7-env-files'') of
            None \<Rightarrow> False
          | Some cm \<Rightarrow> Data cm (fileName raw_entry) = Some ''MODE=prod'' \<and>
                      Data cm (fileName raw_entry) \<noteq> Some (Value raw_entry)))"
  by (simp add: CreateConfigMapForEnvFiles_def healthy_db_def idle_cluster_def Find_envs_def
      content_def fileName_def raw_entry_def later_entry_def configMapName_def format_uint_7
      ConfigMaps_Create_def received_def Let_def)

section \<open>Defaults of the composed environment\<close>

lemma values_of_BUILD_TARGET:
  "values_of ''BUILD_TARGET'' (buildEnvironmentVariables config) =
     [getBuildTarget (Platform config) (BuildTarget config)]"
  by (simp add: values_of_def buildEnvironmentVariables_def plain_def Let_def)

lemma values_of_FLUTTER_CHANNEL:
  "values_of ''FLUTTER_CHANNEL'' (buildEnvironmentVariables config) =
     [getFlutterChannel (FlutterChannel config)]"
  by (simp add: values_of_def buildEnvironmentVariables_def plain_def Let_def)

text \<open>
  Claim C5 (amended). With an empty BuildTarget the emitted BUILD_TARGET is \<open>apk\<close> for
  platform android and \<open>ios\<close> for platform ios; a non-empty BuildTarget is emitted as
  it is, whatever the platform; a FlutterChannel that is empty or \<open>latest\<close> is emitted
  as \<open>stable\<close>.
\<close>

theorem build_target_channel_defaults:
  "(Platform ca = ''android'' \<and> BuildTarget ca = [] \<longrightarrow>
      values_of ''BUILD_TARGET'' (buildEnvironmentVariables ca) = [''apk'']) \<and>
   (Platform cb = ''ios'' \<and> BuildTarget cb = [] \<longrightarrow>
      values_of ''BUILD_TARGET'' (buildEnvironmentVariables cb) = [''ios'']) \<and>
   (BuildTarget cc \<noteq> [] \<longrightarrow>
      values_of ''BUILD_TARGET'' (buildEnvironmentVariables cc) = [BuildTarget cc]) \<and>
   (FlutterChannel cd = [] \<or> FlutterChannel cd = ''latest'' \<longrightarrow>
      values_of ''FLUTTER_CHANNEL'' (buildEnvironmentVariables cd) = [''stable''])"
  by (simp add: values_of_BUILD_TARGET values_of_FLUTTER_CHANNEL getBuildTarget_def
      getFlutterChannel_def)

theorem build_target_channel_defaults_witness:
  "Platform sample_config = ''android'' \<and> BuildTarget sample_config = [] \<and>
   values_of ''BUILD_TARGET'' (buildEnvironmentVariables sample_config) = [''apk''] \<and>
   Platform (sample_config\<lparr>Platform := ''ios''\<rparr>) = ''ios'' \<and>
   BuildTarget (sample_config\<lparr>Platform := ''ios''\<rparr>) = [] \<and>
   values_of ''BUILD_TARGET'' (buildEnvironmentVariables (sample_config\<lparr>Platform := ''ios''\<rparr>))
     = [''ios''] \<and>
   BuildTarget (sample_config\<lparr>BuildTarget := ''aab''\<rparr>) \<noteq> [] \<and>
   values_of ''BUILD_TARGET'' (buildEnvironmentVariables (sample_config\<lparr>BuildTarget := ''aab''\<rparr>))
     = [''aab''] \<and>
   FlutterChannel (sample_config\<lparr>FlutterChannel := ''latest''\<rparr>) = ''latest'' \<and>
   values_of ''FLUTTER_CHANNEL''
     (buildEnvironmentVariables (sample_config\<lparr>FlutterChannel := ''latest''\<rparr>)) = [''stable'']"
  using build_target_channel_defaults [of sample_config "sample_config\<lparr>Platform := ''ios''\<rparr>"
      "sample_config\<lparr>BuildTarget := ''aab''\<rparr>" "sample_config\<lparr>FlutterChannel := ''latest''\<rparr>"]
  by (simp add: sample_config_def)

text \<open>
  The claim as stated fails for platform ios with an explicit BuildTarget: the explicit
  value is emitted.
\<close>

theorem build_target_ios_counterexample:
  "values_of ''BUILD_TARGET''
     (buildEnvironmentVariables (sample_config\<lparr>Platform := ''ios'', BuildTarget := ''apk''\<rparr>)) =
     [''apk''] \<and>
   values_of ''BUILD_TARGET''
     (buildEnvironmentVariables (sample_config\<lparr>Platform := ''ios'', BuildTarget := ''apk''\<rparr>)) \<noteq>
     [''ios'']"
  by (simp add: values_of_BUILD_TARGET getBuildTarget_def sample_config_def)

section \<open>Deleting the resources of a build\<close>

lemma Pods_Delete_step:
  assumes "Pods_Delete c ns n = (e, c')"
  shows "requests c' = requests c @ [(Delete, PodKind, ns, n)]"
    "rejects c' = rejects c" "configMaps c' = configMaps c" "secrets c' = secrets c"
    "pvcs c' = pvcs c"
    "pods c' = (if rejects c Delete PodKind then pods c else (pods c)((ns, n) := None))"
    "e = (if rejects c Delete PodKind then Some APIRejected
          else if pods c (ns, n) = None then Some NotFound else None)"
  using assms by (auto simp: Pods_Delete_def received_def Let_def split: if_splits)

lemma ConfigMaps_Delete_step:
  assumes "ConfigMaps_Delete c ns n = (e, c')"
  shows "requests c' = requests c @ [(Delete, ConfigMapKind, ns, n)]"
    "rejects c' = rejects c" "pods c' = pods c" "secrets c' = secrets c"
    "pvcs c' = pvcs c"
    "configMaps c' =
       (if rejects c Delete ConfigMapKind then configMaps c else (configMaps c)((ns, n) := None))"
    "e = (if rejects c Delete ConfigMapKind then Some APIRejected
          else if configMaps c (ns, n) = None then Some NotFound else None)"
  using assms by (auto simp: ConfigMaps_Delete_def received_def Let_def split: if_splits)

lemma Secrets_Delete_step:
  assumes "Secrets_Delete c ns n = (e, c')"
  shows "requests c' = requests c @ [(Delete, SecretKind, ns, n)]"
    "rejects c' = rejects c" "pods c' = pods c" "configMaps c' = configMaps c"
    "pvcs c' = pvcs c"
    "secrets c' = (if rejects c Delete SecretKind then secrets c else (secrets c)((ns, n) := None))"
    "e = (if rejects c Delete SecretKind then Some APIRejected
          else if secrets c (ns, n) = None then Some NotFound else None)"
  using assms by (auto simp: Secrets_Delete_def received_def Let_def split: if_splits)

lemma PersistentVolumeClaims_Delete_step:
  assumes "PersistentVolumeClaims_Delete c ns n = (e, c')"
  shows "requests c' = requests c @ [(Delete, PVCKind, ns, n)]"
    "rejects c' = rejects c" "pods c' = pods c" "configMaps c' = configMaps c"
    "secrets c' = secrets c"
    "pvcs c' = (if rejects c Delete PVCKind then pvcs c else (pvcs c)((ns, n) := None))"
    "e = (if rejects c Delete PVCKind then Some APIRejected
          else if pvcs c (ns, n) = None then Some NotFound else None)"
  using assms by (auto simp: PersistentVolumeClaims_Delete_def received_def Let_def split: if_splits)

text \<open>
  Claim C8. \<open>DeleteBuildResources\<close> never returns an error. Whatever the first
  deletions answer, the server receives the four delete requests, for the Pod, the
  ConfigMap, the Secret and the PVC of the build, by their names and in this order;
  whether an object is removed depends on its own request alone. What is printed is
  exactly one warning per failed deletion, in that order: a rejected request is
  reported with the server's error, a request for an absent object with "not found",
  and a deletion that succeeds prints nothing. In particular the call returns no
  error when none of the four objects exists.
\<close>

theorem delete_build_resources_best_effort:
  "fst (DeleteBuildResources k8s bid ns) = None \<and>
   fst (snd (DeleteBuildResources k8s bid ns)) =
     (if rejects k8s Delete PodKind then [(PodKind, podName bid, APIRejected)]
      else if pods k8s (ns, podName bid) = None then [(PodKind, podName bid, NotFound)]
      else []) @
     (if rejects k8s Delete ConfigMapKind then [(ConfigMapKind, configMapName bid, APIRejected)]
      else if configMaps k8s (ns, configMapName bid) = None
      then [(ConfigMapKind, configMapName bid, NotFound)]
      else []) @
     (if rejects k8s Delete SecretKind then [(SecretKind, secretName bid, APIRejected)]
      else if secrets k8s (ns, secretName bid) = None then [(SecretKind, secretName bid, NotFound)]
      else []) @
     (if rejects k8s Delete PVCKind then [(PVCKind, pvcName bid, APIRejected)]
      else if pvcs k8s (ns, pvcName bid) = None then [(PVCKind, pvcName bid, NotFound)]
      else []) \<and>
   requests (snd (snd (DeleteBuildResources k8s bid ns))) =
     requests k8s @
     [(Delete, PodKind, ns, podName bid), (Delete, ConfigMapKind, ns, configMapName bid),
      (Delete, SecretKind, ns, secretName bid), (Delete, PVCKind, ns, pvcName bid)] \<and>
   pods (snd (snd (DeleteBuildResources k8s bid ns))) =
     (if rejects k8s Delete PodKind then pods k8s else (pods k8s)((ns, podName bid) := None)) \<and>
   configMaps (snd (snd (DeleteBuildResources k8s bid ns))) =
     (if rejects k8s Delete ConfigMapKind then configMaps k8s
      else (configMaps k8s)((ns, configMapName bid) := None)) \<and>
   secrets (snd (snd (DeleteBuildResources k8s bid ns))) =
     (if rejects k8s Delete SecretKind then secrets k8s
      else (secrets k8s)((ns, secretName bid) := None)) \<and>
   pvcs (snd (snd (DeleteBuildResources k8s bid ns))) =
     (if rejects k8s Delete PVCKind then pvcs k8s else (pvcs k8s)((ns, pvcName bid) := None))"
proof -
  obtain e1 c1 where s1: "Pods_Delete k8s ns (podName bid) = (e1, c1)"
    by (metis surj_pair)
  obtain e2 c2 where s2: "ConfigMaps_Delete c1 ns (configMapName bid) = (e2, c2)"
    by (metis surj_pair)
  obtain e3 c3 where s3: "Secrets_Delete c2 ns (secretName bid) = (e3, c3)"
    by (metis surj_pair)
  obtain e4 c4 where s4: "PersistentVolumeClaims_Delete c3 ns (pvcName bid) = (e4, c4)"
    by (metis surj_pair)
  note p = Pods_Delete_step [OF s1] and c = ConfigMaps_Delete_step [OF s2]
    and s = Secrets_Delete_step [OF s3] and v = PersistentVolumeClaims_Delete_step [OF s4]
  have e: "e1 = (if rejects k8s Delete PodKind then Some APIRejected
                 else if pods k8s (ns, podName bid) = None then Some NotFound else None)"
    "e2 = (if rejects k8s Delete ConfigMapKind then Some APIRejected
           else if configMaps k8s (ns, configMapName bid) = None then Some NotFound else None)"
    "e3 = (if rejects k8s Delete SecretKind then Some APIRejected
           else if secrets k8s (ns, secretName bid) = None then Some NotFound else None)"
    "e4 = (if rejects k8s Delete PVCKind then Some APIRejected
           else if pvcs k8s (ns, pvcName bid) = None then Some NotFound else None)"
    by (simp_all add: p c s v)
  have r1: "fst (DeleteBuildResources k8s bid ns) = None"
    and r3: "snd (snd (DeleteBuildResources k8s bid ns)) = c4"
    by (simp_all add: DeleteBuildResources_def s1 s2 s3 s4 Let_def)
  have "fst (snd (DeleteBuildResources k8s bid ns)) =
      (case e1 of None \<Rightarrow> [] | Some x \<Rightarrow> [(PodKind, podName bid, x)]) @
      (case e2 of None \<Rightarrow> [] | Some x \<Rightarrow> [(ConfigMapKind, configMapName bid, x)]) @
      (case e3 of None \<Rightarrow> [] | Some x \<Rightarrow> [(SecretKind, secretName bid, x)]) @
      (case e4 of None \<Rightarrow> [] | Some x \<Rightarrow> [(PVCKind, pvcName bid, x)])"
    by (simp add: DeleteBuildResources_def s1 s2 s3 s4 Let_def split: option.splits)
  also have "\<dots> =
     (if rejects k8s Delete PodKind then [(PodKind, podName bid, APIRejected)]
      else if pods k8s (ns, podName bid) = None then [(PodKind, podName bid, NotFound)]
      else []) @
     (if rejects k8s Delete ConfigMapKind then [(ConfigMapKind, configMapName bid, APIRejected)]
      else if configMaps k8s (ns, configMapName bid) = None
      then [(ConfigMapKind, configMapName bid, NotFound)]
      else []) @
     (if rejects k8s Delete SecretKind then [(SecretKind, secretName bid, APIRejected)]
      else if secrets k8s (ns, secretName bid) = None then [(SecretKind, secretName bid, NotFound)]
      else []) @
     (if rejects k8s Delete PVCKind then [(PVCKind, pvcName bid, APIRejected)]
      else if pvcs k8s (ns, pvcName bid) = None then [(PVCKind, pvcName bid, NotFound)]
      else [])"
    unfolding e by simp
  finally have r2: "fst (snd (DeleteBuildResources k8s bid ns)) =
     (if rejects k8s Delete PodKind then [(PodKind, podName bid, APIRejected)]
      else if pods k8s (ns, podName bid) = None then [(PodKind, podName bid, NotFound)]
      else []) @
     (if rejects k8s Delete ConfigMapKind then [(ConfigMapKind, configMapName bid, APIRejected)]
      else if configMaps k8s (ns, configMapName bid) = None
      then [(ConfigMapKind, configMapName bid, NotFound)]
      else []) @
     (if rejects k8s Delete SecretKind then [(SecretKind, secretName bid, APIRejected)]
      else if secrets k8s (ns, secretName bid) = None then [(SecretKind, secretName bid, NotFound)]
      else []) @
     (if rejects k8s Delete PVCKind then [(PVCKind, pvcName bid, APIRejected)]
      else if pvcs k8s (ns, pvcName bid) = None then [(PVCKind, pvcName bid, NotFound)]
      else [])" .
  have q: "requests c4 = requests k8s @
     [(Delete, PodKind, ns, podName bid), (Delete, ConfigMapKind, ns, configMapName bid),
      (Delete, SecretKind, ns, secretName bid), (Delete, PVCKind, ns, pvcName bid)]"
    by (simp add: p(1) c(1) s(1) v(1))
  have o: "pods c4 = (if rejects k8s Delete PodKind then pods k8s
                      else (pods k8s)((ns, podName bid) := None))"
    "configMaps c4 = (if rejects k8s Delete ConfigMapKind then configMaps k8s
                      else (configMaps k8s)((ns, configMapName bid) := None))"
    "secrets c4 = (if rejects k8s Delete SecretKind then secrets k8s
                      else (secrets k8s)((ns, secretName bid) := None))"
    "pvcs c4 = (if rejects k8s Delete PVCKind then pvcs k8s
                      else (pvcs k8s)((ns, pvcName bid) := None))"
    by (simp_all add: p c s v)
  from r1 r2 q o show ?thesis
    unfolding r3 by (intro conjI)
qed

theorem delete_build_resources_absent_witness:
  "fst (DeleteBuildResources idle_cluster 7 ''default'') = None \<and>
   fst (snd (DeleteBuildResources idle_cluster 7 ''default'')) =
     [(PodKind, podName 7, NotFound), (ConfigMapKind, configMapName 7, NotFound),
      (SecretKind, secretName 7, NotFound), (PVCKind, pvcName 7, NotFound)] \<and>
   length (requests (snd (snd (DeleteBuildResources idle_cluster 7 ''default'')))) = 4 \<and>
   fst (DeleteBuildResources guarded_cluster 7 ''default'') = None \<and>
   fst (snd (DeleteBuildResources guarded_cluster 7 ''default'')) =
     [(ConfigMapKind, configMapName 7, NotFound), (SecretKind, secretName 7, APIRejected),
      (PVCKind, pvcName 7, NotFound)] \<and>
   pods guarded_cluster (''default'', podName 7) \<noteq> None \<and>
   pods (snd (snd (DeleteBuildResources guarded_cluster 7 ''default''))) (''default'', podName 7) =
     None \<and>
   requests (snd (snd (DeleteBuildResources guarded_cluster 7 ''default''))) =
     [(Delete, PodKind, ''default'', podName 7), (Delete, ConfigMapKind, ''default'', configMapName 7),
      (Delete, SecretKind, ''default'', secretName 7), (Delete, PVCKind, ''default'', pvcName 7)]"
  using delete_build_resources_best_effort [of idle_cluster 7 "''default''"]
    delete_build_resources_best_effort [of guarded_cluster 7 "''default''"]
  by (simp add: idle_cluster_def guarded_cluster_def)

section \<open>Wiring of the signing keystore\<close>

lemma buildPod_fields:
  "Containers (buildPod p config ns ev vm vs) =
     [\<lparr>c_Name = ''build'', Image = getFlutterBuildImage p, c_Env = ev, VolumeMounts = vm,
       Requests = [''cpu'' \<mapsto> parseQuantity ''1000m'', ''memory'' \<mapsto> parseQuantity ''2Gi''],
       Limits = [''cpu'' \<mapsto> parseQuantity ''4000m'', ''memory'' \<mapsto> parseQuantity ''8Gi'']\<rparr>]"
  "Volumes (buildPod p config ns ev vm vs) = vs"
  "RestartPolicy (buildPod p config ns ev vm vs) = ''Never''"
  by (simp_all add: buildPod_def)

lemma fixed_variables_plain:
  "\<forall>v \<in> set (buildEnvironmentVariables config).
     ValueFrom v = None \<and> ev_Name v \<notin> set keystore_names"
  by (simp add: buildEnvironmentVariables_def plain_def Let_def keystore_names_def)

lemma dbEnvVars_plain:
  "dbEnvVars DB pid = Inr dbVars \<Longrightarrow> \<forall>v \<in> set dbVars. ValueFrom v = None"
  by (auto simp: dbEnvVars_def plain_def split: option.splits sum.splits)


lemma keystore_not_mounted:
  "''keystore'' \<notin> vm_Name ` set (volumeMounts cmn [])"
  "''keystore'' \<notin> vol_Name ` set (volumes pv cmn [])"
  by (auto simp: volumeMounts_def volumes_def)


lemma pod_without_keystore:
  assumes "Platform config \<noteq> ''android'' \<or>
           (\<exists>d err. DB = Some d \<and> First_keystore d (ID (Project config)) = Inl err)"
    and "CreateBuildPod p DB k8s config = (None, k8s')"
  shows "\<exists>pod c dbVars.
         pods k8s' (getNamespace p, podName (BuildID config)) = Some pod \<and>
         Containers pod = [c] \<and>
         ''keystore'' \<notin> vm_Name ` set (VolumeMounts c) \<and>
         ''keystore'' \<notin> vol_Name ` set (Volumes pod) \<and>
         dbEnvVars DB (ID (Project config)) = Inr dbVars \<and>
         c_Env c = buildEnvironmentVariables config @ dbVars \<and>
         (\<forall>v \<in> set (c_Env c). ValueFrom v = None) \<and>
         (\<forall>v \<in> set (c_Env c). ev_Name v \<in> set keystore_names \<longrightarrow> v \<in> set dbVars)"
    and "secrets k8s' = secrets k8s"
    and "\<forall>r \<in> set (requests k8s'). r \<in> set (requests k8s) \<or> fst (snd r) \<noteq> SecretKind"
proof -
  from assms(2) obtain c1 cmn c2 sn c3 dbVars where
    s1: "CreatePersistentVolumeClaimForArtifacts k8s (BuildID config) (getNamespace p) =
       ((pvcName (BuildID config), None), c1)"
    and s2: "CreateConfigMapForEnvFiles DB c1 (BuildID config) (ID (Project config))
           (getNamespace p) = ((cmn, None), c2)"
    and s3: "(if Platform config = ''android''
      then CreateSecretForKeystore DB c2 (BuildID config) (ID (Project config))
             (getNamespace p)
      else (([], None), c2)) = ((sn, None), c3)"
    and d: "dbEnvVars DB (ID (Project config)) = Inr dbVars"
    and s4: "Pods_Create c3 (getNamespace p)
       (buildPod p config (getNamespace p)
          (buildEnvironmentVariables config @ dbVars @
             (if sn \<noteq> [] then keystoreEnvVars sn else []))
          (volumeMounts cmn sn) (volumes (pvcName (BuildID config)) cmn sn)) = (None, k8s')"
    by (rule CreateBuildPod_success)
  from s3 assms(1) have sn: "sn = []" and c3: "c3 = c2"
    by (auto simp: Secret_skipped(2) split: if_splits)
  define pod where "pod = buildPod p config (getNamespace p)
      (buildEnvironmentVariables config @ dbVars)
      (volumeMounts cmn []) (volumes (pvcName (BuildID config)) cmn [])"
  from s4 sn c3 have s4': "Pods_Create c2 (getNamespace p) pod = (None, k8s')"
    by (simp add: pod_def)
  note pc = Pods_Create_ok [OF s4']
  have 1: "pods k8s' (getNamespace p, podName (BuildID config)) = Some pod"
    using pc(1) by (simp add: pod_def buildPod_Name)
  obtain c where c: "Containers pod = [c]" "VolumeMounts c = volumeMounts cmn []"
    "c_Env c = buildEnvironmentVariables config @ dbVars"
    by (simp add: pod_def buildPod_fields(1))
  have 2: "Volumes pod = volumes (pvcName (BuildID config)) cmn []"
    by (simp add: pod_def buildPod_fields(2))
  have 3: "\<forall>v \<in> set (c_Env c). ValueFrom v = None"
    using fixed_variables_plain [of config] dbEnvVars_plain [OF d] by (auto simp: c(3))
  have 4: "\<forall>v \<in> set (c_Env c). ev_Name v \<in> set keystore_names \<longrightarrow> v \<in> set dbVars"
    using fixed_variables_plain [of config] by (auto simp: c(3))
  have 5: "''keystore'' \<notin> vm_Name ` set (VolumeMounts c)"
    unfolding c(2) by (rule keystore_not_mounted(1))
  have 6: "''keystore'' \<notin> vol_Name ` set (Volumes pod)"
    unfolding 2 by (rule keystore_not_mounted(2))
  from 1 c(1,3) d 3 4 5 6 show "\<exists>pod c dbVars.
         pods k8s' (getNamespace p, podName (BuildID config)) = Some pod \<and>
         Containers pod = [c] \<and>
         ''keystore'' \<notin> vm_Name ` set (VolumeMounts c) \<and>
         ''keystore'' \<notin> vol_Name ` set (Volumes pod) \<and>
         dbEnvVars DB (ID (Project config)) = Inr dbVars \<and>
         c_Env c = buildEnvironmentVariables config @ dbVars \<and>
         (\<forall>v \<in> set (c_Env c). ValueFrom v = None) \<and>
         (\<forall>v \<in> set (c_Env c). ev_Name v \<in> set keystore_names \<longrightarrow> v \<in> set dbVars)"
    by blast
  show "secrets k8s' = secrets k8s"
    using pc(2) ConfigMap_step(3) [OF s2] PVC_step(3) [OF s1] by simp
  have "set (requests k8s') \<subseteq> set (requests k8s) \<union>
      {(Create, PVCKind, getNamespace p, pvcName (BuildID config)),
       (Create, ConfigMapKind, getNamespace p, configMapName (BuildID config)),
       (Create, PodKind, getNamespace p, podName (BuildID config))}"
    using pc(5) ConfigMap_step(5) [OF s2] PVC_step(5) [OF s1]
    by (auto simp: pod_def buildPod_Name)
  then show "\<forall>r \<in> set (requests k8s'). r \<in> set (requests k8s) \<or> fst (snd r) \<noteq> SecretKind"
    by auto
qed

text \<open>When each step is accepted, the build starts.\<close>

lemma PVC_runs:
  assumes "\<not> rejects k8s Create PVCKind" and "pvcs k8s (ns, pvcName bid) = None"
  shows "\<exists>c1. CreatePersistentVolumeClaimForArtifacts k8s bid ns = ((pvcName bid, None), c1)"
  using assms
  by (simp add: CreatePersistentVolumeClaimForArtifacts_def PersistentVolumeClaims_Create_def Let_def)

lemma ConfigMap_runs:
  assumes "Find_envs d pid ''file'' = Inr envs" and "envFilesData envs Map.empty = Inr data"
    and "\<not> rejects k Create ConfigMapKind" and "configMaps k (ns, configMapName bid) = None"
  shows "\<exists>cmn c2. CreateConfigMapForEnvFiles (Some d) k bid pid ns = ((cmn, None), c2)"
  using assms
  by (simp add: CreateConfigMapForEnvFiles_def ConfigMaps_Create_def Let_def)

lemma dbEnvVars_Some: "\<exists>dbVars. dbEnvVars (Some d) pid = Inr dbVars"
  by (simp add: dbEnvVars_def split: sum.splits)

lemma Pods_Create_runs:
  assumes "\<not> rejects k Create PodKind" and "pods k (ns, Name (pod_ObjectMeta pod)) = None"
  shows "\<exists>k'. Pods_Create k ns pod = (None, k')"
  using assms by (simp add: Pods_Create_def Let_def)

lemma CreateBuildPod_runs_without_keystore:
  assumes "getKubernetesConfig p = Inr cfg" and "\<not> clientset_fails p"
    and "accepts k8s (getNamespace p) (BuildID config)"
    and "Find_envs d (ID (Project config)) ''file'' = Inr envs"
    and "envFilesData envs Map.empty = Inr data"
    and "First_keystore d (ID (Project config)) = Inl err"
  shows "\<exists>k8s'. CreateBuildPod p (Some d) k8s config = (None, k8s')"
proof -
  from assms(3) have a: "\<not> rejects k8s Create PVCKind"
    "pvcs k8s (getNamespace p, pvcName (BuildID config)) = None"
    "\<not> rejects k8s Create ConfigMapKind"
    "configMaps k8s (getNamespace p, configMapName (BuildID config)) = None"
    "\<not> rejects k8s Create PodKind"
    "pods k8s (getNamespace p, podName (BuildID config)) = None"
    by (simp_all add: accepts_def)
  from PVC_runs [OF a(1,2)] obtain c1 where s1:
    "CreatePersistentVolumeClaimForArtifacts k8s (BuildID config) (getNamespace p) =
       ((pvcName (BuildID config), None), c1)"
    by blast
  note p1 = PVC_step [OF s1]
  from ConfigMap_runs [OF assms(4,5), of c1 "getNamespace p" "BuildID config"] a(3,4) p1(2,4)
  obtain cmn c2 where s2:
    "CreateConfigMapForEnvFiles (Some d) c1 (BuildID config) (ID (Project config))
       (getNamespace p) = ((cmn, None), c2)"
    by auto
  note p2 = ConfigMap_step [OF s2]
  have s3: "(if Platform config = ''android''
      then CreateSecretForKeystore (Some d) c2 (BuildID config) (ID (Project config))
             (getNamespace p)
      else (([], None), c2)) = (([], None), c2)"
    by (simp add: Secret_skipped(2) [OF assms(6)])
  obtain dbVars where dv: "dbEnvVars (Some d) (ID (Project config)) = Inr dbVars"
    using dbEnvVars_Some by blast
  define pod where "pod = buildPod p config (getNamespace p)
      (buildEnvironmentVariables config @ dbVars @ (if [] \<noteq> [] then keystoreEnvVars [] else []))
      (volumeMounts cmn []) (volumes (pvcName (BuildID config)) cmn [])"
  have "\<not> rejects c2 Create PodKind" "pods c2 (getNamespace p, Name (pod_ObjectMeta pod)) = None"
    using a(5,6) p1(1,4) p2(1,4) by (simp_all add: pod_def buildPod_Name)
  from Pods_Create_runs [OF this] obtain k8s' where s4:
    "Pods_Create c2 (getNamespace p) pod = (None, k8s')"
    by blast
  have "CreateBuildPod p (Some d) k8s config = (map_option (Errorf ''failed to create pod'') None, k8s')"
    using assms(1,2) s1 s2 s3 dv s4 [unfolded pod_def]
    by (intro CreateBuildPod_compose [where sn = "[]" and kc = c2 and e = None]) simp_all
  then show ?thesis
    by simp
qed

lemma android_run_ok: "fst android_run = None"
  by (simp add: android_run_def CreateBuildPod_def getKubernetesConfig_def pod_process_def
      getNamespace_def CreatePersistentVolumeClaimForArtifacts_def
      PersistentVolumeClaims_Create_def received_def idle_cluster_def Let_def
      CreateConfigMapForEnvFiles_def healthy_db_def Find_envs_def sample_config_def
      CreateSecretForKeystore_def First_keystore_def sample_keystore_def DecodeString_e30
      Secrets_Create_def dbEnvVars_def Pods_Create_def secretName_nonempty)



lemma build_without_keystore:
  assumes "getKubernetesConfig p = Inr rc" and "\<not> clientset_fails p"
    and "accepts k8s (getNamespace p) (BuildID cfg)"
    and "Find_envs d (ID (Project cfg)) ''file'' = Inr envs"
    and "envFilesData envs Map.empty = Inr data"
    and "First_keystore d (ID (Project cfg)) = Inl err"
  shows "\<exists>k8s'. CreateBuildPod p (Some d) k8s cfg = (None, k8s') \<and>
         secrets k8s' = secrets k8s \<and>
         (\<forall>r \<in> set (requests k8s'). r \<in> set (requests k8s) \<or> fst (snd r) \<noteq> SecretKind) \<and>
         (\<exists>pod c dbVars.
            pods k8s' (getNamespace p, podName (BuildID cfg)) = Some pod \<and>
            Containers pod = [c] \<and>
            ''keystore'' \<notin> vm_Name ` set (VolumeMounts c) \<and>
            ''keystore'' \<notin> vol_Name ` set (Volumes pod) \<and>
            dbEnvVars (Some d) (ID (Project cfg)) = Inr dbVars \<and>
            c_Env c = buildEnvironmentVariables cfg @ dbVars \<and>
            (\<forall>v \<in> set (c_Env c). ValueFrom v = None) \<and>
            (\<forall>v \<in> set (c_Env c). ev_Name v \<in> set keystore_names \<longrightarrow> v \<in> set dbVars))"
proof -
  from CreateBuildPod_runs_without_keystore [OF assms] obtain k8s'
    where r: "CreateBuildPod p (Some d) k8s cfg = (None, k8s')"
    by blast
  have n: "Platform cfg \<noteq> ''android'' \<or>
      (\<exists>d' err. Some d = Some d' \<and> First_keystore d' (ID (Project cfg)) = Inl err)"
    using assms(6) by blast
  from pod_without_keystore [OF n r] r show ?thesis
    by blast
qed

lemma CreateBuildPod_file_query_fails:
  assumes "getKubernetesConfig p = Inr rc" and "\<not> clientset_fails p"
    and "query_fails d (EnvsQuery ''file'')"
  shows "\<exists>err k8s'. CreateBuildPod p (Some d) k8s cfg = (Some err, k8s') \<and> pods k8s' = pods k8s"
proof -
  obtain n e c1 where pvc:
    "CreatePersistentVolumeClaimForArtifacts k8s (BuildID cfg) (getNamespace p) = ((n, e), c1)"
    by (metis surj_pair)
  have "CreateConfigMapForEnvFiles (Some d) c1 (BuildID cfg) (ID (Project cfg)) (getNamespace p)
       = (([], Some (Errorf ''failed to fetch environment files'' DBError)), c1)"
    using assms(3) by (simp add: CreateConfigMapForEnvFiles_def Find_envs_def)
  with pvc PVC_step(1) [OF pvc] assms(1,2) show ?thesis
    by (cases e) (simp_all add: CreateBuildPod_def Let_def)
qed

text \<open>
  A build start with an uninitialised data source passes the two optional steps and
  then panics where the variable rows are read.
\<close>

lemma nil_data_source_panics:
  assumes "getKubernetesConfig p = Inr rc" and "\<not> clientset_fails p"
    and "CreatePersistentVolumeClaimForArtifacts k8s (BuildID cfg) (getNamespace p) =
           ((n, None), k1)"
  shows "CreateBuildPod p None k8s cfg = (Some NilPointerPanic, k1)"
  using assms
  by (simp add: CreateBuildPod_def Let_def ConfigMap_skipped(1) Secret_skipped(1) dbEnvVars_def)





section \<open>Absent optional features\<close>

text \<open>
  Claim C7. With zero file entries ConfigMap creation, and with no active keystore
  record Secret creation, returns the empty name and no error and leaves the cluster
  as it was; so do both when the data source is uninitialised. An android build of a
  project with no active keystore starts without error whenever the cluster
  configuration is available, the cluster accepts the objects of the build and the
  file entries decode; no Secret is created or requested, and the pod has no keystore
  mount or volume and no variable that refers to a Secret.
\<close>

theorem optional_features_absent:
  "(Find_envs da pida ''file'' = Inr [] \<longrightarrow>
      CreateConfigMapForEnvFiles (Some da) ka bida pida nsa = (([], None), ka)) \<and>
   (\<not> query_fails da (EnvsQuery ''file'') \<and>
    (\<forall>e \<in> set (env_rows da). ProjectID e = pida \<longrightarrow> Type e \<noteq> ''file'') \<longrightarrow>
      Find_envs da pida ''file'' = Inr []) \<and>
   (First_keystore db pidb = Inl ErrRecordNotFound \<longrightarrow>
      CreateSecretForKeystore (Some db) kb bidb pidb nsb = (([], None), kb)) \<and>
   (\<not> query_fails db KeystoreQuery \<and>
    (\<forall>k \<in> set (keystore_rows db). ks_ProjectID k = pidb \<longrightarrow> \<not> IsActive k) \<longrightarrow>
      First_keystore db pidb = Inl ErrRecordNotFound) \<and>
   CreateConfigMapForEnvFiles None kc bidc pidc nsc = (([], None), kc) \<and>
   CreateSecretForKeystore None kc bidc pidc nsc = (([], None), kc) \<and>
   (Platform cfg = ''android'' \<and> First_keystore d (ID (Project cfg)) = Inl ErrRecordNotFound \<and>
    getKubernetesConfig p = Inr rc \<and> \<not> clientset_fails p \<and>
    accepts k8s (getNamespace p) (BuildID cfg) \<and>
    Find_envs d (ID (Project cfg)) ''file'' = Inr envs \<and>
    envFilesData envs Map.empty = Inr data \<longrightarrow>
      (\<exists>k8s'. CreateBuildPod p (Some d) k8s cfg = (None, k8s') \<and>
         secrets k8s' = secrets k8s \<and>
         (\<forall>r \<in> set (requests k8s'). r \<in> set (requests k8s) \<or> fst (snd r) \<noteq> SecretKind) \<and>
         (\<exists>pod c dbVars.
            pods k8s' (getNamespace p, podName (BuildID cfg)) = Some pod \<and>
            Containers pod = [c] \<and>
            ''keystore'' \<notin> vm_Name ` set (VolumeMounts c) \<and>
            ''keystore'' \<notin> vol_Name ` set (Volumes pod) \<and>
            dbEnvVars (Some d) (ID (Project cfg)) = Inr dbVars \<and>
            c_Env c = buildEnvironmentVariables cfg @ dbVars \<and>
            (\<forall>v \<in> set (c_Env c). ValueFrom v = None) \<and>
            (\<forall>v \<in> set (c_Env c). ev_Name v \<in> set keystore_names \<longrightarrow> v \<in> set dbVars))))"
proof (intro conjI impI)
  assume "Find_envs da pida ''file'' = Inr []"
  then show "CreateConfigMapForEnvFiles (Some da) ka bida pida nsa = (([], None), ka)"
    by (rule ConfigMap_skipped(2))
next
  assume "\<not> query_fails da (EnvsQuery ''file'') \<and>
    (\<forall>e \<in> set (env_rows da). ProjectID e = pida \<longrightarrow> Type e \<noteq> ''file'')"
  then show "Find_envs da pida ''file'' = Inr []"
    by (auto simp: Find_envs_def filter_empty_conv)
next
  assume "First_keystore db pidb = Inl ErrRecordNotFound"
  then show "CreateSecretForKeystore (Some db) kb bidb pidb nsb = (([], None), kb)"
    by (rule Secret_skipped(2))
next
  assume "\<not> query_fails db KeystoreQuery \<and>
    (\<forall>k \<in> set (keystore_rows db). ks_ProjectID k = pidb \<longrightarrow> \<not> IsActive k)"
  then have "filter (\<lambda>k. ks_ProjectID k = pidb \<and> IsActive k) (keystore_rows db) = []"
    by (auto simp: filter_empty_conv)
  with \<open>\<not> query_fails db KeystoreQuery \<and> _\<close>
  show "First_keystore db pidb = Inl ErrRecordNotFound"
    by (simp add: First_keystore_def)
next
  show "CreateConfigMapForEnvFiles None kc bidc pidc nsc = (([], None), kc)"
    by (rule ConfigMap_skipped(1))
next
  show "CreateSecretForKeystore None kc bidc pidc nsc = (([], None), kc)"
    by (rule Secret_skipped(1))
next
  assume "Platform cfg = ''android'' \<and> First_keystore d (ID (Project cfg)) = Inl ErrRecordNotFound \<and>
    getKubernetesConfig p = Inr rc \<and> \<not> clientset_fails p \<and>
    accepts k8s (getNamespace p) (BuildID cfg) \<and>
    Find_envs d (ID (Project cfg)) ''file'' = Inr envs \<and>
    envFilesData envs Map.empty = Inr data"
  then show "\<exists>k8s'. CreateBuildPod p (Some d) k8s cfg = (None, k8s') \<and>
         secrets k8s' = secrets k8s \<and>
         (\<forall>r \<in> set (requests k8s'). r \<in> set (requests k8s) \<or> fst (snd r) \<noteq> SecretKind) \<and>
         (\<exists>pod c dbVars.
            pods k8s' (getNamespace p, podName (BuildID cfg)) = Some pod \<and>
            Containers pod = [c] \<and>
            ''keystore'' \<notin> vm_Name ` set (VolumeMounts c) \<and>
            ''keystore'' \<notin> vol_Name ` set (Volumes pod) \<and>
            dbEnvVars (Some d) (ID (Project cfg)) = Inr dbVars \<and>
            c_Env c = buildEnvironmentVariables cfg @ dbVars \<and>
            (\<forall>v \<in> set (c_Env c). ValueFrom v = None) \<and>
            (\<forall>v \<in> set (c_Env c). ev_Name v \<in> set keystore_names \<longrightarrow> v \<in> set dbVars))"
    using build_without_keystore [of p rc k8s cfg d envs data ErrRecordNotFound] by blast
qed

theorem optional_features_absent_witness:
  "Find_envs (healthy_db [] []) 1 ''file'' = Inr [] \<and>
   CreateConfigMapForEnvFiles (Some (healthy_db [] [])) idle_cluster 7 1 ''default'' =
     (([], None), idle_cluster) \<and>
   First_keystore (healthy_db [] []) 1 = Inl ErrRecordNotFound \<and>
   CreateSecretForKeystore (Some (healthy_db [] [])) idle_cluster 7 1 ''default'' =
     (([], None), idle_cluster) \<and>
   Platform sample_config = ''android'' \<and>
   getKubernetesConfig pod_process = Inr InClusterConfig \<and> \<not> clientset_fails pod_process \<and>
   accepts idle_cluster (getNamespace pod_process) (BuildID sample_config) \<and>
   envFilesData [] Map.empty = Inr Map.empty \<and>
   (\<exists>k8s'. CreateBuildPod pod_process (Some (healthy_db [] [])) idle_cluster sample_config =
            (None, k8s') \<and>
          secrets k8s' = secrets idle_cluster \<and>
          (\<exists>pod c. pods k8s' (getNamespace pod_process, podName (BuildID sample_config)) = Some pod \<and>
                   Containers pod = [c] \<and>
                   ''keystore'' \<notin> vm_Name ` set (VolumeMounts c) \<and>
                   (\<forall>v \<in> set (c_Env c). ValueFrom v = None)))"
proof -
  note T = optional_features_absent [where da = "healthy_db [] []" and pida = 1
      and ka = idle_cluster and bida = 7 and nsa = "''default''"
      and db = "healthy_db [] []" and pidb = 1 and kb = idle_cluster and bidb = 7
      and nsb = "''default''" and cfg = sample_config and d = "healthy_db [] []"
      and p = pod_process and rc = InClusterConfig and k8s = idle_cluster
      and envs = "[]" and data = Map.empty]
  have a: "Find_envs (healthy_db [] []) 1 ''file'' = Inr []"
    by (simp add: Find_envs_def healthy_db_def)
  have b: "First_keystore (healthy_db [] []) 1 = Inl ErrRecordNotFound"
    by (simp add: First_keystore_def healthy_db_def)
  have c: "Platform sample_config = ''android''" "ID (Project sample_config) = 1"
    by (simp_all add: sample_config_def)
  have e: "getKubernetesConfig pod_process = Inr InClusterConfig" "\<not> clientset_fails pod_process"
    by (simp_all add: getKubernetesConfig_def pod_process_def)
  have f: "accepts idle_cluster (getNamespace pod_process) (BuildID sample_config)"
    by (simp add: accepts_def idle_cluster_def)
  have g: "envFilesData [] Map.empty = Inr Map.empty"
    by simp
  from T a have r1: "CreateConfigMapForEnvFiles (Some (healthy_db [] [])) idle_cluster 7 1
      ''default'' = (([], None), idle_cluster)"
    by blast
  from T b have r2: "CreateSecretForKeystore (Some (healthy_db [] [])) idle_cluster 7 1
      ''default'' = (([], None), idle_cluster)"
    by blast
  from T a b c e f g have r3:
    "\<exists>k8s'. CreateBuildPod pod_process (Some (healthy_db [] [])) idle_cluster sample_config =
            (None, k8s') \<and>
          secrets k8s' = secrets idle_cluster \<and>
          (\<exists>pod c. pods k8s' (getNamespace pod_process, podName (BuildID sample_config)) = Some pod \<and>
                   Containers pod = [c] \<and>
                   ''keystore'' \<notin> vm_Name ` set (VolumeMounts c) \<and>
                   (\<forall>v \<in> set (c_Env c). ValueFrom v = None))"
    unfolding c(2) by blast
  from a r1 b r2 c(1) e f g r3 show ?thesis
    by blast
qed

section \<open>Failure of the keystore query\<close>

text \<open>
  Claim C10 (amended). Whatever error the query for the active keystore returns,
  \<open>CreateSecretForKeystore\<close> returns the empty name and no error and leaves the cluster
  as it was; a failing keystore statement is such an error. When the keystore
  statement fails while the statement for the file entries succeeds, an android build
  start goes on and, the cluster accepting its objects, creates the pod with no
  Secret, no keystore mount and no variable referring to a Secret, and returns no
  error. When the statement for the file entries fails as well, the build start
  returns an error and creates no pod.
\<close>

theorem keystore_query_failure_is_silent:
  "(First_keystore da pida = Inl erra \<longrightarrow>
      CreateSecretForKeystore (Some da) ka bida pida nsa = (([], None), ka)) \<and>
   (query_fails db KeystoreQuery \<longrightarrow> First_keystore db pidb = Inl DBError) \<and>
   (Platform cfg = ''android'' \<and> query_fails d KeystoreQuery \<and>
    getKubernetesConfig p = Inr rc \<and> \<not> clientset_fails p \<and>
    accepts k8s (getNamespace p) (BuildID cfg) \<and>
    Find_envs d (ID (Project cfg)) ''file'' = Inr envs \<and>
    envFilesData envs Map.empty = Inr data \<longrightarrow>
      (\<exists>k8s'. CreateBuildPod p (Some d) k8s cfg = (None, k8s') \<and>
         secrets k8s' = secrets k8s \<and>
         (\<forall>r \<in> set (requests k8s'). r \<in> set (requests k8s) \<or> fst (snd r) \<noteq> SecretKind) \<and>
         (\<exists>pod c dbVars.
            pods k8s' (getNamespace p, podName (BuildID cfg)) = Some pod \<and>
            Containers pod = [c] \<and>
            ''keystore'' \<notin> vm_Name ` set (VolumeMounts c) \<and>
            ''keystore'' \<notin> vol_Name ` set (Volumes pod) \<and>
            dbEnvVars (Some d) (ID (Project cfg)) = Inr dbVars \<and>
            c_Env c = buildEnvironmentVariables cfg @ dbVars \<and>
            (\<forall>v \<in> set (c_Env c). ValueFrom v = None) \<and>
            (\<forall>v \<in> set (c_Env c). ev_Name v \<in> set keystore_names \<longrightarrow> v \<in> set dbVars)))) \<and>
   (query_fails de (EnvsQuery ''file'') \<and> getKubernetesConfig pe = Inr rce \<and>
    \<not> clientset_fails pe \<longrightarrow>
      (\<exists>err ke'. CreateBuildPod pe (Some de) ke cfge = (Some err, ke') \<and> pods ke' = pods ke))"
proof (intro conjI impI)
  assume "First_keystore da pida = Inl erra"
  then show "CreateSecretForKeystore (Some da) ka bida pida nsa = (([], None), ka)"
    by (rule Secret_skipped(2))
next
  assume "query_fails db KeystoreQuery"
  then show "First_keystore db pidb = Inl DBError"
    by (simp add: First_keystore_def)
next
  assume h: "Platform cfg = ''android'' \<and> query_fails d KeystoreQuery \<and>
    getKubernetesConfig p = Inr rc \<and> \<not> clientset_fails p \<and>
    accepts k8s (getNamespace p) (BuildID cfg) \<and>
    Find_envs d (ID (Project cfg)) ''file'' = Inr envs \<and>
    envFilesData envs Map.empty = Inr data"
  then have "First_keystore d (ID (Project cfg)) = Inl DBError"
    by (simp add: First_keystore_def)
  with h show "\<exists>k8s'. CreateBuildPod p (Some d) k8s cfg = (None, k8s') \<and>
         secrets k8s' = secrets k8s \<and>
         (\<forall>r \<in> set (requests k8s'). r \<in> set (requests k8s) \<or> fst (snd r) \<noteq> SecretKind) \<and>
         (\<exists>pod c dbVars.
            pods k8s' (getNamespace p, podName (BuildID cfg)) = Some pod \<and>
            Containers pod = [c] \<and>
            ''keystore'' \<notin> vm_Name ` set (VolumeMounts c) \<and>
            ''keystore'' \<notin> vol_Name ` set (Volumes pod) \<and>
            dbEnvVars (Some d) (ID (Project cfg)) = Inr dbVars \<and>
            c_Env c = buildEnvironmentVariables cfg @ dbVars \<and>
            (\<forall>v \<in> set (c_Env c). ValueFrom v = None) \<and>
            (\<forall>v \<in> set (c_Env c). ev_Name v \<in> set keystore_names \<longrightarrow> v \<in> set dbVars))"
    using build_without_keystore [of p rc k8s cfg d envs data DBError] by blast
next
  assume "query_fails de (EnvsQuery ''file'') \<and> getKubernetesConfig pe = Inr rce \<and>
    \<not> clientset_fails pe"
  then show "\<exists>err ke'. CreateBuildPod pe (Some de) ke cfge = (Some err, ke') \<and> pods ke' = pods ke"
    using CreateBuildPod_file_query_fails by blast
qed

theorem keystore_query_failure_witness:
  "First_keystore keystore_outage_db 1 = Inl DBError \<and>
   CreateSecretForKeystore (Some keystore_outage_db) idle_cluster 7 1 ''default'' =
     (([], None), idle_cluster) \<and>
   query_fails keystore_outage_db KeystoreQuery \<and>
   Platform sample_config = ''android'' \<and>
   getKubernetesConfig pod_process = Inr InClusterConfig \<and> \<not> clientset_fails pod_process \<and>
   accepts idle_cluster (getNamespace pod_process) (BuildID sample_config) \<and>
   Find_envs keystore_outage_db (ID (Project sample_config)) ''file'' = Inr [] \<and>
   envFilesData [] Map.empty = Inr Map.empty \<and>
   (\<exists>k8s'. CreateBuildPod pod_process (Some keystore_outage_db) idle_cluster sample_config =
            (None, k8s') \<and>
          secrets k8s' = secrets idle_cluster \<and>
          (\<exists>pod c. pods k8s' (getNamespace pod_process, podName (BuildID sample_config)) = Some pod \<and>
                   Containers pod = [c] \<and>
                   ''keystore'' \<notin> vm_Name ` set (VolumeMounts c) \<and>
                   (\<forall>v \<in> set (c_Env c). ValueFrom v = None))) \<and>
   query_fails outage_db (EnvsQuery ''file'') \<and>
   (\<exists>err k'. CreateBuildPod pod_process (Some outage_db) idle_cluster sample_config =
              (Some err, k') \<and> pods k' = pods idle_cluster)"
proof -
  note T = keystore_query_failure_is_silent [where da = keystore_outage_db and pida = 1
      and erra = DBError and ka = idle_cluster and bida = 7 and nsa = "''default''"
      and db = keystore_outage_db and pidb = 1
      and cfg = sample_config and d = keystore_outage_db
      and p = pod_process and rc = InClusterConfig and k8s = idle_cluster
      and envs = "[]" and data = Map.empty
      and de = outage_db and pe = pod_process and rce = InClusterConfig
      and ke = idle_cluster and cfge = sample_config]
  have a: "query_fails keystore_outage_db KeystoreQuery"
    by (simp add: keystore_outage_db_def)
  from T a have b: "First_keystore keystore_outage_db 1 = Inl DBError"
    by blast
  from T b have r1: "CreateSecretForKeystore (Some keystore_outage_db) idle_cluster 7 1
      ''default'' = (([], None), idle_cluster)"
    by blast
  have c: "Platform sample_config = ''android''"
    by (simp add: sample_config_def)
  have e: "getKubernetesConfig pod_process = Inr InClusterConfig" "\<not> clientset_fails pod_process"
    by (simp_all add: getKubernetesConfig_def pod_process_def)
  have f: "accepts idle_cluster (getNamespace pod_process) (BuildID sample_config)"
    by (simp add: accepts_def idle_cluster_def)
  have g: "Find_envs keystore_outage_db (ID (Project sample_config)) ''file'' = Inr []"
    "envFilesData [] Map.empty = Inr Map.empty"
    by (simp_all add: Find_envs_def keystore_outage_db_def)
  from T a c e f g have r2:
    "\<exists>k8s'. CreateBuildPod pod_process (Some keystore_outage_db) idle_cluster sample_config =
            (None, k8s') \<and>
          secrets k8s' = secrets idle_cluster \<and>
          (\<exists>pod c. pods k8s' (getNamespace pod_process, podName (BuildID sample_config)) = Some pod \<and>
                   Containers pod = [c] \<and>
                   ''keystore'' \<notin> vm_Name ` set (VolumeMounts c) \<and>
                   (\<forall>v \<in> set (c_Env c). ValueFrom v = None))"
    by blast
  have h: "query_fails outage_db (EnvsQuery ''file'')"
    by (simp add: outage_db_def)
  from T h e have r3:
    "\<exists>err k'. CreateBuildPod pod_process (Some outage_db) idle_cluster sample_config =
              (Some err, k') \<and> pods k' = pods idle_cluster"
    by blast
  from b r1 a c e f g r2 h r3 show ?thesis
    by blast
qed

text \<open>
  The claim as stated fails during an outage that affects every statement: the query
  for the file entries, which comes first, fails, and the build start reports it
  instead of creating the pod.
\<close>

theorem database_outage_counterexample:
  "query_fails outage_db KeystoreQuery \<and> Platform sample_config = ''android'' \<and>
   fst (CreateBuildPod pod_process (Some outage_db) idle_cluster sample_config) =
     Some (Errorf ''failed to create ConfigMap''
            (Errorf ''failed to fetch environment files'' DBError)) \<and>
   pods (snd (CreateBuildPod pod_process (Some outage_db) idle_cluster sample_config))
     (''default'', podName 7) = None"
  by (simp add: CreateBuildPod_def getKubernetesConfig_def pod_process_def
      getNamespace_def CreatePersistentVolumeClaimForArtifacts_def
      PersistentVolumeClaims_Create_def received_def idle_cluster_def Let_def
      CreateConfigMapForEnvFiles_def outage_db_def Find_envs_def sample_config_def)

section \<open>Composition of the environment\<close>

lemma sint_small: 
  assumes "unat (x :: uint) < 2 ^ 63"
  shows "sint x = int (unat x)"
proof -
  have eq: "int (unat x) = uint x"
    by simp
  from assms have "int (unat x) < int (2 ^ 63)"
    by (simp only: of_nat_less_iff)
  then have u: "uint x < 2 ^ 63"
    unfolding eq by simp
  have "(0 :: int) \<le> uint x"
    by simp
  moreover have "- (2 ^ 63) \<le> (0 :: int)"
    by simp
  ultimately have l: "- (2 ^ 63) \<le> uint x"
    by linarith
  have s: "sint x = signed_take_bit (LENGTH(64) - Suc 0) (uint x)"
    by (rule sint_uint)
  have n: "LENGTH(64) - Suc 0 = 63"
    by simp
  have "signed_take_bit 63 (uint x) = uint x"
    using l u by (rule signed_take_bit_int_eq_self)
  then show ?thesis
    unfolding s n eq .
qed


lemma Itoa_int: "Itoa (int n) = format_nat n"
  by (simp add: Itoa_def)

lemma Itoa_small: "unat x < 2 ^ 63 \<Longrightarrow> Itoa (int_of_uint x) = format_uint x"
  by (simp only: int_of_uint_def format_uint_def sint_small Itoa_int)

lemma env_run_ok: "fst env_run = None"
  by (simp add: env_run_def CreateBuildPod_def getKubernetesConfig_def pod_process_def
      getNamespace_def CreatePersistentVolumeClaimForArtifacts_def
      PersistentVolumeClaims_Create_def received_def idle_cluster_def Let_def
      CreateConfigMapForEnvFiles_def healthy_db_def Find_envs_def sample_config_def
      CreateSecretForKeystore_def First_keystore_def var_one_def var_two_def
      dbEnvVars_def Pods_Create_def)

lemma buildEnvironmentVariables_eq:
  "buildEnvironmentVariables config =
     [plain ''GIT_REPO'' (GitRepo (Project config)),
      plain ''BUILD_FOLDER'' (BuildFolder (Project config)),
      plain ''PLATFORM'' (Platform config),
      plain ''BUILD_ID'' (Itoa (int_of_uint (BuildID config))),
      plain ''BUILD_MODE'' (if BuildMode config = [] then ''release'' else BuildMode config),
      plain ''BUILD_TARGET'' (getBuildTarget (Platform config) (BuildTarget config)),
      plain ''FLUTTER_CHANNEL'' (getFlutterChannel (FlutterChannel config)),
      plain ''OUTPUT_DIR'' ''/outputs'',
      plain ''ENV_FILES_DIR'' ''/env-files''] @
     (if GitBranch config = [] then [] else [plain ''GIT_BRANCH'' (GitBranch config)]) @
     (if GitUsername config = [] then [] else [plain ''GIT_USERNAME'' (GitUsername config)]) @
     (if GitPassword config = [] then [] else [plain ''GIT_PASSWORD'' (GitPassword config)])"
  by (simp add: buildEnvironmentVariables_def getBuildMode_def Let_def)

lemma git_variables_iff:
  "(''GIT_BRANCH'' \<in> ev_Name ` set (buildEnvironmentVariables config)) = (GitBranch config \<noteq> [])"
  "(''GIT_USERNAME'' \<in> ev_Name ` set (buildEnvironmentVariables config)) = (GitUsername config \<noteq> [])"
  "(''GIT_PASSWORD'' \<in> ev_Name ` set (buildEnvironmentVariables config)) = (GitPassword config \<noteq> [])"
  by (auto simp: buildEnvironmentVariables_eq plain_def)

lemma pod_environment:
  assumes "CreateBuildPod p (Some d) k8s config = (None, k8s')"
    and "\<not> query_fails d (EnvsQuery ''env'')"
  shows "\<exists>pod c ks.
     pods k8s' (getNamespace p, podName (BuildID config)) = Some pod \<and>
     Containers pod = [c] \<and>
     c_Env c = buildEnvironmentVariables config @
               map (\<lambda>e. plain (Key e) (Value e))
                 (filter (\<lambda>e. ProjectID e = ID (Project config) \<and> Type e = ''env'') (env_rows d)) @
               ks \<and>
     (ks = [] \<or> ks = keystoreEnvVars (secretName (BuildID config)))"
proof -
  from assms(1) obtain c1 cmn c2 sn c3 dbVars where
    s3: "(if Platform config = ''android''
      then CreateSecretForKeystore (Some d) c2 (BuildID config) (ID (Project config))
             (getNamespace p)
      else (([], None), c2)) = ((sn, None), c3)"
    and dv: "dbEnvVars (Some d) (ID (Project config)) = Inr dbVars"
    and s4: "Pods_Create c3 (getNamespace p)
       (buildPod p config (getNamespace p)
          (buildEnvironmentVariables config @ dbVars @
             (if sn \<noteq> [] then keystoreEnvVars sn else []))
          (volumeMounts cmn sn) (volumes (pvcName (BuildID config)) cmn sn)) = (None, k8s')"
    by (rule CreateBuildPod_success)
  define ks where "ks = (if sn \<noteq> [] then keystoreEnvVars sn else [])"
  from s3 have "sn = [] \<or> sn = secretName (BuildID config)"
    using Secret_step(5) by (auto split: if_splits)
  then have ks: "ks = [] \<or> ks = keystoreEnvVars (secretName (BuildID config))"
    by (auto simp: ks_def)
  from dv assms(2) have dbVars: "dbVars = map (\<lambda>e. plain (Key e) (Value e))
      (filter (\<lambda>e. ProjectID e = ID (Project config) \<and> Type e = ''env'') (env_rows d))"
    by (simp add: dbEnvVars_def Find_envs_def)
  define pod where "pod = buildPod p config (getNamespace p)
      (buildEnvironmentVariables config @ dbVars @ ks)
      (volumeMounts cmn sn) (volumes (pvcName (BuildID config)) cmn sn)"
  from s4 have s4': "Pods_Create c3 (getNamespace p) pod = (None, k8s')"
    by (simp add: pod_def ks_def)
  have 1: "pods k8s' (getNamespace p, podName (BuildID config)) = Some pod"
    using Pods_Create_ok(1) [OF s4'] by (simp add: pod_def buildPod_Name)
  obtain c where c: "Containers pod = [c]"
    "c_Env c = buildEnvironmentVariables config @ dbVars @ ks"
    by (simp add: pod_def buildPod_fields(1))
  from 1 c ks show ?thesis
    unfolding dbVars by blast
qed

text \<open>
  Claim C6. The composed environment starts with the nine fixed variables GIT_REPO,
  BUILD_FOLDER, PLATFORM, BUILD_ID, BUILD_MODE (\<open>release\<close> when the mode is empty),
  BUILD_TARGET, FLUTTER_CHANNEL, OUTPUT_DIR and ENV_FILES_DIR, in this order, followed
  by GIT_BRANCH, GIT_USERNAME and GIT_PASSWORD, each present exactly when its field of
  the configuration is non-empty. In the pod of a build that started without error,
  the variable rows of the project follow them, one variable per row with the row's
  key and value, in the order of the rows and with repeated names kept; only the
  keystore variables can come after.
\<close>

theorem environment_composition:
  "buildEnvironmentVariables config =
     [plain ''GIT_REPO'' (GitRepo (Project config)),
      plain ''BUILD_FOLDER'' (BuildFolder (Project config)),
      plain ''PLATFORM'' (Platform config),
      plain ''BUILD_ID'' (Itoa (int_of_uint (BuildID config))),
      plain ''BUILD_MODE'' (if BuildMode config = [] then ''release'' else BuildMode config),
      plain ''BUILD_TARGET'' (getBuildTarget (Platform config) (BuildTarget config)),
      plain ''FLUTTER_CHANNEL'' (getFlutterChannel (FlutterChannel config)),
      plain ''OUTPUT_DIR'' ''/outputs'',
      plain ''ENV_FILES_DIR'' ''/env-files''] @
     (if GitBranch config = [] then [] else [plain ''GIT_BRANCH'' (GitBranch config)]) @
     (if GitUsername config = [] then [] else [plain ''GIT_USERNAME'' (GitUsername config)]) @
     (if GitPassword config = [] then [] else [plain ''GIT_PASSWORD'' (GitPassword config)]) \<and>
   (''GIT_BRANCH'' \<in> ev_Name ` set (buildEnvironmentVariables config)) = (GitBranch config \<noteq> []) \<and>
   (''GIT_USERNAME'' \<in> ev_Name ` set (buildEnvironmentVariables config)) =
     (GitUsername config \<noteq> []) \<and>
   (''GIT_PASSWORD'' \<in> ev_Name ` set (buildEnvironmentVariables config)) =
     (GitPassword config \<noteq> []) \<and>
   (CreateBuildPod p (Some d) k8s cfg = (None, k8s') \<and> \<not> query_fails d (EnvsQuery ''env'') \<longrightarrow>
      (\<exists>pod c ks.
         pods k8s' (getNamespace p, podName (BuildID cfg)) = Some pod \<and>
         Containers pod = [c] \<and>
         c_Env c = buildEnvironmentVariables cfg @
                   map (\<lambda>e. plain (Key e) (Value e))
                     (filter (\<lambda>e. ProjectID e = ID (Project cfg) \<and> Type e = ''env'')
                        (env_rows d)) @
                   ks \<and>
         (ks = [] \<or> ks = keystoreEnvVars (secretName (BuildID cfg)))))"
proof (intro conjI impI)
  assume "CreateBuildPod p (Some d) k8s cfg = (None, k8s') \<and> \<not> query_fails d (EnvsQuery ''env'')"
  then show "\<exists>pod c ks.
         pods k8s' (getNamespace p, podName (BuildID cfg)) = Some pod \<and>
         Containers pod = [c] \<and>
         c_Env c = buildEnvironmentVariables cfg @
                   map (\<lambda>e. plain (Key e) (Value e))
                     (filter (\<lambda>e. ProjectID e = ID (Project cfg) \<and> Type e = ''env'')
                        (env_rows d)) @
                   ks \<and>
         (ks = [] \<or> ks = keystoreEnvVars (secretName (BuildID cfg)))"
    using pod_environment [of p d k8s cfg k8s'] by blast
qed (rule buildEnvironmentVariables_eq git_variables_iff)+

theorem environment_composition_witness:
  "env_run = (None, snd env_run) \<and>
   \<not> query_fails (healthy_db [var_one, var_two] []) (EnvsQuery ''env'') \<and>
   (\<exists>pod c. pods (snd env_run) (''default'', podName 7) = Some pod \<and>
            Containers pod = [c] \<and>
            values_of ''API_URL'' (c_Env c) = [''https://a.example'', ''https://b.example''] \<and>
            values_of ''BUILD_MODE'' (c_Env c) = [''release''] \<and>
            values_of ''GIT_BRANCH'' (c_Env c) = [])"
proof -
  note T = environment_composition [where p = pod_process
      and d = "healthy_db [var_one, var_two] []" and k8s = idle_cluster
      and cfg = sample_config and k8s' = "snd env_run"]
  have a: "env_run = (None, snd env_run)"
    using env_run_ok by (metis prod.collapse)
  have b: "\<not> query_fails (healthy_db [var_one, var_two] []) (EnvsQuery ''env'')"
    by (simp add: healthy_db_def)
  from T a b obtain pod c ks where
    p: "pods (snd env_run) (getNamespace pod_process, podName (BuildID sample_config)) = Some pod"
    "Containers pod = [c]"
    and e: "c_Env c = buildEnvironmentVariables sample_config @
                   map (\<lambda>e. plain (Key e) (Value e))
                     (filter (\<lambda>e. ProjectID e = ID (Project sample_config) \<and> Type e = ''env'')
                        (env_rows (healthy_db [var_one, var_two] []))) @
                   ks"
    and ks: "ks = [] \<or> ks = keystoreEnvVars (secretName (BuildID sample_config))"
    unfolding env_run_def [symmetric] by blast
  have n: "getNamespace pod_process = ''default''" "BuildID sample_config = 7"
    by (simp_all add: getNamespace_def pod_process_def sample_config_def)
  have f: "values_of ''API_URL'' ks = []" "values_of ''BUILD_MODE'' ks = []"
    "values_of ''GIT_BRANCH'' ks = []"
    using ks by (auto simp: values_of_def keystoreEnvVars_def plain_def fromSecret_def)
  have v: "values_of nm (xs @ ys) = values_of nm xs @ values_of nm ys" for nm xs ys
    by (simp add: values_of_def)
  have 1: "values_of ''API_URL'' (c_Env c) = [''https://a.example'', ''https://b.example'']"
    unfolding e v f
    by (simp add: values_of_def buildEnvironmentVariables_def plain_def Let_def
        sample_config_def healthy_db_def var_one_def var_two_def)
  have 2: "values_of ''BUILD_MODE'' (c_Env c) = [''release'']"
    unfolding e v f
    by (simp add: values_of_def buildEnvironmentVariables_def plain_def Let_def
        sample_config_def healthy_db_def var_one_def var_two_def getBuildMode_def)
  have 3: "values_of ''GIT_BRANCH'' (c_Env c) = []"
    unfolding e v f
    by (simp add: values_of_def buildEnvironmentVariables_def plain_def Let_def
        sample_config_def healthy_db_def var_one_def var_two_def)
  from a b p 1 2 3 show ?thesis
    unfolding n by blast
qed

section \<open>Labels of the created objects\<close>

lemma ConfigMap_labels:
  assumes "CreateConfigMapForEnvFiles DB k bid pid ns = ((n, None), k')" and "n \<noteq> []"
  shows "\<exists>cm. configMaps k' (ns, configMapName bid) = Some cm \<and>
          Labels (cm_ObjectMeta cm) ''app'' = Some ''flotio-build'' \<and>
          Labels (cm_ObjectMeta cm) ''build-id'' = Some (format_uint bid)"
  using assms
  by (auto simp: CreateConfigMapForEnvFiles_def ConfigMaps_Create_def
      received_def Let_def split: if_splits option.splits sum.splits)

lemma Secret_labels:
  assumes "CreateSecretForKeystore DB k bid pid ns = ((n, None), k')" and "n \<noteq> []"
  shows "\<exists>sec. secrets k' (ns, secretName bid) = Some sec \<and>
          Labels (sec_ObjectMeta sec) ''app'' = Some ''flotio-build'' \<and>
          Labels (sec_ObjectMeta sec) ''build-id'' = Some (format_uint bid)"
  using assms
  by (auto simp: CreateSecretForKeystore_def Secrets_Create_def
      received_def Let_def split: if_splits option.splits sum.splits)

lemma Pod_labels:
  assumes "CreateBuildPod p DB k cfg = (None, k')"
  shows "\<exists>pod. pods k' (getNamespace p, podName (BuildID cfg)) = Some pod \<and>
          Labels (pod_ObjectMeta pod) ''app'' = Some ''flotio-build'' \<and>
          Labels (pod_ObjectMeta pod) ''build-id'' = Some (Itoa (int_of_uint (BuildID cfg))) \<and>
          Labels (pod_ObjectMeta pod) ''project-id'' =
            Some (Itoa (int_of_uint (ID (Project cfg)))) \<and>
          Labels (pod_ObjectMeta pod) ''platform'' = Some (Platform cfg)"
proof -
  from assms obtain c3 ev vm vs where
    s4: "Pods_Create c3 (getNamespace p) (buildPod p cfg (getNamespace p) ev vm vs) = (None, k')"
    by (rule CreateBuildPod_success)
  from Pods_Create_ok(1) [OF s4]
  have "pods k' (getNamespace p, podName (BuildID cfg)) =
      Some (buildPod p cfg (getNamespace p) ev vm vs)"
    by (simp add: buildPod_Name)
  then show ?thesis
    by (simp add: buildPod_def)
qed

text \<open>
  Claim C9 (amended). Every created object carries the label \<open>app=flotio-build\<close> and a
  \<open>build-id\<close> label: on the PVC, the ConfigMap and the Secret it is the decimal
  BuildID; on the Pod it is the decimal of the BuildID converted to a signed integer,
  the same text for every BuildID below \<open>2^63\<close>. The Pod carries in addition
  \<open>project-id\<close> and \<open>platform\<close>.
\<close>

theorem created_objects_labels:
  "(CreatePersistentVolumeClaimForArtifacts ka bida nsa = ((na, None), ka') \<longrightarrow>
      (\<exists>pvc. pvcs ka' (nsa, pvcName bida) = Some pvc \<and>
             Labels (pvc_ObjectMeta pvc) ''app'' = Some ''flotio-build'' \<and>
             Labels (pvc_ObjectMeta pvc) ''build-id'' = Some (format_uint bida))) \<and>
   (CreateConfigMapForEnvFiles DBb kb bidb pidb nsb = ((nb, None), kb') \<and> nb \<noteq> [] \<longrightarrow>
      (\<exists>cm. configMaps kb' (nsb, configMapName bidb) = Some cm \<and>
            Labels (cm_ObjectMeta cm) ''app'' = Some ''flotio-build'' \<and>
            Labels (cm_ObjectMeta cm) ''build-id'' = Some (format_uint bidb))) \<and>
   (CreateSecretForKeystore DBc kc bidc pidc nsc = ((nc, None), kc') \<and> nc \<noteq> [] \<longrightarrow>
      (\<exists>sec. secrets kc' (nsc, secretName bidc) = Some sec \<and>
             Labels (sec_ObjectMeta sec) ''app'' = Some ''flotio-build'' \<and>
             Labels (sec_ObjectMeta sec) ''build-id'' = Some (format_uint bidc))) \<and>
   (CreateBuildPod p DB k cfg = (None, k') \<longrightarrow>
      (\<exists>pod. pods k' (getNamespace p, podName (BuildID cfg)) = Some pod \<and>
             Labels (pod_ObjectMeta pod) ''app'' = Some ''flotio-build'' \<and>
             Labels (pod_ObjectMeta pod) ''build-id'' = Some (Itoa (int_of_uint (BuildID cfg))) \<and>
             Labels (pod_ObjectMeta pod) ''project-id'' =
               Some (Itoa (int_of_uint (ID (Project cfg)))) \<and>
             Labels (pod_ObjectMeta pod) ''platform'' = Some (Platform cfg))) \<and>
   (unat x < 2 ^ 63 \<longrightarrow> Itoa (int_of_uint x) = format_uint x)"
proof (intro conjI impI)
  assume "CreatePersistentVolumeClaimForArtifacts ka bida nsa = ((na, None), ka')"
  then show "\<exists>pvc. pvcs ka' (nsa, pvcName bida) = Some pvc \<and>
             Labels (pvc_ObjectMeta pvc) ''app'' = Some ''flotio-build'' \<and>
             Labels (pvc_ObjectMeta pvc) ''build-id'' = Some (format_uint bida)"
    by (rule PVC_step(7)) simp
next
  assume "CreateConfigMapForEnvFiles DBb kb bidb pidb nsb = ((nb, None), kb') \<and> nb \<noteq> []"
  then show "\<exists>cm. configMaps kb' (nsb, configMapName bidb) = Some cm \<and>
            Labels (cm_ObjectMeta cm) ''app'' = Some ''flotio-build'' \<and>
            Labels (cm_ObjectMeta cm) ''build-id'' = Some (format_uint bidb)"
    using ConfigMap_labels by blast
next
  assume "CreateSecretForKeystore DBc kc bidc pidc nsc = ((nc, None), kc') \<and> nc \<noteq> []"
  then show "\<exists>sec. secrets kc' (nsc, secretName bidc) = Some sec \<and>
             Labels (sec_ObjectMeta sec) ''app'' = Some ''flotio-build'' \<and>
             Labels (sec_ObjectMeta sec) ''build-id'' = Some (format_uint bidc)"
    using Secret_labels by blast
next
  assume "CreateBuildPod p DB k cfg = (None, k')"
  then show "\<exists>pod. pods k' (getNamespace p, podName (BuildID cfg)) = Some pod \<and>
             Labels (pod_ObjectMeta pod) ''app'' = Some ''flotio-build'' \<and>
             Labels (pod_ObjectMeta pod) ''build-id'' = Some (Itoa (int_of_uint (BuildID cfg))) \<and>
             Labels (pod_ObjectMeta pod) ''project-id'' =
               Some (Itoa (int_of_uint (ID (Project cfg)))) \<and>
             Labels (pod_ObjectMeta pod) ''platform'' = Some (Platform cfg)"
    by (rule Pod_labels)
next
  assume "unat x < 2 ^ 63"
  then show "Itoa (int_of_uint x) = format_uint x"
    by (rule Itoa_small)
qed


theorem created_objects_labels_witness:
  "CreatePersistentVolumeClaimForArtifacts idle_cluster 7 ''default'' =
     ((pvcName 7, None), snd (CreatePersistentVolumeClaimForArtifacts idle_cluster 7 ''default'')) \<and>
   (\<exists>pvc. pvcs (snd (CreatePersistentVolumeClaimForArtifacts idle_cluster 7 ''default''))
            (''default'', pvcName 7) = Some pvc \<and>
          Labels (pvc_ObjectMeta pvc) ''app'' = Some ''flotio-build'' \<and>
          Labels (pvc_ObjectMeta pvc) ''build-id'' = Some ''7'') \<and>
   CreateConfigMapForEnvFiles (Some (healthy_db [gs_entry] [])) idle_cluster 7 1 ''default'' =
     ((configMapName 7, None),
      snd (CreateConfigMapForEnvFiles (Some (healthy_db [gs_entry] [])) idle_cluster 7 1
             ''default'')) \<and>
   configMapName 7 \<noteq> [] \<and>
   (\<exists>cm. configMaps (snd (CreateConfigMapForEnvFiles (Some (healthy_db [gs_entry] []))
                            idle_cluster 7 1 ''default''))
           (''default'', configMapName 7) = Some cm \<and>
         Labels (cm_ObjectMeta cm) ''app'' = Some ''flotio-build'') \<and>
   CreateSecretForKeystore (Some (healthy_db [] [sample_keystore])) idle_cluster 7 1 ''default'' =
     ((secretName 7, None),
      snd (CreateSecretForKeystore (Some (healthy_db [] [sample_keystore])) idle_cluster 7 1
             ''default'')) \<and>
   secretName 7 \<noteq> [] \<and>
   (\<exists>sec. secrets (snd (CreateSecretForKeystore (Some (healthy_db [] [sample_keystore]))
                          idle_cluster 7 1 ''default''))
            (''default'', secretName 7) = Some sec \<and>
          Labels (sec_ObjectMeta sec) ''app'' = Some ''flotio-build'') \<and>
   android_run = (None, snd android_run) \<and>
   (\<exists>pod. pods (snd android_run) (''default'', podName 7) = Some pod \<and>
          Labels (pod_ObjectMeta pod) ''app'' = Some ''flotio-build'' \<and>
          Labels (pod_ObjectMeta pod) ''build-id'' = Some ''7'' \<and>
          Labels (pod_ObjectMeta pod) ''platform'' = Some ''android'') \<and>
   unat (7 :: uint) < 2 ^ 63 \<and> Itoa (int_of_uint 7) = ''7''"
proof -
  note T = created_objects_labels [where ka = idle_cluster and bida = 7 and nsa = "''default''"
      and na = "pvcName 7"
      and ka' = "snd (CreatePersistentVolumeClaimForArtifacts idle_cluster 7 ''default'')"
      and DBb = "Some (healthy_db [gs_entry] [])" and kb = idle_cluster and bidb = 7
      and pidb = 1 and nsb = "''default''" and nb = "configMapName 7"
      and kb' = "snd (CreateConfigMapForEnvFiles (Some (healthy_db [gs_entry] [])) idle_cluster
                        7 1 ''default'')"
      and DBc = "Some (healthy_db [] [sample_keystore])" and kc = idle_cluster and bidc = 7
      and pidc = 1 and nsc = "''default''" and nc = "secretName 7"
      and kc' = "snd (CreateSecretForKeystore (Some (healthy_db [] [sample_keystore]))
                        idle_cluster 7 1 ''default'')"
      and p = pod_process and DB = "Some (healthy_db [] [sample_keystore])"
      and k = idle_cluster and cfg = sample_config and k' = "snd android_run" and x = 7]
  have "fst (CreatePersistentVolumeClaimForArtifacts idle_cluster 7 ''default'') = (pvcName 7, None)"
    by (simp add: CreatePersistentVolumeClaimForArtifacts_def PersistentVolumeClaims_Create_def
        idle_cluster_def Let_def)
  then have a: "CreatePersistentVolumeClaimForArtifacts idle_cluster 7 ''default'' =
     ((pvcName 7, None), snd (CreatePersistentVolumeClaimForArtifacts idle_cluster 7 ''default''))"
    by (metis prod.collapse)
  have "fst (CreateConfigMapForEnvFiles (Some (healthy_db [gs_entry] [])) idle_cluster 7 1
               ''default'') = (configMapName 7, None)"
    by (simp add: CreateConfigMapForEnvFiles_def healthy_db_def idle_cluster_def Find_envs_def
        gs_entry_def content_def DecodeString_e30 ConfigMaps_Create_def Let_def)
  then have b: "CreateConfigMapForEnvFiles (Some (healthy_db [gs_entry] [])) idle_cluster 7 1
      ''default'' =
     ((configMapName 7, None),
      snd (CreateConfigMapForEnvFiles (Some (healthy_db [gs_entry] [])) idle_cluster 7 1
             ''default''))"
    by (metis prod.collapse)
  have b': "configMapName 7 \<noteq> []"
    by (simp add: configMapName_def)
  have "fst (CreateSecretForKeystore (Some (healthy_db [] [sample_keystore])) idle_cluster 7 1
               ''default'') = (secretName 7, None)"
    by (simp add: CreateSecretForKeystore_def healthy_db_def idle_cluster_def First_keystore_def
        sample_keystore_def DecodeString_e30 Secrets_Create_def Let_def)
  then have c: "CreateSecretForKeystore (Some (healthy_db [] [sample_keystore])) idle_cluster 7 1
      ''default'' =
     ((secretName 7, None),
      snd (CreateSecretForKeystore (Some (healthy_db [] [sample_keystore])) idle_cluster 7 1
             ''default''))"
    by (metis prod.collapse)
  have c': "secretName 7 \<noteq> []"
    by (rule secretName_nonempty)
  have d: "android_run = (None, snd android_run)"
    using android_run_ok by (metis prod.collapse)
  have e: "unat (7 :: uint) < 2 ^ 63"
    by simp
  have n: "getNamespace pod_process = ''default''" "BuildID sample_config = 7"
    "Platform sample_config = ''android''"
    by (simp_all add: getNamespace_def pod_process_def sample_config_def)
  from T e have f: "Itoa (int_of_uint 7) = ''7''"
    unfolding format_uint_7 by blast
  from T a have r1: "\<exists>pvc. pvcs (snd (CreatePersistentVolumeClaimForArtifacts idle_cluster 7 ''default''))
            (''default'', pvcName 7) = Some pvc \<and>
          Labels (pvc_ObjectMeta pvc) ''app'' = Some ''flotio-build'' \<and>
          Labels (pvc_ObjectMeta pvc) ''build-id'' = Some ''7''"
    unfolding format_uint_7 by blast
  from T b b' have r2: "\<exists>cm. configMaps (snd (CreateConfigMapForEnvFiles (Some (healthy_db [gs_entry] []))
                            idle_cluster 7 1 ''default''))
           (''default'', configMapName 7) = Some cm \<and>
         Labels (cm_ObjectMeta cm) ''app'' = Some ''flotio-build''"
    by blast
  from T c c' have r3: "\<exists>sec. secrets (snd (CreateSecretForKeystore (Some (healthy_db [] [sample_keystore]))
                          idle_cluster 7 1 ''default''))
            (''default'', secretName 7) = Some sec \<and>
          Labels (sec_ObjectMeta sec) ''app'' = Some ''flotio-build''"
    by blast
  from T d have r4: "\<exists>pod. pods (snd android_run) (''default'', podName 7) = Some pod \<and>
          Labels (pod_ObjectMeta pod) ''app'' = Some ''flotio-build'' \<and>
          Labels (pod_ObjectMeta pod) ''build-id'' = Some ''7'' \<and>
          Labels (pod_ObjectMeta pod) ''platform'' = Some ''android''"
    unfolding android_run_def [symmetric] n f by blast
  from a r1 b b' r2 c c' r3 d r4 e f show ?thesis
    by blast
qed

text \<open>
  The claim as stated fails on the value of the \<open>app\<close> label: it is \<open>flotio-build\<close>,
  not \<open>build-system\<close>.
\<close>

theorem app_label_counterexample:
  "(case pvcs (snd (CreatePersistentVolumeClaimForArtifacts idle_cluster 7 ''default''))
           (''default'', pvcName 7) of
      None \<Rightarrow> False
    | Some pvc \<Rightarrow> Labels (pvc_ObjectMeta pvc) ''app'' = Some ''flotio-build'' \<and>
                  Labels (pvc_ObjectMeta pvc) ''app'' \<noteq> Some ''build-system'')"
  by (simp add: CreatePersistentVolumeClaimForArtifacts_def PersistentVolumeClaims_Create_def
      idle_cluster_def received_def Let_def)

end
